(* ===== verification/Prelude.thy ===== *)
theory Prelude
  imports Main "HOL-Library.Word"
begin

text \<open>
  Shared vocabulary of the four pallets under \<open>src/pallets/\<close>: the Rust integer types
  as words, Rust's \<open>+\<close> under the two build profiles (a release build wraps, a debug
  build panics on overflow), \<open>saturating_add\<close>, the FRAME origin check
  \<open>ensure_signed\<close>, the conversion of the block number to \<open>u64\<close> that every call
  performs, and \<open>BoundedVec::try_from\<close>. A dispatchable call is modelled as a function
  from its arguments and the pallet's storage to \<open>'e dispatch_error + storage\<close>:
  \<open>Inl\<close> is the \<open>DispatchError\<close> the call returns (FRAME then discards every storage
  write and event of the call), \<open>Inr\<close> the storage after the call.
\<close>

type_synonym u8 = "8 word"
type_synonym u32 = "32 word"
type_synonym u64 = "64 word"
type_synonym u128 = "128 word"

named_theorems dispatch_defs "unfoldings of the dispatchable calls of the pallets"
named_theorems arith_simps "evaluation rules of the Rust arithmetic of the model"

subsection \<open>Rust arithmetic\<close>

text \<open>
  The code uses plain \<open>+\<close> on \<open>u32\<close> and \<open>u64\<close>. Its meaning depends on the build:
  with overflow checks (the debug profile the tests run under) an overflow panics, and
  the extrinsic fails without effect; without them (the release profile a runtime is
  built with) the sum wraps modulo \<open>2 ^ w\<close>.
\<close>

datatype build_profile = Release | Debug

definition overflows :: "'a::len word \<Rightarrow> 'a word \<Rightarrow> bool" where
  "overflows a b \<longleftrightarrow> 2 ^ LENGTH('a) \<le> unat a + unat b"

definition rust_add :: "build_profile \<Rightarrow> 'a::len word \<Rightarrow> 'a word \<Rightarrow> 'a word option" where
  "rust_add prof a b = (if overflows a b \<and> prof = Debug then None else Some (a + b))"

text \<open>\<open>u128::saturating_add\<close>: the sum, or \<open>u128::MAX\<close> when it does not fit.\<close>

definition saturating_add :: "'a::len word \<Rightarrow> 'a word \<Rightarrow> 'a word" where
  "saturating_add a b = (if overflows a b then - 1 else a + b)"

subsection \<open>FRAME: origins, dispatch errors, block numbers, bounded vectors\<close>

text \<open>\<open>RuntimeOrigin::signed(a)\<close>, \<open>::root()\<close> and \<open>::none()\<close>.\<close>

datatype 'acc origin = Signed 'acc | Root | NoneOrigin

text \<open>
  \<open>DispatchError\<close>: \<open>BadOrigin\<close> from \<open>ensure_signed\<close>, \<open>Module e\<close> for an error
  \<open>e\<close> of the pallet's own \<open>Error\<close> enum, and \<open>Panic\<close> for an arithmetic overflow
  of a debug build (the extrinsic is aborted and none of its writes persist).
\<close>

datatype 'e dispatch_error = BadOrigin | Module 'e | Panic

definition ensure_signed :: "'acc origin \<Rightarrow> 'e dispatch_error + 'acc" where
  "ensure_signed origin = (case origin of Signed who \<Rightarrow> Inr who | _ \<Rightarrow> Inl BadOrigin)"

text \<open>
  \<open>frame_system::Pallet::<T>::block_number().try_into()\<close> into \<open>u64\<close>: the block number
  type of the runtime is generic, so it is a \<open>nat\<close> here, and the conversion fails for
  values that do not fit in 64 bits.
\<close>

definition block_number_u64 :: "nat \<Rightarrow> u64 option" where
  "block_number_u64 n = (if n < 2 ^ 64 then Some (word_of_nat n) else None)"

text \<open>\<open>BoundedVec::<u8, ConstU32<bound>>::try_from(v)\<close>.\<close>

definition bounded_vec :: "nat \<Rightarrow> 'a list \<Rightarrow> 'a list option" where
  "bounded_vec bound xs = (if length xs \<le> bound then Some xs else None)"

text \<open>A Rust byte-string literal \<open>b"..."\<close>: the ASCII codes of its characters.\<close>

definition bytes :: "string \<Rightarrow> u8 list" where
  "bytes s = map of_char s"

text \<open>\<open><[u8]>::repeat\<close>: the byte string repeated \<open>n\<close> times.\<close>

definition rust_repeat :: "nat \<Rightarrow> u8 list \<Rightarrow> u8 list" where
  "rust_repeat n xs = concat (replicate n xs)"

subsection \<open>Pallets as state machines\<close>

text \<open>
  The interface every pallet model implements: a dispatcher takes the current block
  number, the origin, a call of the pallet's \<open>Call\<close> enum and the storage, and returns
  an error or the new storage. The runtime applies extrinsics one at a time; a failed one
  leaves the storage unchanged (FRAME's transactional dispatch), and between extrinsics
  the block number may grow but never shrinks.
\<close>

type_synonym ('acc, 'c, 'e, 's) dispatcher = "nat \<Rightarrow> 'acc origin \<Rightarrow> 'c \<Rightarrow> 's \<Rightarrow> 'e dispatch_error + 's"

definition apply_call :: "('acc, 'c, 'e, 's) dispatcher \<Rightarrow> nat \<Rightarrow> 'acc origin \<Rightarrow> 'c \<Rightarrow> 's \<Rightarrow> 's" where
  "apply_call dispatch now origin c s = (case dispatch now origin c s of Inl _ \<Rightarrow> s | Inr s' \<Rightarrow> s')"

fun run_calls :: "('acc, 'c, 'e, 's) dispatcher \<Rightarrow> 's \<Rightarrow> (nat \<times> 'acc origin \<times> 'c) list \<Rightarrow> 's" where
  "run_calls dispatch s [] = s"
| "run_calls dispatch s ((now, origin, c) # cs) = run_calls dispatch (apply_call dispatch now origin c s) cs"

inductive reachable :: "('acc, 'c, 'e, 's) dispatcher \<Rightarrow> 's \<Rightarrow> nat \<Rightarrow> 's \<Rightarrow> bool"
  for dispatch :: "('acc, 'c, 'e, 's) dispatcher" and init :: 's where
  genesis: "reachable dispatch init 0 init"
| advance: "reachable dispatch init n s \<Longrightarrow> n \<le> n' \<Longrightarrow> reachable dispatch init n' s"
| dispatch: "reachable dispatch init n s \<Longrightarrow> dispatch n origin c s = Inr s' \<Longrightarrow>
    reachable dispatch init n s'"

subsection \<open>Lemmas shared by the pallets\<close>

text \<open>
  An invariant of the reachable states: it holds at genesis, survives the growth of the
  block number and every successful call.
\<close>

lemma reachable_inv:
  assumes "reachable dispatch init n s"
    and "I 0 init"
    and "\<And>n n' s. I n s \<Longrightarrow> n \<le> n' \<Longrightarrow> I n' s"
    and "\<And>n s origin c s'. I n s \<Longrightarrow> dispatch n origin c s = Inr s' \<Longrightarrow> I n s'"
  shows "I n s"
  using assms(1)
proof (induction rule: reachable.induct)
  case genesis
  show ?case by (rule assms(2))
next
  case (advance n s n')
  then show ?case using assms(3) by blast
next
  case (dispatch n s origin c s')
  then show ?case using assms(4) by blast
qed

lemma apply_call_cases:
  "apply_call dispatch now origin c s = s \<or> dispatch now origin c s = Inr (apply_call dispatch now origin c s)"
  by (auto simp: apply_call_def split: sum.split)

lemma apply_call_Inr [simp]: "dispatch now origin c s = Inr s' \<Longrightarrow> apply_call dispatch now origin c s = s'"
  by (simp add: apply_call_def)

lemma apply_call_Inl [simp]: "dispatch now origin c s = Inl e \<Longrightarrow> apply_call dispatch now origin c s = s"
  by (simp add: apply_call_def)

lemma run_calls_append:
  "run_calls dispatch s (xs @ ys) = run_calls dispatch (run_calls dispatch s xs) ys"
  by (induction dispatch s xs rule: run_calls.induct) simp_all

lemma ensure_signed_Signed [simp]: "ensure_signed (Signed a) = Inr a"
  by (simp add: ensure_signed_def)

lemma ensure_signed_Root [simp]: "ensure_signed Root = Inl BadOrigin"
  by (simp add: ensure_signed_def)

lemma ensure_signed_NoneOrigin [simp]: "ensure_signed NoneOrigin = Inl BadOrigin"
  by (simp add: ensure_signed_def)

lemma ensure_signed_Inr: "ensure_signed origin = Inr a \<longleftrightarrow> origin = Signed a"
  by (cases origin) (auto simp: ensure_signed_def)

lemma ensure_signed_Inl: "ensure_signed origin = Inl e \<Longrightarrow> e = BadOrigin"
  by (cases origin) (auto simp: ensure_signed_def)

lemma block_number_u64_small [simp]:
  "n < 2 ^ 64 \<Longrightarrow> block_number_u64 n = Some (word_of_nat n)"
  by (simp add: block_number_u64_def)

lemma block_number_u64_large:
  "2 ^ 64 \<le> n \<Longrightarrow> block_number_u64 n = None"
  by (simp add: block_number_u64_def)

lemma block_number_u64_Some: "block_number_u64 n = Some b \<Longrightarrow> unat b = n"
  by (auto simp: block_number_u64_def unat_of_nat split: if_splits)

lemma unat_u64_less [simp]: "unat (w :: u64) < 18446744073709551616"
proof -
  have "unat w < 2 ^ LENGTH(64)"
    by (rule unsigned_less)
  then show ?thesis
    by simp
qed

lemma unat_u32_less [simp]: "unat (w :: u32) < 4294967296"
proof -
  have "unat w < 2 ^ LENGTH(32)"
    by (rule unsigned_less)
  then show ?thesis
    by simp
qed

lemma unat_block_number [simp]:
  "n < 2 ^ 64 \<Longrightarrow> unat (word_of_nat n :: u64) = n"
  by (simp add: unat_of_nat)

text \<open>Comparisons of the converted block number with stored \<open>u64\<close> heights.\<close>

lemma block_number_compare:
  assumes "n < 2 ^ 64"
  shows "(w \<le> (word_of_nat n :: u64)) \<longleftrightarrow> unat w \<le> n"
    and "((word_of_nat n :: u64) \<le> w) \<longleftrightarrow> n \<le> unat w"
    and "(w < (word_of_nat n :: u64)) \<longleftrightarrow> unat w < n"
    and "((word_of_nat n :: u64) < w) \<longleftrightarrow> n < unat w"
  using assms by (simp_all add: word_le_nat_alt word_less_nat_alt)

lemma bounded_vec_Some [simp]: "length xs \<le> bound \<Longrightarrow> bounded_vec bound xs = Some xs"
  by (simp add: bounded_vec_def)

lemma unat_max_word: "unat (- 1 :: 'a::len word) = 2 ^ LENGTH('a) - 1"
  by (simp add: unsigned_minus_1_eq_mask mask_eq_exp_minus_1)

lemma unat_add_no_overflow [arith_simps]:
  "\<not> overflows a b \<Longrightarrow> unat (a + b) = unat a + unat b"
  by (simp add: overflows_def unat_word_ariths)

lemma unat_add_overflow:
  fixes a b :: "'a::len word"
  assumes "overflows a b"
  shows "unat (a + b) = unat a + unat b - 2 ^ LENGTH('a)"
proof -
  have "unat a < 2 ^ LENGTH('a)" and "unat b < 2 ^ LENGTH('a)"
    by simp_all
  then have "unat a + unat b < 2 * 2 ^ LENGTH('a)"
    by linarith
  with assms show ?thesis
    by (simp add: overflows_def unat_word_ariths le_mod_geq)
qed

lemma rust_add_Release [simp, arith_simps]: "rust_add Release a b = Some (a + b)"
  by (simp add: rust_add_def)

lemma rust_add_no_overflow [arith_simps]:
  "\<not> overflows a b \<Longrightarrow> rust_add prof a b = Some (a + b)"
  by (simp add: rust_add_def)

lemma rust_add_Debug_overflow [arith_simps]:
  "overflows a b \<Longrightarrow> rust_add Debug a b = None"
  by (simp add: rust_add_def)

lemma rust_add_Some: "rust_add prof a b = Some c \<Longrightarrow> c = a + b"
  by (auto simp: rust_add_def split: if_splits)

lemma rust_add_None: "rust_add prof a b = None \<longleftrightarrow> prof = Debug \<and> overflows a b"
  by (auto simp: rust_add_def)

text \<open>Adding one overflows exactly at the maximum of the type.\<close>

lemma overflows_one: "overflows (w :: 'a::len word) 1 \<longleftrightarrow> w = - 1"
proof -
  have u: "unat w < 2 ^ LENGTH('a)"
    by simp
  have "overflows w 1 \<longleftrightarrow> 2 ^ LENGTH('a) \<le> Suc (unat w)"
    by (simp add: overflows_def)
  also have "\<dots> \<longleftrightarrow> unat w = 2 ^ LENGTH('a) - 1"
    using u by arith
  also have "\<dots> \<longleftrightarrow> unat w = unat (- 1 :: 'a word)"
    by (simp add: unat_max_word)
  also have "\<dots> \<longleftrightarrow> w = - 1"
    by (simp add: word_unat_eq_iff)
  finally show ?thesis .
qed

lemma unat_plus_one [arith_simps]:
  "(w :: 'a::len word) \<noteq> - 1 \<Longrightarrow> unat (w + 1) = Suc (unat w)"
  using unat_add_no_overflow [of w 1] overflows_one [of w] by simp

lemma unat_below_max:
  assumes "(w :: 'a::len word) \<noteq> - 1"
  shows "Suc (unat w) < 2 ^ LENGTH('a)"
proof -
  have "unat (w + 1) < 2 ^ LENGTH('a)"
    by (rule unsigned_less)
  then show ?thesis
    using unat_plus_one [OF assms] by simp
qed

lemma minus_one_plus_one: "(- 1 :: 'a::len word) + 1 = 0"
  by simp

lemma unat_saturating_add:
  fixes a b :: "'a::len word"
  shows "unat (saturating_add a b) = min (unat a + unat b) (2 ^ LENGTH('a) - 1)"
  by (auto simp: saturating_add_def overflows_def unat_add_no_overflow unat_max_word)

lemma saturating_add_ge: "(a :: 'a::len word) \<le> saturating_add a b"
proof -
  have "unat a < 2 ^ LENGTH('a)"
    by simp
  then have "unat a \<le> 2 ^ LENGTH('a) - 1"
    by arith
  then have "unat a \<le> unat (- 1 :: 'a word)"
    by (simp add: unat_max_word)
  then show ?thesis
    by (auto simp: saturating_add_def overflows_def word_le_nat_alt unat_add_no_overflow)
qed

lemma saturating_add_exact:
  "\<not> overflows a b \<Longrightarrow> saturating_add a b = a + b"
  by (simp add: saturating_add_def)

text \<open>The ids below a counter, after the counter is incremented once.\<close>

lemma word_less_plus_one_iff:
  assumes n: "(n :: 'a::len word) \<noteq> - 1"
  shows "p < n + 1 \<longleftrightarrow> p \<le> n"
proof
  assume "p < n + 1"
  then show "p \<le> n" by (rule less_inc_imp_less_eq)
next
  assume "p \<le> n"
  show "p < n + 1"
  proof (rule ccontr)
    assume "\<not> p < n + 1"
    then have "n + 1 \<le> p" by (simp add: not_less)
    with n have "n < p" by (simp add: inc_less_eq_iff)
    with \<open>p \<le> n\<close> show False by simp
  qed
qed

lemma ids_below_plus_one:
  "(n :: 'a::len word) \<noteq> - 1 \<Longrightarrow> insert n {p. p < n} = {p. p < n + 1}"
  by (auto simp: word_less_plus_one_iff)

lemma ran_map_upd_subset: "ran (m(k \<mapsto> v)) \<subseteq> insert v (ran m)"
  by (auto simp: ran_def)

lemma ids_below_max: "insert (- 1 :: 'a::len word) {p. p < - 1} = UNIV"
proof -
  have "p = - 1 \<or> p < - 1" for p :: "'a word"
    using max_word_max [of p] by (auto simp: order.order_iff_strict)
  then show ?thesis
    by blast
qed

lemma ids_upto_plus_one:
  "(n :: 'a::len word) \<noteq> - 1 \<Longrightarrow>
   map word_of_nat [0..<unat (n + 1)] = map word_of_nat [0..<unat n] @ [n]"
  by (simp add: unat_plus_one)

lemma reachable_apply_call:
  "reachable dispatch init n s \<Longrightarrow> reachable dispatch init n (apply_call dispatch n origin c s)"
  by (auto simp: apply_call_def split: sum.splits intro: reachable.dispatch)

text \<open>A run of calls in one block, as a pallet test executes them, stays reachable.\<close>

lemma reachable_run_calls:
  "reachable dispatch init n s \<Longrightarrow> \<forall>x \<in> set cs. fst x = n \<Longrightarrow>
   reachable dispatch init n (run_calls dispatch s cs)"
proof (induction cs arbitrary: s)
  case Nil
  then show ?case
    by simp
next
  case (Cons x cs)
  obtain t origin c where x: "x = (t, origin, c)"
    by (cases x) auto
  have "reachable dispatch init n (run_calls dispatch (apply_call dispatch n origin c s) cs)"
    using Cons.IH [OF reachable_apply_call [OF Cons.prems(1)]] Cons.prems(2) by simp
  then show ?case
    using x Cons.prems(2) by simp
qed

text \<open>
  A call that advances a pallet's id counter by one can be repeated from any reachable
  state until the counter reaches any value below \<open>2 ^ LENGTH('a)\<close>, keeping a property
  \<open>P\<close> of the state; this drives a release build's counter to its wrap-around.
\<close>

lemma reachable_iterate:
  fixes ctr :: "'s \<Rightarrow> 'a::len word"
  assumes "reachable dispatch init n s" and "P s" and "ctr s = word_of_nat k"
    and "k + j < 2 ^ LENGTH('a)"
    and step: "\<And>s m. reachable dispatch init n s \<Longrightarrow> P s \<Longrightarrow> ctr s = word_of_nat m \<Longrightarrow>
      k \<le> m \<Longrightarrow> m < k + j \<Longrightarrow>
      \<exists>origin c s'. dispatch n origin c s = Inr s' \<and> P s' \<and> ctr s' = ctr s + 1"
  shows "\<exists>s'. reachable dispatch init n s' \<and> P s' \<and> ctr s' = word_of_nat (k + j)"
  using assms(4) step
proof (induction j)
  case 0
  then show ?case
    using assms(1-3) by auto
next
  case (Suc j)
  then obtain s1 where r1: "reachable dispatch init n s1" and p1: "P s1"
      and c1: "ctr s1 = word_of_nat (k + j)"
    by (metis Suc_lessD add_Suc_right less_Suc_eq)
  then obtain origin c s2 where d: "dispatch n origin c s1 = Inr s2" and p2: "P s2"
      and c2: "ctr s2 = ctr s1 + 1"
    using Suc.prems(2) [OF r1 p1 c1] by auto
  have "reachable dispatch init n s2"
    using r1 d by (rule reachable.dispatch)
  moreover have "ctr s2 = word_of_nat (k + Suc j)"
    using c1 c2 by simp
  ultimately show ?case
    using p2 by blast
qed

lemma length_rust_repeat [simp]: "length (rust_repeat n xs) = n * length xs"
  by (induction n) (simp_all add: rust_repeat_def)

lemma rust_repeat_Nil_iff [simp]: "rust_repeat n xs = [] \<longleftrightarrow> n = 0 \<or> xs = []"
  by (auto simp: rust_repeat_def)

end
