(* ===== verification/CommunityVoting.thy ===== *)
theory CommunityVoting
  imports Prelude
begin

text \<open>
  The community-voting pallet (\<open>src/pallets/community-voting/src/lib.rs\<close>): time-boxed
  voting rounds on proposal ids. Its storage is three maps, \<open>ProposalVotes\<close>
  (proposal, voter) \<open>\<rightharpoonup>\<close> choice, \<open>VoteCounts\<close> proposal \<open>\<rightharpoonup>\<close> tally (read with
  \<open>ValueQuery\<close>, so a missing key reads as the zero tally) and \<open>VotingPeriods\<close>
  proposal \<open>\<rightharpoonup>\<close> window, together with the events the pallet deposits. The three
  calls \<open>start_voting\<close>, \<open>cast_vote\<close> and \<open>end_voting\<close> are functions from the
  build profile, the current block number, the origin, the arguments and the storage to
  an error or the new storage. This theory holds the definitions, their behaviour on
  every branch, the invariant of the reachable states and the one-vote-per-account
  guarantee.
\<close>

subsection \<open>Data\<close>

datatype vote_choice = Yes | No | Abstain

datatype vote_result = Passed | Failed | NoQuorum

record vote_tally =
  yes_votes :: u32
  no_votes :: u32
  abstain_votes :: u32

text \<open>\<open>VoteTally::default()\<close> (derived \<open>Default\<close>).\<close>

definition default_tally :: vote_tally where
  "default_tally = \<lparr>yes_votes = 0, no_votes = 0, abstain_votes = 0\<rparr>"

record voting_period =
  start_block :: u64
  end_block :: u64

datatype voting_error =
    VotingPeriodEnded
  | VotingPeriodNotStarted
  | AlreadyVoted
  | ProposalDoesNotExist

text \<open>
  \<open>Event::VoteCast\<close> and \<open>Event::VotingPeriodEnded\<close>; the second is renamed here because
  the error enum has a variant of the same name.
\<close>

datatype 'acc voting_event =
    VoteCast u64 'acc u8
  | VotingPeriodEndedEvent u64 u8

record 'acc voting_storage =
  proposal_votes :: "u64 \<times> 'acc \<rightharpoonup> vote_choice"
  vote_counts :: "u64 \<rightharpoonup> vote_tally"
  voting_periods :: "u64 \<rightharpoonup> voting_period"
  voting_events :: "'acc voting_event list"

definition voting_genesis :: "'acc voting_storage" where
  "voting_genesis = \<lparr>proposal_votes = Map.empty, vote_counts = Map.empty,
     voting_periods = Map.empty, voting_events = []\<rparr>"

text \<open>\<open>VoteCounts::<T>::get(id)\<close> with \<open>ValueQuery\<close>.\<close>

definition vote_counts_get :: "'acc voting_storage \<Rightarrow> u64 \<Rightarrow> vote_tally" where
  "vote_counts_get s proposal_id =
     (case vote_counts s proposal_id of None \<Rightarrow> default_tally | Some t \<Rightarrow> t)"

subsection \<open>Operations\<close>

text \<open>The \<open>match vote\<close> of \<open>cast_vote\<close>: the codes 0, 1, 2 and nothing else.\<close>

definition decode_vote :: "u8 \<Rightarrow> vote_choice option" where
  "decode_vote vote =
     (if vote = 0 then Some Yes
      else if vote = 1 then Some No
      else if vote = 2 then Some Abstain
      else None)"

text \<open>The closure given to \<open>VoteCounts::<T>::mutate\<close>: \<open>+= 1\<close> on one \<open>u32\<close> counter.\<close>

fun tally_increment :: "build_profile \<Rightarrow> vote_choice \<Rightarrow> vote_tally \<Rightarrow> vote_tally option" where
  "tally_increment prof Yes t = map_option (\<lambda>n. t\<lparr>yes_votes := n\<rparr>) (rust_add prof (yes_votes t) 1)"
| "tally_increment prof No t = map_option (\<lambda>n. t\<lparr>no_votes := n\<rparr>) (rust_add prof (no_votes t) 1)"
| "tally_increment prof Abstain t =
     map_option (\<lambda>n. t\<lparr>abstain_votes := n\<rparr>) (rust_add prof (abstain_votes t) 1)"

text \<open>
  The result computation of \<open>end_voting\<close>: \<open>total_votes = yes + no\<close> in \<open>u32\<close>, then
  the code 2 (NoQuorum), 0 (Passed) or 1 (Failed).
\<close>

definition tally_result_code :: "build_profile \<Rightarrow> vote_tally \<Rightarrow> u8 option" where
  "tally_result_code prof t =
     map_option (\<lambda>total_votes.
         if total_votes = 0 then 2
         else if no_votes t < yes_votes t then 0
         else 1)
       (rust_add prof (yes_votes t) (no_votes t))"

definition start_voting ::
  "build_profile \<Rightarrow> nat \<Rightarrow> 'acc origin \<Rightarrow> u64 \<Rightarrow> u64 \<Rightarrow> 'acc voting_storage
   \<Rightarrow> voting_error dispatch_error + 'acc voting_storage" where
  "start_voting prof now origin proposal_id duration_blocks s =
     (case ensure_signed origin of
        Inl e \<Rightarrow> Inl e
      | Inr _ \<Rightarrow>
        (case block_number_u64 now of
           None \<Rightarrow> Inl (Module ProposalDoesNotExist)
         | Some start \<Rightarrow>
           (case rust_add prof start duration_blocks of
              None \<Rightarrow> Inl Panic
            | Some end_b \<Rightarrow>
                Inr (s\<lparr>voting_periods := (voting_periods s)(proposal_id \<mapsto>
                          \<lparr>start_block = start, end_block = end_b\<rparr>),
                       vote_counts := (vote_counts s)(proposal_id \<mapsto> default_tally)\<rparr>))))"

definition cast_vote ::
  "build_profile \<Rightarrow> nat \<Rightarrow> 'acc origin \<Rightarrow> u64 \<Rightarrow> u8 \<Rightarrow> 'acc voting_storage
   \<Rightarrow> voting_error dispatch_error + 'acc voting_storage" where
  "cast_vote prof now origin proposal_id vote s =
     (case ensure_signed origin of
        Inl e \<Rightarrow> Inl e
      | Inr voter \<Rightarrow>
        (case decode_vote vote of
           None \<Rightarrow> Inl (Module ProposalDoesNotExist)
         | Some choice \<Rightarrow>
           (case voting_periods s proposal_id of
              None \<Rightarrow> Inl (Module ProposalDoesNotExist)
            | Some vp \<Rightarrow>
              (case block_number_u64 now of
                 None \<Rightarrow> Inl (Module ProposalDoesNotExist)
               | Some current \<Rightarrow>
                 if \<not> (start_block vp \<le> current \<and> current \<le> end_block vp)
                 then Inl (Module VotingPeriodEnded)
                 else if proposal_votes s (proposal_id, voter) \<noteq> None
                 then Inl (Module AlreadyVoted)
                 else
                   (case tally_increment prof choice (vote_counts_get s proposal_id) of
                      None \<Rightarrow> Inl Panic
                    | Some t \<Rightarrow>
                        Inr (s\<lparr>proposal_votes := (proposal_votes s)((proposal_id, voter) \<mapsto> choice),
                               vote_counts := (vote_counts s)(proposal_id \<mapsto> t),
                               voting_events := voting_events s @ [VoteCast proposal_id voter vote]\<rparr>))))))"

definition end_voting ::
  "build_profile \<Rightarrow> nat \<Rightarrow> 'acc origin \<Rightarrow> u64 \<Rightarrow> 'acc voting_storage
   \<Rightarrow> voting_error dispatch_error + 'acc voting_storage" where
  "end_voting prof now origin proposal_id s =
     (case ensure_signed origin of
        Inl e \<Rightarrow> Inl e
      | Inr _ \<Rightarrow>
        (case voting_periods s proposal_id of
           None \<Rightarrow> Inl (Module ProposalDoesNotExist)
         | Some vp \<Rightarrow>
           (case block_number_u64 now of
              None \<Rightarrow> Inl (Module ProposalDoesNotExist)
            | Some current \<Rightarrow>
              if \<not> (end_block vp < current) then Inl (Module VotingPeriodNotStarted)
              else
                (case tally_result_code prof (vote_counts_get s proposal_id) of
                   None \<Rightarrow> Inl Panic
                 | Some result \<Rightarrow>
                     Inr (s\<lparr>voting_events := voting_events s @
                                [VotingPeriodEndedEvent proposal_id result]\<rparr>)))))"

text \<open>The pallet's \<open>Call\<close> enum (call indices 0, 1, 2) and its dispatch.\<close>

datatype voting_call =
    StartVoting u64 u64
  | CastVote u64 u8
  | EndVoting u64

fun voting_dispatch ::
  "build_profile \<Rightarrow> nat \<Rightarrow> 'acc origin \<Rightarrow> voting_call \<Rightarrow> 'acc voting_storage
   \<Rightarrow> voting_error dispatch_error + 'acc voting_storage" where
  "voting_dispatch prof now origin (StartVoting p d) s = start_voting prof now origin p d s"
| "voting_dispatch prof now origin (CastVote p v) s = cast_vote prof now origin p v s"
| "voting_dispatch prof now origin (EndVoting p) s = end_voting prof now origin p s"

text \<open>
  The proposal id a call names, and everything the pallet stores about one proposal: its
  window, its tally and the vote record of every account on it.
\<close>

primrec voting_call_proposal :: "voting_call \<Rightarrow> u64" where
  "voting_call_proposal (StartVoting p d) = p"
| "voting_call_proposal (CastVote p v) = p"
| "voting_call_proposal (EndVoting p) = p"

definition proposal_slice ::
  "u64 \<Rightarrow> 'acc voting_storage \<Rightarrow> voting_period option \<times> vote_tally option \<times> ('acc \<Rightarrow> vote_choice option)" where
  "proposal_slice p s = (voting_periods s p, vote_counts s p, \<lambda>a. proposal_votes s (p, a))"

text \<open>What a call observably does on its proposal: its error, or the new slice and the new events.\<close>

definition call_view ::
  "u64 \<Rightarrow> 'acc voting_storage \<Rightarrow> 'e + 'acc voting_storage \<Rightarrow>
   'e + (voting_period option \<times> vote_tally option \<times> ('acc \<Rightarrow> vote_choice option)) \<times> 'acc voting_event list" where
  "call_view p s r = map_sum id (\<lambda>s'. (proposal_slice p s', drop (length (voting_events s)) (voting_events s'))) r"

subsection \<open>Vote codes, counters and the tally arithmetic\<close>

text \<open>The \<open>u8\<close> code of each choice, as the event documents it (0=Yes, 1=No, 2=Abstain).\<close>

fun vote_code :: "vote_choice \<Rightarrow> u8" where
  "vote_code Yes = 0"
| "vote_code No = 1"
| "vote_code Abstain = 2"

text \<open>The counter of the tally that a choice increments, and the wrapping increment.\<close>

fun counter :: "vote_choice \<Rightarrow> vote_tally \<Rightarrow> u32" where
  "counter Yes t = yes_votes t"
| "counter No t = no_votes t"
| "counter Abstain t = abstain_votes t"

fun tally_bump :: "vote_choice \<Rightarrow> vote_tally \<Rightarrow> vote_tally" where
  "tally_bump Yes t = t\<lparr>yes_votes := yes_votes t + 1\<rparr>"
| "tally_bump No t = t\<lparr>no_votes := no_votes t + 1\<rparr>"
| "tally_bump Abstain t = t\<lparr>abstain_votes := abstain_votes t + 1\<rparr>"

text \<open>
  \<open>VoteResult\<close> as the \<open>u8\<close> the \<open>VotingPeriodEnded\<close> event carries (0=Passed,
  1=Failed, 2=NoQuorum); the enum itself is declared but never used by the calls.
\<close>

fun result_code :: "vote_result \<Rightarrow> u8" where
  "result_code Passed = 0"
| "result_code Failed = 1"
| "result_code NoQuorum = 2"

text \<open>
  The outcome rule of the specification, on unbounded vote counts: no yes and no no
  votes is no quorum (abstentions do not count), a strict yes majority passes, and
  everything else, ties included, fails.
\<close>

definition outcome :: "nat \<Rightarrow> nat \<Rightarrow> vote_result" where
  "outcome yes no = (if yes + no = 0 then NoQuorum else if no < yes then Passed else Failed)"

text \<open>
  Two storages of the specification's first example, used by the witnesses: proposal 1
  open on blocks [1, 6] with no vote (after \<open>start_voting\<close> at block 1 with
  duration 5), and the same after account 2 voted Yes at block 3.
\<close>

definition example_open :: "nat voting_storage" where
  "example_open = voting_genesis\<lparr>voting_periods := [1 \<mapsto> \<lparr>start_block = 1, end_block = 6\<rparr>],
     vote_counts := [1 \<mapsto> default_tally]\<rparr>"

definition example_voted :: "nat voting_storage" where
  "example_voted = example_open\<lparr>proposal_votes := [(1, 2) \<mapsto> Yes],
     vote_counts := [1 \<mapsto> default_tally\<lparr>yes_votes := 1\<rparr>], voting_events := [VoteCast 1 2 0]\<rparr>"

text \<open>Proposal 1 closed with \<open>2 ^ 31\<close> yes and \<open>2 ^ 31\<close> no votes.\<close>

definition example_split :: "nat voting_storage" where
  "example_split = example_open\<lparr>vote_counts :=
     [1 \<mapsto> \<lparr>yes_votes = 2 ^ 31, no_votes = 2 ^ 31, abstain_votes = 0\<rparr>]\<rparr>"

lemmas voting_defs [dispatch_defs] = start_voting_def cast_vote_def end_voting_def

lemmas voting_eval = voting_defs voting_genesis_def vote_counts_get_def default_tally_def
  decode_vote_def tally_result_code_def rust_add_def overflows_def example_open_def
  example_voted_def

lemma decode_vote_Some: "decode_vote v = Some c \<longleftrightarrow> v = vote_code c"
  by (cases c) (auto simp: decode_vote_def)

lemma decode_vote_vote_code [simp]: "decode_vote (vote_code c) = Some c"
  by (simp add: decode_vote_Some)

lemma decode_vote_None: "decode_vote v = None \<longleftrightarrow> 2 < v"
proof -
  have "2 < v \<longleftrightarrow> v \<noteq> 0 \<and> v \<noteq> 1 \<and> v \<noteq> 2"
    by (auto simp: word_less_nat_alt word_le_nat_alt word_unat_eq_iff)
  then show ?thesis
    by (auto simp: decode_vote_def)
qed

lemma vote_code_eq_iff [simp]: "vote_code c = vote_code c' \<longleftrightarrow> c = c'"
  by (cases c; cases c') simp_all

lemma vote_code_values [simp]:
  "vote_code c = 0 \<longleftrightarrow> c = Yes" "vote_code c = 1 \<longleftrightarrow> c = No" "vote_code c = 2 \<longleftrightarrow> c = Abstain"
  by (cases c; simp)+

lemma counter_tally_bump [simp]:
  "counter c' (tally_bump c t) = (if c' = c then counter c t + 1 else counter c' t)"
  by (cases c; cases c') simp_all

lemma tally_increment_eq:
  "tally_increment prof c t =
     (if prof = Debug \<and> counter c t = - 1 then None else Some (tally_bump c t))"
  by (cases c) (auto simp: rust_add_def overflows_one)

lemma tally_increment_Release [simp]: "tally_increment Release c t = Some (tally_bump c t)"
  by (simp add: tally_increment_eq)

lemma tally_result_code_no_overflow:
  assumes "\<not> overflows (yes_votes t) (no_votes t)"
  shows "tally_result_code prof t =
     Some (if unat (yes_votes t) + unat (no_votes t) = 0 then 2
           else if unat (no_votes t) < unat (yes_votes t) then 0 else 1)"
proof -
  have "unat (yes_votes t + no_votes t) = unat (yes_votes t) + unat (no_votes t)"
    using assms by (rule unat_add_no_overflow)
  then have "yes_votes t + no_votes t = 0 \<longleftrightarrow> unat (yes_votes t) + unat (no_votes t) = 0"
    by (metis unat_eq_zero)
  with assms show ?thesis
    by (simp add: tally_result_code_def rust_add_no_overflow word_less_nat_alt)
qed

lemma vote_counts_get_upd [simp]:
  "vote_counts_get (s\<lparr>vote_counts := (vote_counts s)(p \<mapsto> t)\<rparr>) q =
     (if q = p then t else vote_counts_get s q)"
  by (simp add: vote_counts_get_def)


subsection \<open>Each call on every branch\<close>

lemma cast_vote_Inr_iff:
  "cast_vote prof now origin p v s = Inr s' \<longleftrightarrow>
   (\<exists>a c vp. origin = Signed a \<and> v = vote_code c \<and> voting_periods s p = Some vp \<and>
      now < 2 ^ 64 \<and> unat (start_block vp) \<le> now \<and> now \<le> unat (end_block vp) \<and>
      proposal_votes s (p, a) = None \<and>
      (prof = Debug \<longrightarrow> counter c (vote_counts_get s p) \<noteq> - 1) \<and>
      s' = s\<lparr>proposal_votes := (proposal_votes s)((p, a) \<mapsto> c),
             vote_counts := (vote_counts s)(p \<mapsto> tally_bump c (vote_counts_get s p)),
             voting_events := voting_events s @ [VoteCast p a v]\<rparr>)"
  by (auto simp: cast_vote_def ensure_signed_def block_number_u64_def block_number_compare
      decode_vote_Some tally_increment_eq split: origin.splits option.splits if_splits)

lemma cast_vote_ok:
  assumes "voting_periods s p = Some vp" and "now < 2 ^ 64"
    and "unat (start_block vp) \<le> now" and "now \<le> unat (end_block vp)"
    and "proposal_votes s (p, a) = None"
    and "prof = Release \<or> counter c (vote_counts_get s p) \<noteq> - 1"
  shows "cast_vote prof now (Signed a) p (vote_code c) s =
    Inr (s\<lparr>proposal_votes := (proposal_votes s)((p, a) \<mapsto> c),
           vote_counts := (vote_counts s)(p \<mapsto> tally_bump c (vote_counts_get s p)),
           voting_events := voting_events s @ [VoteCast p a (vote_code c)]\<rparr>)"
  using assms by (auto simp: cast_vote_def block_number_compare tally_increment_eq)

lemma cast_vote_outside_window:
  assumes "voting_periods s p = Some vp" and "decode_vote v \<noteq> None" and "now < 2 ^ 64"
    and "\<not> (unat (start_block vp) \<le> now \<and> now \<le> unat (end_block vp))"
  shows "cast_vote prof now (Signed a) p v s = Inl (Module VotingPeriodEnded)"
  using assms by (auto simp: cast_vote_def block_number_compare)

lemma cast_vote_already_voted:
  assumes "voting_periods s p = Some vp" and "decode_vote v \<noteq> None" and "now < 2 ^ 64"
    and "unat (start_block vp) \<le> now" and "now \<le> unat (end_block vp)"
    and "proposal_votes s (p, a) \<noteq> None"
  shows "cast_vote prof now (Signed a) p v s = Inl (Module AlreadyVoted)"
  using assms by (auto simp: cast_vote_def block_number_compare)

lemma end_voting_still_open:
  assumes "voting_periods s p = Some vp" and "now < 2 ^ 64" and "now \<le> unat (end_block vp)"
  shows "end_voting prof now (Signed a) p s = Inl (Module VotingPeriodNotStarted)"
  using assms by (auto simp: end_voting_def block_number_compare)

lemma tally_result_code_outcome:
  "unat (yes_votes t) + unat (no_votes t) < 2 ^ 32 \<Longrightarrow>
   tally_result_code prof t = Some (result_code (outcome (unat (yes_votes t)) (unat (no_votes t))))"
  by (simp add: tally_result_code_no_overflow overflows_def outcome_def)

lemma end_voting_Inr_iff:
  "end_voting prof now origin p s = Inr s' \<longleftrightarrow>
   (\<exists>a vp r. origin = Signed a \<and> voting_periods s p = Some vp \<and> now < 2 ^ 64 \<and>
      unat (end_block vp) < now \<and> tally_result_code prof (vote_counts_get s p) = Some r \<and>
      s' = s\<lparr>voting_events := voting_events s @ [VotingPeriodEndedEvent p r]\<rparr>)"
  by (auto simp: end_voting_def ensure_signed_def block_number_u64_def block_number_compare
      split: origin.splits option.splits if_splits)

lemma start_voting_ok:
  assumes "now < 2 ^ 64" and "prof = Release \<or> now + unat d < 2 ^ 64"
  shows "start_voting prof now (Signed a) p d s =
    Inr (s\<lparr>voting_periods := (voting_periods s)(p \<mapsto>
              \<lparr>start_block = word_of_nat now, end_block = word_of_nat now + d\<rparr>),
           vote_counts := (vote_counts s)(p \<mapsto> default_tally)\<rparr>)"
  using assms by (auto simp: start_voting_def rust_add_def overflows_def)

lemma start_voting_Inr_iff:
  "start_voting prof now origin p d s = Inr s' \<longleftrightarrow>
   (\<exists>a. origin = Signed a) \<and> now < 2 ^ 64 \<and> (prof = Debug \<longrightarrow> now + unat d < 2 ^ 64) \<and>
   s' = s\<lparr>voting_periods := (voting_periods s)(p \<mapsto>
              \<lparr>start_block = word_of_nat now, end_block = word_of_nat now + d\<rparr>),
          vote_counts := (vote_counts s)(p \<mapsto> default_tally)\<rparr>"
  by (auto simp: start_voting_def ensure_signed_def block_number_u64_def rust_add_def overflows_def
      split: origin.splits option.splits if_splits)


lemma proposal_slice_eq_iff:
  "proposal_slice p s1 = proposal_slice p s2 \<longleftrightarrow>
   voting_periods s1 p = voting_periods s2 p \<and> vote_counts s1 p = vote_counts s2 p \<and>
   (\<forall>a. proposal_votes s1 (p, a) = proposal_votes s2 (p, a))"
  by (auto simp: proposal_slice_def fun_eq_iff)

subsection \<open>Properties of the calls\<close>

text \<open>
  C1: A signed vote with a valid choice on an opened proposal, at a block number that fits in u64 and with no counter overflow, is accepted exactly when start <= block <= end (both ends inclusive) and the account has no vote recorded for the proposal.
\<close>

theorem cast_vote_window_rule:
  assumes "voting_periods s p = Some vp" and "now < 2 ^ 64"
    and "prof = Release \<or> counter c (vote_counts_get s p) \<noteq> - 1"
  shows "(\<exists>s'. cast_vote prof now (Signed a) p (vote_code c) s = Inr s') \<longleftrightarrow>
     unat (start_block vp) \<le> now \<and> now \<le> unat (end_block vp) \<and> proposal_votes s (p, a) = None"
  using assms by (auto simp: cast_vote_Inr_iff)

text \<open>
  C4: Once the block number is past the end of the window, end_voting succeeds for any signed caller and deposits exactly one VotingPeriodEnded event whose result code is that of the specification's rule on the tally: no quorum when yes + no = 0 (abstentions ignored), passed on a strict yes majority, failed otherwise (ties included), provided yes + no fits in u32.
\<close>

theorem end_voting_outcome:
  assumes "voting_periods s p = Some vp" and "now < 2 ^ 64" and "unat (end_block vp) < now"
    and "unat (yes_votes (vote_counts_get s p)) + unat (no_votes (vote_counts_get s p)) < 2 ^ 32"
  shows "end_voting prof now (Signed a) p s =
    Inr (s\<lparr>voting_events := voting_events s @ [VotingPeriodEndedEvent p
      (result_code (outcome (unat (yes_votes (vote_counts_get s p))) (unat (no_votes (vote_counts_get s p)))))]\<rparr>)"
  using assms by (simp add: end_voting_Inr_iff tally_result_code_outcome)

text \<open>
  C5: cast_vote checks in the order of the code and the first failing check decides the error, with no state change: an unsigned origin is BadOrigin; a choice code above 2, a missing window, and a block number beyond u64 are all ProposalDoesNotExist; a block number outside [start, end] is VotingPeriodEnded; an account that already voted is AlreadyVoted.
\<close>

theorem cast_vote_errors:
  "cast_vote prof now NoneOrigin p v s = Inl BadOrigin \<and>
   (2 < v \<longrightarrow> cast_vote prof now (Signed a) p v s = Inl (Module ProposalDoesNotExist)) \<and>
   (voting_periods s p = None \<longrightarrow>
      cast_vote prof now (Signed a) p v s = Inl (Module ProposalDoesNotExist)) \<and>
   (v \<le> 2 \<and> voting_periods s p = Some vp \<and> 2 ^ 64 \<le> now \<longrightarrow>
      cast_vote prof now (Signed a) p v s = Inl (Module ProposalDoesNotExist)) \<and>
   (v \<le> 2 \<and> voting_periods s p = Some vp \<and> now < 2 ^ 64 \<and>
      \<not> (unat (start_block vp) \<le> now \<and> now \<le> unat (end_block vp)) \<longrightarrow>
      cast_vote prof now (Signed a) p v s = Inl (Module VotingPeriodEnded)) \<and>
   (v \<le> 2 \<and> voting_periods s p = Some vp \<and> now < 2 ^ 64 \<and>
      unat (start_block vp) \<le> now \<and> now \<le> unat (end_block vp) \<and>
      proposal_votes s (p, a) \<noteq> None \<longrightarrow>
      cast_vote prof now (Signed a) p v s = Inl (Module AlreadyVoted))"
proof -
  have valid: "v \<le> 2 \<Longrightarrow> \<exists>c. decode_vote v = Some c"
    using decode_vote_None [of v] by (cases "decode_vote v") (auto simp: not_less)
  show ?thesis
    using valid decode_vote_None [of v]
    by (auto simp: cast_vote_def block_number_u64_def block_number_compare)
qed

text \<open>
  C6: end_voting changes no storage map, only appends its event, and can be repeated by any signed caller at any later block with the same result.
\<close>

theorem end_voting_idempotent:
  assumes "end_voting prof now origin p s = Inr s'" and "now \<le> now'" and "now' < 2 ^ 64"
  shows "proposal_votes s' = proposal_votes s \<and> vote_counts s' = vote_counts s \<and>
     voting_periods s' = voting_periods s \<and>
     end_voting prof now' (Signed b) p s' =
       Inr (s'\<lparr>voting_events := voting_events s' @ [last (voting_events s')]\<rparr>)"
  using assms by (auto simp: end_voting_Inr_iff vote_counts_get_def)

text \<open>
  C7: The grace gap: at block end a vote is still accepted and end_voting is refused (VotingPeriodNotStarted); at block end + 1 a vote is refused (VotingPeriodEnded) and end_voting succeeds.
\<close>

theorem voting_window_boundary:
  assumes "voting_periods s p = Some vp" and "unat (start_block vp) \<le> unat (end_block vp)"
    and "unat (end_block vp) + 1 < 2 ^ 64" and "proposal_votes s (p, a) = None"
    and "prof = Release \<or> counter c (vote_counts_get s p) \<noteq> - 1"
    and "unat (yes_votes (vote_counts_get s p)) + unat (no_votes (vote_counts_get s p)) < 2 ^ 32"
  shows "(\<exists>s'. cast_vote prof (unat (end_block vp)) (Signed a) p (vote_code c) s = Inr s') \<and>
     end_voting prof (unat (end_block vp)) (Signed b) p s = Inl (Module VotingPeriodNotStarted) \<and>
     cast_vote prof (unat (end_block vp) + 1) (Signed a) p (vote_code c) s = Inl (Module VotingPeriodEnded) \<and>
     (\<exists>s'. end_voting prof (unat (end_block vp) + 1) (Signed b) p s = Inr s')"
  using assms
  by (auto simp: cast_vote_Inr_iff end_voting_Inr_iff tally_result_code_outcome
      intro!: cast_vote_outside_window end_voting_still_open)

text \<open>
  C8: start_voting at block n with duration d (n + d within u64) records the window [n, n + d] and a zero tally for the proposal, leaves every other proposal, every vote record and the events unchanged.
\<close>

theorem start_voting_opens:
  assumes "now < 2 ^ 64" and "now + unat d < 2 ^ 64"
  shows "\<exists>s'. start_voting prof now (Signed a) p d s = Inr s' \<and>
     (\<exists>vp. voting_periods s' p = Some vp \<and> unat (start_block vp) = now \<and>
        unat (end_block vp) = now + unat d) \<and>
     vote_counts s' p = Some default_tally \<and>
     (\<forall>q. q \<noteq> p \<longrightarrow> voting_periods s' q = voting_periods s q \<and> vote_counts s' q = vote_counts s q) \<and>
     proposal_votes s' = proposal_votes s \<and> voting_events s' = voting_events s"
proof -
  have "\<not> overflows (word_of_nat now :: u64) d"
    using assms by (simp add: overflows_def)
  then have "unat (word_of_nat now + d :: u64) = now + unat d"
    using assms by (simp add: unat_add_no_overflow)
  with assms show ?thesis
    by (simp add: start_voting_Inr_iff)
qed

text \<open>
  C9: Re-opening a proposal resets its tally to zero but keeps the old vote records, so an account that voted in an earlier round can never vote on the proposal again.
\<close>

theorem reopen_locks_out_voter:
  assumes "proposal_votes s (p, a) = Some c" and "start_voting prof now origin p d s = Inr s'"
  shows "vote_counts_get s' p = default_tally \<and> proposal_votes s' (p, a) = Some c \<and>
     (\<forall>prof' now' v. cast_vote prof' now' (Signed a) p v s' \<notin> range Inr)"
  using assms by (auto simp: start_voting_Inr_iff cast_vote_Inr_iff vote_counts_get_def)

text \<open>
  C11: On a proposal with no window, cast_vote and end_voting both fail with ProposalDoesNotExist.
\<close>

theorem unopened_proposal_rejected:
  assumes "voting_periods s p = None"
  shows "cast_vote prof now (Signed a) p v s = Inl (Module ProposalDoesNotExist) \<and>
     end_voting prof now (Signed a) p s = Inl (Module ProposalDoesNotExist)"
  using assms by (simp add: cast_vote_def end_voting_def split: option.split)

text \<open>
  C12: An accepted vote records the choice for (proposal, voter), increments exactly the counter of that choice by one (modulo 2^32), leaves the other counters, the other proposals and the windows unchanged, and appends one VoteCast event carrying the raw code.
\<close>

theorem cast_vote_effect:
  assumes "cast_vote prof now (Signed a) p v s = Inr s'"
  shows "\<exists>c. v = vote_code c \<and> proposal_votes s (p, a) = None \<and>
     proposal_votes s' = (proposal_votes s)((p, a) \<mapsto> c) \<and>
     unat (counter c (vote_counts_get s' p)) = (unat (counter c (vote_counts_get s p)) + 1) mod 2 ^ 32 \<and>
     (\<forall>c'. c' \<noteq> c \<longrightarrow> counter c' (vote_counts_get s' p) = counter c' (vote_counts_get s p)) \<and>
     (\<forall>q. q \<noteq> p \<longrightarrow> vote_counts s' q = vote_counts s q) \<and>
     voting_periods s' = voting_periods s \<and> voting_events s' = voting_events s @ [VoteCast p a v]"
  using assms by (auto simp: cast_vote_Inr_iff unat_word_ariths vote_counts_get_def)

text \<open>
  C15: In a release build, a duration that makes start + duration exceed u64 wraps the end below the start: no vote is ever accepted on that window and end_voting succeeds at once with NoQuorum.
\<close>

theorem start_voting_end_wraps:
  assumes "now < 2 ^ 64" and "2 ^ 64 \<le> now + unat d"
  shows "\<exists>s'. start_voting Release now (Signed a) p d s = Inr s' \<and>
     (\<exists>vp. voting_periods s' p = Some vp \<and> unat (end_block vp) = now + unat d - 2 ^ 64 \<and>
        end_block vp < start_block vp) \<and>
     (\<forall>now' b v. cast_vote Release now' (Signed b) p v s' \<notin> range Inr) \<and>
     end_voting Release now (Signed a) p s' =
       Inr (s'\<lparr>voting_events := voting_events s' @ [VotingPeriodEndedEvent p (result_code NoQuorum)]\<rparr>)"
proof -
  let ?st = "word_of_nat now :: u64"
  have ov: "overflows ?st d"
    using assms by (simp add: overflows_def)
  then have e: "unat (?st + d) = now + unat d - 2 ^ 64"
    using assms by (simp add: unat_add_overflow)
  have "unat d < 2 ^ 64" by simp
  with assms have lt: "now + unat d - 2 ^ 64 < now"
    by linarith
  with e assms have "?st + d < ?st"
    by (simp add: word_less_nat_alt)
  with e lt assms show ?thesis
    by (auto simp: start_voting_Inr_iff cast_vote_Inr_iff end_voting_Inr_iff tally_result_code_def
        default_tally_def vote_counts_get_def word_less_nat_alt)
qed

text \<open>
  In a debug build the same overflowing start + duration panics, and start_voting fails without effect.
\<close>

theorem start_voting_debug_panics:
  assumes "now < 2 ^ 64" and "2 ^ 64 \<le> now + unat d"
  shows "start_voting Debug now (Signed a) p d s = Inl Panic"
  using assms by (simp add: start_voting_def rust_add_def overflows_def)

text \<open>
  C16: In a release build the u32 sum yes + no wraps: with 2^31 yes and 2^31 no votes end_voting reports NoQuorum although the specification's rule gives Failed; a debug build panics instead.
\<close>

theorem end_voting_total_wraps:
  assumes "voting_periods s p = Some vp" and "now < 2 ^ 64" and "unat (end_block vp) < now"
    and "yes_votes (vote_counts_get s p) = 2 ^ 31" and "no_votes (vote_counts_get s p) = 2 ^ 31"
  shows "end_voting Release now (Signed a) p s =
       Inr (s\<lparr>voting_events := voting_events s @ [VotingPeriodEndedEvent p (result_code NoQuorum)]\<rparr>) \<and>
     outcome (unat (yes_votes (vote_counts_get s p))) (unat (no_votes (vote_counts_get s p))) = Failed \<and>
     end_voting Debug now (Signed a) p s = Inl Panic"
  using assms by (simp add: end_voting_def block_number_compare tally_result_code_def rust_add_def
      overflows_def outcome_def)

text \<open>
  C17: A release build never panics, and a debug build returns what a release build returns whenever it does not panic.
\<close>

theorem voting_profiles_agree:
  "voting_dispatch Release now origin c s \<noteq> Inl Panic \<and>
   (voting_dispatch Debug now origin c s \<noteq> Inl Panic \<longrightarrow>
      voting_dispatch Debug now origin c s = voting_dispatch Release now origin c s)"
  by (cases c) (auto simp: voting_defs tally_increment_eq tally_result_code_def rust_add_def
      ensure_signed_def split: origin.splits sum.splits option.splits if_splits)

text \<open>
  The choice codes round-trip: decoding the code of a choice gives the choice back, a decoded code is the code of its choice, and exactly the codes above 2 fail to decode.
\<close>

theorem vote_code_roundtrip:
  "decode_vote (vote_code c) = Some c \<and> (decode_vote v = Some c \<longrightarrow> vote_code c = v) \<and>
   (decode_vote v = None \<longleftrightarrow> 2 < v)"
  by (simp add: decode_vote_Some decode_vote_None)

text \<open>
  C18: Proposals are independent, as the specification requires of operations on distinct
  proposal ids. A call on proposal p leaves the window, the tally and every vote record of
  each other proposal unchanged; and whether it fails, with which error, and what it
  stores about p and emits depends only on what is stored about p.
\<close>

theorem proposals_independent:
  "(voting_dispatch prof now origin c s = Inr s' \<longrightarrow>
      (\<forall>q. q \<noteq> voting_call_proposal c \<longrightarrow> proposal_slice q s' = proposal_slice q s)) \<and>
   (proposal_slice (voting_call_proposal c) t = proposal_slice (voting_call_proposal c) u \<longrightarrow>
      call_view (voting_call_proposal c) t (voting_dispatch prof now origin c t) =
      call_view (voting_call_proposal c) u (voting_dispatch prof now origin c u))"
proof (intro conjI impI allI)
  show "proposal_slice q s' = proposal_slice q s"
    if "voting_dispatch prof now origin c s = Inr s'" and "q \<noteq> voting_call_proposal c" for q
    using that by (cases c) (auto simp: voting_defs proposal_slice_def split: sum.splits option.splits if_splits)
  show "call_view (voting_call_proposal c) t (voting_dispatch prof now origin c t) =
      call_view (voting_call_proposal c) u (voting_dispatch prof now origin c u)"
    if "proposal_slice (voting_call_proposal c) t = proposal_slice (voting_call_proposal c) u"
    using that
    by (cases c) (auto simp: voting_defs call_view_def proposal_slice_eq_iff vote_counts_get_def
        split: sum.splits option.splits if_splits; auto simp: proposal_slice_def fun_eq_iff)+
qed

subsection \<open>Witnesses at the specification's example\<close>

theorem cast_vote_window_rule_witness:
  "voting_periods example_open 1 = Some \<lparr>start_block = 1, end_block = 6\<rparr> \<and> (3::nat) < 2 ^ 64 \<and>
   (\<exists>s'. cast_vote Release 3 (Signed 2) 1 (vote_code Yes) example_open = Inr s')"
  using cast_vote_window_rule [where s = example_open and p = 1 and now = 3 and prof = Release
      and c = Yes and a = 2 and vp = "\<lparr>start_block = 1, end_block = 6\<rparr>"]
  by (simp add: voting_eval)

theorem end_voting_outcome_witness:
  "end_voting Debug 7 (Signed 5) 1 example_voted =
     Inr (example_voted\<lparr>voting_events := [VoteCast 1 2 0, VotingPeriodEndedEvent 1 (result_code Passed)]\<rparr>)"
  using end_voting_outcome [where s = example_voted and p = 1 and now = 7 and prof = Debug
      and a = 5 and vp = "\<lparr>start_block = 1, end_block = 6\<rparr>"]
  by (simp add: voting_eval outcome_def)

theorem cast_vote_errors_witness:
  "cast_vote Debug 3 NoneOrigin 1 0 example_open = Inl BadOrigin \<and>
   cast_vote Debug 3 (Signed 2) 1 3 example_open = Inl (Module ProposalDoesNotExist) \<and>
   cast_vote Debug 3 (Signed 2) 9 0 example_open = Inl (Module ProposalDoesNotExist) \<and>
   cast_vote Debug (2 ^ 64) (Signed 2) 1 0 example_open = Inl (Module ProposalDoesNotExist) \<and>
   cast_vote Debug 10 (Signed 2) 1 0 example_open = Inl (Module VotingPeriodEnded) \<and>
   cast_vote Debug 3 (Signed 2) 1 1 example_voted = Inl (Module AlreadyVoted)"
proof -
  have p: "voting_periods example_open 1 = Some \<lparr>start_block = 1, end_block = 6\<rparr>"
    "voting_periods example_open 9 = None"
    "voting_periods example_voted 1 = Some \<lparr>start_block = 1, end_block = 6\<rparr>"
    "proposal_votes example_voted (1, 2) = Some Yes"
    by (simp_all add: voting_eval)
  note e = cast_vote_errors [where prof = Debug and a = 2]
  show ?thesis
    using e [where now = 3 and p = 1 and v = 0 and s = example_open]
      e [where now = 3 and p = 1 and v = 3 and s = example_open]
      e [where now = 3 and p = 9 and v = 0 and s = example_open]
      e [where now = "2 ^ 64" and p = 1 and v = 0 and s = example_open and vp = "\<lparr>start_block = 1, end_block = 6\<rparr>"]
      e [where now = 10 and p = 1 and v = 0 and s = example_open and vp = "\<lparr>start_block = 1, end_block = 6\<rparr>"]
      e [where now = 3 and p = 1 and v = 1 and s = example_voted and vp = "\<lparr>start_block = 1, end_block = 6\<rparr>"]
    using p by simp
qed

theorem end_voting_idempotent_witness:
  "proposal_votes example_voted = [(1, 2) \<mapsto> Yes] \<and>
   end_voting Debug 8 (Signed 3) 1
     (example_voted\<lparr>voting_events := [VoteCast 1 2 0, VotingPeriodEndedEvent 1 0]\<rparr>) =
   Inr (example_voted\<lparr>voting_events := [VoteCast 1 2 0, VotingPeriodEndedEvent 1 0, VotingPeriodEndedEvent 1 0]\<rparr>)"
proof -
  have r: "end_voting Debug 7 (Signed 5) 1 example_voted =
     Inr (example_voted\<lparr>voting_events := [VoteCast 1 2 0, VotingPeriodEndedEvent 1 0]\<rparr>)"
    by (simp add: voting_eval)
  show ?thesis
    using end_voting_idempotent [OF r, where now' = 8 and b = 3]
    by (simp add: voting_eval)
qed

theorem voting_window_boundary_witness:
  "(\<exists>s'. cast_vote Debug 6 (Signed 3) 1 (vote_code No) example_voted = Inr s') \<and>
   end_voting Debug 6 (Signed 4) 1 example_voted = Inl (Module VotingPeriodNotStarted) \<and>
   cast_vote Debug 7 (Signed 3) 1 (vote_code No) example_voted = Inl (Module VotingPeriodEnded) \<and>
   (\<exists>s'. end_voting Debug 7 (Signed 4) 1 example_voted = Inr s')"
  using voting_window_boundary [where s = example_voted and p = 1 and a = 3 and b = 4 and prof = Debug
      and c = No and vp = "\<lparr>start_block = 1, end_block = 6\<rparr>"]
  by (simp add: voting_eval)

theorem start_voting_opens_witness:
  "\<exists>s'. start_voting Debug 1 (Signed 1) 1 5 (voting_genesis :: nat voting_storage) = Inr s' \<and>
     voting_periods s' 1 = Some \<lparr>start_block = 1, end_block = 6\<rparr> \<and>
     vote_counts s' 1 = Some default_tally"
  using start_voting_opens [where now = 1 and d = 5 and prof = Debug and a = 1 and p = 1
      and s = "voting_genesis :: nat voting_storage"]
  by (auto simp: start_voting_Inr_iff)

theorem reopen_locks_out_voter_witness:
  "start_voting Debug 2 (Signed 9) 1 5 example_voted =
     Inr (example_voted\<lparr>voting_periods := [1 \<mapsto> \<lparr>start_block = 2, end_block = 7\<rparr>],
       vote_counts := [1 \<mapsto> default_tally]\<rparr>) \<and>
   cast_vote Debug 3 (Signed 2) 1 1
     (example_voted\<lparr>voting_periods := [1 \<mapsto> \<lparr>start_block = 2, end_block = 7\<rparr>],
       vote_counts := [1 \<mapsto> default_tally]\<rparr>) \<notin> range Inr"
proof -
  have r: "start_voting Debug 2 (Signed 9) 1 5 example_voted =
     Inr (example_voted\<lparr>voting_periods := [1 \<mapsto> \<lparr>start_block = 2, end_block = 7\<rparr>],
       vote_counts := [1 \<mapsto> default_tally]\<rparr>)"
    by (simp add: voting_eval)
  have v: "proposal_votes example_voted (1, 2) = Some Yes"
    by (simp add: voting_eval)
  show ?thesis
    using r reopen_locks_out_voter [OF v r] by blast
qed

theorem unopened_proposal_rejected_witness:
  "voting_periods example_open 9 = None \<and>
   cast_vote Debug 3 (Signed 2) 9 0 example_open = Inl (Module ProposalDoesNotExist) \<and>
   end_voting Debug 3 (Signed 2) 9 example_open = Inl (Module ProposalDoesNotExist)"
proof -
  have n: "voting_periods example_open 9 = None"
    by (simp add: voting_eval)
  show ?thesis
    using n unopened_proposal_rejected [OF n, where prof = Debug and now = 3 and a = 2 and v = 0]
    by simp
qed

theorem cast_vote_effect_witness:
  "cast_vote Debug 3 (Signed 2) 1 0 example_open = Inr example_voted \<and>
   unat (counter Yes (vote_counts_get example_voted 1)) = 1"
proof -
  have r: "cast_vote Debug 3 (Signed 2) 1 0 example_open = Inr example_voted"
    by (simp add: voting_eval)
  have z: "unat (counter Yes (vote_counts_get example_open 1)) = 0"
    by (simp add: voting_eval)
  show ?thesis
    using r cast_vote_effect [OF r] z by auto
qed

theorem start_voting_end_wraps_witness:
  "\<exists>s'. start_voting Release 10 (Signed 1) 1 (- 1) (voting_genesis :: nat voting_storage) = Inr s' \<and>
     (\<exists>vp. voting_periods s' 1 = Some vp \<and> unat (end_block vp) = 9)"
  using start_voting_end_wraps [where now = 10 and d = "- 1" and a = 1 and p = 1
      and s = "voting_genesis :: nat voting_storage"]
  by (auto simp: unat_max_word)

theorem start_voting_debug_panics_witness:
  "start_voting Debug 10 (Signed 1) 1 (- 1) (voting_genesis :: nat voting_storage) = Inl Panic"
  using start_voting_debug_panics [where now = 10 and d = "- 1" and a = 1 and p = 1
      and s = "voting_genesis :: nat voting_storage"]
  by (simp add: unat_max_word)

theorem end_voting_total_wraps_witness:
  "end_voting Release 7 (Signed 1) 1 example_split =
     Inr (example_split\<lparr>voting_events := [VotingPeriodEndedEvent 1 2]\<rparr>) \<and>
   end_voting Debug 7 (Signed 1) 1 example_split = Inl Panic"
  using end_voting_total_wraps [where s = example_split and p = 1 and now = 7 and a = 1
      and vp = "\<lparr>start_block = 1, end_block = 6\<rparr>"]
  by (simp add: voting_eval example_split_def)

theorem voting_profiles_agree_witness:
  "voting_dispatch Debug 3 (Signed 2) (CastVote 1 0) example_open = Inr example_voted \<and>
   voting_dispatch Release 3 (Signed 2) (CastVote 1 0) example_open = Inr example_voted"
proof -
  have d: "voting_dispatch Debug 3 (Signed 2) (CastVote 1 0) example_open = Inr example_voted"
    by (simp add: voting_eval)
  show ?thesis
    using d voting_profiles_agree [where now = 3 and origin = "Signed 2" and c = "CastVote 1 0"
        and s = example_open]
    by simp
qed

theorem vote_code_roundtrip_witness:
  "decode_vote 1 = Some No \<and> vote_code No = 1 \<and> decode_vote 7 = None"
  using vote_code_roundtrip [where c = No and v = 1] vote_code_roundtrip [where c = No and v = 7]
  by simp

theorem proposals_independent_witness:
  "proposal_slice 2 example_voted = proposal_slice 2 example_open \<and>
   call_view 1 example_open (voting_dispatch Release 3 (Signed 2) (CastVote 1 0) example_open) =
   call_view 1 (example_open\<lparr>voting_periods := (voting_periods example_open)(2 \<mapsto> \<lparr>start_block = 0, end_block = 0\<rparr>)\<rparr>)
     (voting_dispatch Release 3 (Signed 2) (CastVote 1 0)
        (example_open\<lparr>voting_periods := (voting_periods example_open)(2 \<mapsto> \<lparr>start_block = 0, end_block = 0\<rparr>)\<rparr>))"
proof -
  have d: "voting_dispatch Release 3 (Signed 2) (CastVote 1 0) example_open = Inr example_voted"
    by (simp add: voting_eval example_voted_def block_number_compare)
  have "proposal_slice 1 example_open =
      proposal_slice 1 (example_open\<lparr>voting_periods := (voting_periods example_open)(2 \<mapsto> \<lparr>start_block = 0, end_block = 0\<rparr>)\<rparr>)"
    by (simp add: proposal_slice_def)
  with d show ?thesis
    using proposals_independent [where prof = Release and now = 3 and origin = "Signed 2" and c = "CastVote 1 0"
        and s = example_open and s' = example_voted and t = example_open
        and u = "example_open\<lparr>voting_periods := (voting_periods example_open)(2 \<mapsto> \<lparr>start_block = 0, end_block = 0\<rparr>)\<rparr>"]
    by simp
qed

end
