(* ===== verification/VotingRounds.thy ===== *)
theory VotingRounds
  imports CommunityVoting
begin

text \<open>
  The community-voting pallet as a state machine. The block number is advanced by the
  runtime between calls and never decreases; a failed call leaves the storage as it was
  (FRAME discards the writes of a call that returns an error or panics). This theory
  holds the reachable states and their invariant, runs of timed calls, and an abstract
  machine of voting rounds written from the specification, which the pallet refines: the
  stored tally of a proposal counts exactly the votes accepted since it was last opened.
\<close>

subsection \<open>Reachable states and runs\<close>

text \<open>
  The pallet as an instance of the state-machine interface of \<open>Prelude\<close>: its reachable
  states, the storage after one call, and runs of timed calls.
\<close>

abbreviation voting_reachable :: "build_profile \<Rightarrow> nat \<Rightarrow> 'acc voting_storage \<Rightarrow> bool" where
  "voting_reachable prof \<equiv> reachable (voting_dispatch prof) voting_genesis"

abbreviation voting_apply ::
  "build_profile \<Rightarrow> nat \<Rightarrow> 'acc origin \<Rightarrow> voting_call \<Rightarrow> 'acc voting_storage \<Rightarrow> 'acc voting_storage" where
  "voting_apply prof \<equiv> apply_call (voting_dispatch prof)"

type_synonym 'acc timed_call = "nat \<times> 'acc origin \<times> voting_call"

abbreviation voting_run :: "build_profile \<Rightarrow> 'acc voting_storage \<Rightarrow> 'acc timed_call list \<Rightarrow> 'acc voting_storage" where
  "voting_run prof \<equiv> run_calls (voting_dispatch prof)"

text \<open>The (proposal, voter) keys of the \<open>VoteCast\<close> events, in order.\<close>

fun cast_keys :: "'acc voting_event list \<Rightarrow> (u64 \<times> 'acc) list" where
  "cast_keys [] = []"
| "cast_keys (VoteCast p a v # es) = (p, a) # cast_keys es"
| "cast_keys (VotingPeriodEndedEvent p r # es) = cast_keys es"

subsection \<open>The invariant\<close>

text \<open>
  Tallies exist exactly for the opened proposals; votes exist only on opened
  proposals; every window started at or before the current block; the \<open>VoteCast\<close>
  events name each (proposal, voter) at most once, name exactly the stored votes, and
  carry the code of the stored choice.
\<close>

definition voting_inv :: "nat \<Rightarrow> 'acc voting_storage \<Rightarrow> bool" where
  "voting_inv now s \<longleftrightarrow>
     dom (vote_counts s) = dom (voting_periods s) \<and>
     fst ` dom (proposal_votes s) \<subseteq> dom (voting_periods s) \<and>
     (\<forall>vp \<in> ran (voting_periods s). unat (start_block vp) \<le> now) \<and>
     distinct (cast_keys (voting_events s)) \<and>
     set (cast_keys (voting_events s)) = dom (proposal_votes s) \<and>
     (\<forall>p a v. VoteCast p a v \<in> set (voting_events s) \<longrightarrow> proposal_votes s (p, a) = decode_vote v)"

subsection \<open>The abstract machine of voting rounds\<close>

text \<open>
  The specification's view: a window per opened proposal, the list of choices accepted in
  the proposal's current round, and the record of who voted (kept for ever). Opening
  empties the round; an accepted vote appends to it. Tallies are counted on \<open>nat\<close>.
\<close>

record 'acc round_state =
  round_window :: "u64 \<rightharpoonup> voting_period"
  round_ballots :: "u64 \<Rightarrow> vote_choice list"
  round_voters :: "u64 \<times> 'acc \<rightharpoonup> vote_choice"

definition round_genesis :: "'acc round_state" where
  "round_genesis = \<lparr>round_window = Map.empty, round_ballots = (\<lambda>_. []), round_voters = Map.empty\<rparr>"

definition round_open :: "nat \<Rightarrow> u64 \<Rightarrow> u64 \<Rightarrow> 'acc round_state \<Rightarrow> 'acc round_state" where
  "round_open now p d r =
     r\<lparr>round_window := (round_window r)(p \<mapsto>
          \<lparr>start_block = word_of_nat now, end_block = word_of_nat now + d\<rparr>),
       round_ballots := (round_ballots r)(p := [])\<rparr>"

definition round_accepts :: "nat \<Rightarrow> 'acc \<Rightarrow> u64 \<Rightarrow> 'acc round_state \<Rightarrow> bool" where
  "round_accepts now a p r =
     (case round_window r p of
        None \<Rightarrow> False
      | Some w \<Rightarrow> unat (start_block w) \<le> now \<and> now \<le> unat (end_block w) \<and>
                  round_voters r (p, a) = None)"

definition round_vote :: "'acc \<Rightarrow> u64 \<Rightarrow> vote_choice \<Rightarrow> 'acc round_state \<Rightarrow> 'acc round_state" where
  "round_vote a p c r =
     r\<lparr>round_ballots := (round_ballots r)(p := round_ballots r p @ [c]),
       round_voters := (round_voters r)((p, a) \<mapsto> c)\<rparr>"

fun round_step :: "nat \<Rightarrow> 'acc origin \<Rightarrow> voting_call \<Rightarrow> 'acc round_state \<Rightarrow> 'acc round_state" where
  "round_step now (Signed a) (StartVoting p d) r = (if now < 2 ^ 64 then round_open now p d r else r)"
| "round_step now (Signed a) (CastVote p v) r =
     (case decode_vote v of
        None \<Rightarrow> r
      | Some c \<Rightarrow> if now < 2 ^ 64 \<and> round_accepts now a p r then round_vote a p c r else r)"
| "round_step now origin c r = r"

fun round_run :: "'acc round_state \<Rightarrow> 'acc timed_call list \<Rightarrow> 'acc round_state" where
  "round_run r [] = r"
| "round_run r ((now, origin, c) # cs) = round_run (round_step now origin c r) cs"

text \<open>The \<open>u32\<close> tally of a list of choices, each counter modulo \<open>2 ^ 32\<close>.\<close>

definition tally_of :: "vote_choice list \<Rightarrow> vote_tally" where
  "tally_of cs = \<lparr>yes_votes = word_of_nat (count_list cs Yes), no_votes = word_of_nat (count_list cs No),
     abstain_votes = word_of_nat (count_list cs Abstain)\<rparr>"

definition rounds_refine :: "'acc round_state \<Rightarrow> 'acc voting_storage \<Rightarrow> bool" where
  "rounds_refine r s \<longleftrightarrow>
     round_window r = voting_periods s \<and> round_voters r = proposal_votes s \<and>
     dom (vote_counts s) = dom (voting_periods s) \<and>
     (\<forall>p. voting_periods s p \<noteq> None \<longrightarrow> vote_counts s p = Some (tally_of (round_ballots r p)))"


lemmas rounds_eval = round_genesis_def round_open_def round_accepts_def
  round_vote_def tally_of_def

subsection \<open>Invariant of the reachable states\<close>

lemma cast_keys_append [simp]: "cast_keys (xs @ ys) = cast_keys xs @ cast_keys ys"
  by (induction xs rule: cast_keys.induct) simp_all

lemma VoteCast_in_cast_keys: "VoteCast p a v \<in> set es \<Longrightarrow> (p, a) \<in> set (cast_keys es)"
  by (induction es rule: cast_keys.induct) auto

lemma voting_inv_genesis: "voting_inv 0 voting_genesis"
  by (simp add: voting_inv_def voting_genesis_def)

lemma voting_inv_advance: "voting_inv n s \<Longrightarrow> n \<le> n' \<Longrightarrow> voting_inv n' s"
  by (fastforce simp: voting_inv_def)

lemma voting_inv_ended_event [simp]:
  "voting_inv n (s\<lparr>voting_events := voting_events s @ [VotingPeriodEndedEvent p r]\<rparr>) = voting_inv n s"
  by (simp add: voting_inv_def)

lemma start_voting_inv:
  assumes inv: "voting_inv n s" and ok: "start_voting prof n origin p d s = Inr s'"
  shows "voting_inv n s'"
proof -
  let ?w = "\<lparr>start_block = word_of_nat n, end_block = word_of_nat n + d\<rparr> :: voting_period"
  have n: "n < 2 ^ 64" and s': "s' = s\<lparr>voting_periods := (voting_periods s)(p \<mapsto> ?w),
          vote_counts := (vote_counts s)(p \<mapsto> default_tally)\<rparr>"
    using ok by (simp_all add: start_voting_Inr_iff)
  have "dom (vote_counts s') = dom (voting_periods s')"
    using inv s' by (simp add: voting_inv_def)
  moreover have "fst ` dom (proposal_votes s') \<subseteq> dom (voting_periods s')"
  proof -
    have "fst ` dom (proposal_votes s) \<subseteq> dom (voting_periods s)"
      using inv by (simp add: voting_inv_def)
    then show ?thesis
      using s' by (simp add: subset_insertI2)
  qed
  moreover have "\<forall>vp \<in> ran (voting_periods s'). unat (start_block vp) \<le> n"
  proof
    fix vp assume "vp \<in> ran (voting_periods s')"
    then have "vp = ?w \<or> vp \<in> ran (voting_periods s)"
      using s' ran_map_upd_subset [of "voting_periods s" p ?w] by auto
    then show "unat (start_block vp) \<le> n"
      using inv n by (auto simp: voting_inv_def)
  qed
  moreover have "distinct (cast_keys (voting_events s')) \<and>
      set (cast_keys (voting_events s')) = dom (proposal_votes s') \<and>
      (\<forall>p a v. VoteCast p a v \<in> set (voting_events s') \<longrightarrow> proposal_votes s' (p, a) = decode_vote v)"
    using inv s' by (simp add: voting_inv_def)
  ultimately show ?thesis
    unfolding voting_inv_def by blast
qed

lemma cast_vote_inv:
  assumes inv: "voting_inv n s" and ok: "cast_vote prof n origin p v s = Inr s'"
  shows "voting_inv n s'"
proof -
  obtain a c vp where v: "v = vote_code c"
    and w: "voting_periods s p = Some vp" and fresh: "proposal_votes s (p, a) = None"
    and s': "s' = s\<lparr>proposal_votes := (proposal_votes s)((p, a) \<mapsto> c),
             vote_counts := (vote_counts s)(p \<mapsto> tally_bump c (vote_counts_get s p)),
             voting_events := voting_events s @ [VoteCast p a v]\<rparr>"
    using ok by (auto simp: cast_vote_Inr_iff)
  have keys: "(p, a) \<notin> set (cast_keys (voting_events s))"
    using inv fresh by (auto simp: voting_inv_def)
  have old: "VoteCast p' a' v' \<in> set (voting_events s) \<Longrightarrow> (p', a') \<noteq> (p, a)" for p' a' v'
    using keys by (auto dest: VoteCast_in_cast_keys)
  have "dom (vote_counts s') = dom (voting_periods s')"
    using inv w s' by (auto simp: voting_inv_def)
  moreover have "fst ` dom (proposal_votes s') \<subseteq> dom (voting_periods s')"
  proof -
    have "fst ` dom (proposal_votes s) \<subseteq> dom (voting_periods s)"
      using inv by (simp add: voting_inv_def)
    then show ?thesis
      using s' w by (auto simp: domI)
  qed
  moreover have "distinct (cast_keys (voting_events s'))"
    using inv keys s' by (simp add: voting_inv_def)
  moreover have "set (cast_keys (voting_events s')) = dom (proposal_votes s')"
    using inv s' by (simp add: voting_inv_def)
  moreover have "\<forall>p a v. VoteCast p a v \<in> set (voting_events s') \<longrightarrow> proposal_votes s' (p, a) = decode_vote v"
    using inv old s' v by (auto simp: voting_inv_def)
  moreover have "\<forall>vp \<in> ran (voting_periods s'). unat (start_block vp) \<le> n"
    using inv s' by (simp add: voting_inv_def)
  ultimately show ?thesis
    unfolding voting_inv_def by blast
qed

lemma end_voting_inv:
  assumes "voting_inv n s" and "end_voting prof n origin p s = Inr s'"
  shows "voting_inv n s'"
  using assms by (auto simp: end_voting_Inr_iff)

lemma voting_dispatch_inv:
  "voting_inv n s \<Longrightarrow> voting_dispatch prof n origin c s = Inr s' \<Longrightarrow> voting_inv n s'"
  by (cases c) (auto intro: start_voting_inv cast_vote_inv end_voting_inv)

lemma voting_reachable_voting_inv: "voting_reachable prof n s \<Longrightarrow> voting_inv n s"
  by (erule reachable_inv) (auto intro: voting_inv_genesis voting_inv_advance voting_dispatch_inv)

text \<open>
  C2: One vote per account: in every reachable state the VoteCast events name each (proposal, voter) pair at most once, and an account that has a VoteCast event for a proposal can never have another vote accepted on it, whatever the choice, block or build.
\<close>

theorem one_vote_per_account:
  assumes "voting_reachable prof n s"
  shows "distinct (cast_keys (voting_events s)) \<and>
     ((p, a) \<in> set (cast_keys (voting_events s)) \<longrightarrow>
        (\<forall>prof' now v. cast_vote prof' now (Signed a) p v s \<notin> range Inr))"
proof -
  have inv: "voting_inv n s"
    using assms by (rule voting_reachable_voting_inv)
  then have "distinct (cast_keys (voting_events s))"
    by (simp add: voting_inv_def)
  moreover have "proposal_votes s (p, a) \<noteq> None"
    if "(p, a) \<in> set (cast_keys (voting_events s))"
    using inv that by (auto simp: voting_inv_def)
  then have "cast_vote prof' now (Signed a) p v s \<notin> range Inr"
    if "(p, a) \<in> set (cast_keys (voting_events s))" for prof' now v
    using that by (auto simp: cast_vote_Inr_iff)
  ultimately show ?thesis
    by blast
qed

text \<open>
  C10: In every reachable state a tally is stored exactly for the opened proposals (so the ValueQuery default is never what an opened proposal reads), every vote record belongs to an opened proposal, and no window starts after the current block.
\<close>

theorem voting_reachable_inv:
  assumes "voting_reachable prof n s"
  shows "dom (vote_counts s) = dom (voting_periods s) \<and>
     (\<forall>p a. proposal_votes s (p, a) \<noteq> None \<longrightarrow> voting_periods s p \<noteq> None) \<and>
     (\<forall>p vp. voting_periods s p = Some vp \<longrightarrow> unat (start_block vp) \<le> n)"
proof -
  have inv: "voting_inv n s"
    using assms by (rule voting_reachable_voting_inv)
  have "voting_periods s p \<noteq> None" if "proposal_votes s (p, a) \<noteq> None" for p a
  proof -
    have "p \<in> fst ` dom (proposal_votes s)"
      using that by (auto intro: image_eqI [where x = "(p, a)"])
    moreover have "fst ` dom (proposal_votes s) \<subseteq> dom (voting_periods s)"
      using inv by (simp add: voting_inv_def)
    ultimately have "p \<in> dom (voting_periods s)"
      by blast
    then show ?thesis
      by auto
  qed
  moreover have "unat (start_block vp) \<le> n" if "voting_periods s p = Some vp" for p vp
    using inv that by (auto simp: voting_inv_def intro: ranI)
  ultimately show ?thesis
    using inv by (simp add: voting_inv_def)
qed

subsection \<open>Refinement of the round machine\<close>

lemma tally_bump_tally_of [simp]: "tally_bump c (tally_of bs) = tally_of (bs @ [c])"
  by (cases c) (simp_all add: tally_of_def)

lemma tally_of_Nil: "tally_of [] = default_tally"
  by (simp add: tally_of_def default_tally_def)

lemma rounds_refine_genesis: "rounds_refine round_genesis voting_genesis"
  by (simp add: rounds_refine_def round_genesis_def voting_genesis_def)

lemma rounds_refine_start:
  assumes "rounds_refine r s"
  shows "rounds_refine (round_step now (Signed a) (StartVoting p d) r)
           (voting_apply Release now (Signed a) (StartVoting p d) s)"
proof (cases "now < 2 ^ 64")
  case True
  then have "voting_apply Release now (Signed a) (StartVoting p d) s =
      s\<lparr>voting_periods := (voting_periods s)(p \<mapsto>
              \<lparr>start_block = word_of_nat now, end_block = word_of_nat now + d\<rparr>),
          vote_counts := (vote_counts s)(p \<mapsto> default_tally)\<rparr>"
    by (simp add: apply_call_def start_voting_ok)
  with True assms show ?thesis
    by (auto simp: round_open_def rounds_refine_def tally_of_Nil)
next
  case False
  then have "voting_apply Release now (Signed a) (StartVoting p d) s = s"
    by (simp add: apply_call_def start_voting_def block_number_u64_large)
  with False assms show ?thesis
    by simp
qed

lemma rounds_refine_cast:
  assumes "rounds_refine r s"
  shows "rounds_refine (round_step now (Signed a) (CastVote p v) r)
           (voting_apply Release now (Signed a) (CastVote p v) s)"
proof (cases "decode_vote v")
  case None
  then show ?thesis
    using assms by (simp add: apply_call_def cast_vote_def)
next
  case (Some c)
  show ?thesis
  proof (cases "now < 2 ^ 64 \<and> round_accepts now a p r")
    case True
    then obtain vp where w: "voting_periods s p = Some vp" and acc: "unat (start_block vp) \<le> now"
        "now \<le> unat (end_block vp)" "proposal_votes s (p, a) = None"
      using assms by (auto simp: round_accepts_def rounds_refine_def split: option.splits)
    have t: "vote_counts_get s p = tally_of (round_ballots r p)"
      using assms w by (auto simp: rounds_refine_def vote_counts_get_def)
    have "voting_apply Release now (Signed a) (CastVote p v) s =
        s\<lparr>proposal_votes := (proposal_votes s)((p, a) \<mapsto> c),
          vote_counts := (vote_counts s)(p \<mapsto> tally_of (round_ballots r p @ [c])),
          voting_events := voting_events s @ [VoteCast p a v]\<rparr>"
      using Some True w acc t by (simp add: apply_call_def cast_vote_ok decode_vote_Some)
    with assms Some True w show ?thesis
      by (auto simp: round_vote_def rounds_refine_def)
  next
    case False
    then have "\<not> (\<exists>s'. cast_vote Release now (Signed a) p v s = Inr s')"
      using assms Some
      by (auto simp: cast_vote_Inr_iff round_accepts_def rounds_refine_def decode_vote_Some)
    then have "voting_apply Release now (Signed a) (CastVote p v) s = s"
      by (auto simp: apply_call_def split: sum.split)
    then show ?thesis
      using assms Some False by auto
  qed
qed

lemma rounds_refine_events [simp]:
  "rounds_refine r (s\<lparr>voting_events := es\<rparr>) = rounds_refine r s"
  by (simp add: rounds_refine_def)

lemma rounds_refine_end:
  assumes "rounds_refine r s"
  shows "rounds_refine (round_step now origin (EndVoting p) r)
           (voting_apply prof now origin (EndVoting p) s)"
  using assms by (auto simp: apply_call_def end_voting_Inr_iff split: sum.split)

lemma voting_apply_unsigned:
  "(\<forall>a. origin \<noteq> Signed a) \<Longrightarrow> voting_apply prof now origin c s = s"
  by (cases c; cases origin) (simp_all add: apply_call_def voting_defs)

lemma rounds_refine_step:
  assumes "rounds_refine r s"
  shows "rounds_refine (round_step now origin c r) (voting_apply Release now origin c s)"
proof (cases "\<exists>a. origin = Signed a")
  case True
  then obtain a where o: "origin = Signed a" by blast
  show ?thesis
  proof (cases c)
    case (StartVoting p d)
    then show ?thesis using o rounds_refine_start [OF assms] by simp
  next
    case (CastVote p v)
    then show ?thesis using o rounds_refine_cast [OF assms] by simp
  next
    case (EndVoting p)
    then show ?thesis using o rounds_refine_end [OF assms] by simp
  qed
next
  case False
  then have "round_step now origin c r = r"
    by (cases origin; cases c) simp_all
  with False assms show ?thesis
    by (simp add: voting_apply_unsigned)
qed

lemma rounds_refine_run:
  "rounds_refine r s \<Longrightarrow> rounds_refine (round_run r cs) (voting_run Release s cs)"
proof (induction cs arbitrary: r s)
  case Nil
  then show ?case by simp
next
  case (Cons x cs)
  obtain now origin c where "x = (now, origin, c)"
    by (cases x) auto
  with Cons show ?case
    by (simp add: rounds_refine_step)
qed

text \<open>
  C3: Refinement of the specification's rounds: after any sequence of timed calls from genesis in a release build, the stored tally of a proposal counts, modulo 2^32, exactly the Yes, No and Abstain votes accepted since the proposal was last opened, as the abstract round machine computes them.
\<close>

theorem tally_counts_current_round:
  assumes "vote_counts (voting_run Release voting_genesis cs) p = Some t"
  shows "let b = round_ballots (round_run round_genesis cs) p in
     unat (yes_votes t) = count_list b Yes mod 2 ^ 32 \<and>
     unat (no_votes t) = count_list b No mod 2 ^ 32 \<and>
     unat (abstain_votes t) = count_list b Abstain mod 2 ^ 32"
proof -
  have r: "rounds_refine (round_run round_genesis cs) (voting_run Release voting_genesis cs)"
    by (rule rounds_refine_run [OF rounds_refine_genesis])
  then have "voting_periods (voting_run Release voting_genesis cs) p \<noteq> None"
    using assms by (auto simp: rounds_refine_def)
  with r assms have "t = tally_of (round_ballots (round_run round_genesis cs) p)"
    by (auto simp: rounds_refine_def)
  then show ?thesis
    by (simp add: tally_of_def unat_of_nat)
qed

subsection \<open>Closed rounds and the specification's examples\<close>

lemma voting_apply_closed:
  assumes w: "voting_periods s p = Some vp" and closed: "unat (end_block vp) < now"
    and c: "\<forall>d. c \<noteq> StartVoting p d"
  shows "vote_counts (voting_apply prof now origin c s) p = vote_counts s p \<and>
     voting_periods (voting_apply prof now origin c s) p = voting_periods s p"
proof (cases c)
  case (StartVoting q d)
  with c have "q \<noteq> p" by simp
  with StartVoting show ?thesis
    by (auto simp: apply_call_def start_voting_Inr_iff split: sum.split)
next
  case (CastVote q v)
  show ?thesis
  proof (cases "q = p")
    case True
    have "\<not> (\<exists>s'. cast_vote prof now origin p v s = Inr s')"
      using w closed by (auto simp: cast_vote_Inr_iff)
    with CastVote True show ?thesis
      by (auto simp: apply_call_def split: sum.split)
  next
    case False
    with CastVote show ?thesis
      by (auto simp: apply_call_def cast_vote_Inr_iff split: sum.split)
  qed
next
  case (EndVoting q)
  then show ?thesis
    by (auto simp: apply_call_def end_voting_Inr_iff split: sum.split)
qed

text \<open>
  C13: Once the block number is past the end of a proposal's window, no sequence of later calls that does not re-open the proposal changes its tally or its window, so end_voting keeps returning the same outcome.
\<close>

theorem closed_round_frozen:
  assumes "voting_periods s p = Some vp" and "unat (end_block vp) < n"
    and "\<forall>(now, origin, c) \<in> set cs. n \<le> now \<and> (\<forall>d. c \<noteq> StartVoting p d)"
  shows "vote_counts (voting_run prof s cs) p = vote_counts s p \<and>
     voting_periods (voting_run prof s cs) p = Some vp"
  using assms
proof (induction cs arbitrary: s)
  case Nil
  then show ?case by simp
next
  case (Cons x cs)
  obtain now origin c where x: "x = (now, origin, c)"
    by (cases x) auto
  let ?s = "voting_apply prof now origin c s"
  have "n \<le> now" and c: "\<forall>d. c \<noteq> StartVoting p d"
    using Cons.prems(3) x by auto
  with Cons.prems(1,2) have "vote_counts ?s p = vote_counts s p \<and> voting_periods ?s p = Some vp"
    using voting_apply_closed [OF Cons.prems(1) _ c, of now prof origin] by simp
  moreover have "vote_counts (voting_run prof ?s cs) p = vote_counts ?s p \<and>
      voting_periods (voting_run prof ?s cs) p = Some vp"
    using Cons.IH [of ?s] calculation Cons.prems(2,3) by auto
  ultimately show ?case
    using x by simp
qed

text \<open>
  The specification's two end-to-end examples: open proposal 1 for 5 blocks at block 1, a Yes vote at block 3, end_voting refused at block 6 and Passed at block 7; open proposal 2 for 0 blocks at block 1 and end_voting at block 2 gives NoQuorum.
\<close>

theorem spec_example_runs:
  "voting_events (voting_run Debug (voting_genesis :: nat voting_storage)
     [(1, Signed 1, StartVoting 1 5), (3, Signed 2, CastVote 1 0), (6, Signed 3, EndVoting 1),
      (7, Signed 3, EndVoting 1)]) = [VoteCast 1 2 0, VotingPeriodEndedEvent 1 (result_code Passed)] \<and>
   end_voting Debug 6 (Signed 3) 1 example_voted = Inl (Module VotingPeriodNotStarted) \<and>
   voting_events (voting_run Debug (voting_genesis :: nat voting_storage)
     [(1, Signed 1, StartVoting 2 0), (2, Signed 1, EndVoting 2)]) =
     [VotingPeriodEndedEvent 2 (result_code NoQuorum)]"
  by (simp add: apply_call_def voting_eval)

subsection \<open>Resolution is always eventually possible\<close>

lemma tally_result_code_total:
  "prof = Release \<or> unat (yes_votes t) + unat (no_votes t) < 2 ^ 32 \<Longrightarrow>
   \<exists>r. tally_result_code prof t = Some r"
  by (auto simp: tally_result_code_def rust_add_def overflows_def)

text \<open>
  C14: Liveness of resolution: from any reachable state at a block below 2^64, an opened proposal (whose tally sum fits in u32 in a debug build) can be resolved by end_voting at some later block reachable by advancing the clock, if and only if its window does not end at u64::MAX; a window ending at u64::MAX can never be resolved.
\<close>

theorem voting_round_resolvable:
  assumes "voting_reachable prof n s" and "n < 2 ^ 64" and "voting_periods s p = Some vp"
    and "prof = Release \<or>
         unat (yes_votes (vote_counts_get s p)) + unat (no_votes (vote_counts_get s p)) < 2 ^ 32"
  shows "(\<exists>m \<ge> n. voting_reachable prof m s \<and> (\<exists>s'. end_voting prof m (Signed a) p s = Inr s')) \<longleftrightarrow>
    end_block vp \<noteq> - 1"
proof
  assume "\<exists>m \<ge> n. voting_reachable prof m s \<and> (\<exists>s'. end_voting prof m (Signed a) p s = Inr s')"
  then obtain m s' where "end_voting prof m (Signed a) p s = Inr s'"
    by blast
  then have "unat (end_block vp) < m" and "m < 2 ^ 64"
    using assms(3) by (auto simp: end_voting_Inr_iff)
  then show "end_block vp \<noteq> - 1"
    by (auto simp: unat_max_word)
next
  assume e: "end_block vp \<noteq> - 1"
  let ?m = "max n (Suc (unat (end_block vp)))"
  have "Suc (unat (end_block vp)) < 2 ^ 64"
    using unat_below_max [OF e] by simp
  then have m: "?m < 2 ^ 64" and end_m: "unat (end_block vp) < ?m"
    using assms(2) by auto
  obtain r where "tally_result_code prof (vote_counts_get s p) = Some r"
    using tally_result_code_total [OF assms(4)] by blast
  then have "\<exists>s'. end_voting prof ?m (Signed a) p s = Inr s'"
    using assms(3) m end_m by (simp add: end_voting_Inr_iff)
  moreover have "voting_reachable prof ?m s"
    using assms(1) by (rule reachable.advance) simp
  ultimately show "\<exists>m \<ge> n. voting_reachable prof m s \<and> (\<exists>s'. end_voting prof m (Signed a) p s = Inr s')"
    by (intro exI [of _ ?m]) simp
qed

subsection \<open>Witnesses\<close>

lemma example_voted_reachable: "voting_reachable Debug 3 example_voted"
proof -
  have "voting_reachable Debug 1 (voting_genesis :: nat voting_storage)"
    by (rule reachable.advance [OF reachable.genesis]) simp
  moreover have "voting_dispatch Debug 1 (Signed 1) (StartVoting 1 5) voting_genesis = Inr example_open"
    by (simp add: voting_eval)
  ultimately have "voting_reachable Debug 1 example_open"
    by (rule reachable.dispatch)
  then have "voting_reachable Debug 3 example_open"
    by (rule reachable.advance) simp
  moreover have "voting_dispatch Debug 3 (Signed 2) (CastVote 1 0) example_open = Inr example_voted"
    by (simp add: voting_eval)
  ultimately show ?thesis
    by (rule reachable.dispatch)
qed

theorem one_vote_per_account_witness:
  "voting_reachable Debug 3 example_voted \<and> distinct (cast_keys (voting_events example_voted)) \<and>
   cast_vote Debug 4 (Signed 2) 1 1 example_voted \<notin> range Inr"
proof -
  have k: "(1, 2) \<in> set (cast_keys (voting_events example_voted))"
    by (simp add: example_voted_def)
  show ?thesis
    using example_voted_reachable k
      one_vote_per_account [OF example_voted_reachable, where p = 1 and a = 2]
    by blast
qed

theorem voting_reachable_inv_witness:
  "voting_reachable Debug 3 example_voted \<and> dom (vote_counts example_voted) = {1}"
  using example_voted_reachable voting_reachable_inv [OF example_voted_reachable]
  by (simp add: voting_eval)

theorem tally_counts_current_round_witness:
  "vote_counts (voting_run Release (voting_genesis :: nat voting_storage)
      [(1, Signed 1, StartVoting 1 5), (1, Signed 2, CastVote 1 0), (1, Signed 3, CastVote 1 0),
       (1, Signed 4, CastVote 1 1)]) 1 = Some \<lparr>yes_votes = 2, no_votes = 1, abstain_votes = 0\<rparr> \<and>
   count_list (round_ballots (round_run round_genesis
      [(1, Signed 1, StartVoting 1 5), (1, Signed (2::nat), CastVote 1 0), (1, Signed 3, CastVote 1 0),
       (1, Signed 4, CastVote 1 1)]) 1) Yes = 2"
proof -
  let ?cs = "[(1, Signed 1, StartVoting 1 5), (1, Signed (2::nat), CastVote 1 0),
       (1, Signed 3, CastVote 1 0), (1, Signed 4, CastVote 1 1)]"
  have v: "vote_counts (voting_run Release voting_genesis ?cs) 1 =
      Some \<lparr>yes_votes = 2, no_votes = 1, abstain_votes = 0\<rparr>"
    by (simp add: apply_call_def voting_eval)
  show ?thesis
    using v tally_counts_current_round [OF v] by (simp add: Let_def rounds_eval voting_eval)
qed

theorem closed_round_frozen_witness:
  "voting_periods example_voted 1 = Some \<lparr>start_block = 1, end_block = 6\<rparr> \<and>
   vote_counts (voting_run Debug example_voted
     [(7, Signed 4, CastVote 1 0), (8, Signed 5, EndVoting 1)]) 1 = vote_counts example_voted 1"
proof -
  have w: "voting_periods example_voted 1 = Some \<lparr>start_block = 1, end_block = 6\<rparr>"
    by (simp add: voting_eval)
  show ?thesis
    using w closed_round_frozen [OF w, where n = 7 and prof = Debug
        and cs = "[(7, Signed 4, CastVote 1 0), (8, Signed 5, EndVoting 1)]"]
    by simp
qed

theorem voting_round_resolvable_witness:
  "\<exists>m \<ge> 3. voting_reachable Debug m example_voted \<and>
     (\<exists>s'. end_voting Debug m (Signed 5) 1 example_voted = Inr s')"
proof -
  have p: "voting_periods example_voted 1 = Some \<lparr>start_block = 1, end_block = 6\<rparr>"
    by (simp add: voting_eval)
  have t: "unat (yes_votes (vote_counts_get example_voted 1)) +
      unat (no_votes (vote_counts_get example_voted 1)) < 2 ^ 32"
    by (simp add: voting_eval)
  show ?thesis
    using voting_round_resolvable [OF example_voted_reachable _ p, where a = 5] t by simp
qed

end
