(* ===== verification/BudgetProposal.thy ===== *)
theory BudgetProposal
  imports Prelude
begin

text \<open>
  The budget-proposal pallet (\<open>src/pallets/budget-proposal/src/lib.rs\<close>): budget
  proposals with a purpose of 1 to 200 bytes, numbered from the counter
  \<open>NextProposalId\<close>, created Pending and then approved or rejected once. Its storage is
  the map \<open>BudgetProposals\<close>, the counter and the events. This theory holds the three
  calls on every branch, the status state machine (Pending is left at most once, and
  only to Approved or Rejected), the invariant of the reachable states (every stored id
  is below the counter, timestamps are ordered, creator, amount and purpose never change)
  and the bounds of the counter.
\<close>

subsection \<open>Data\<close>

datatype proposal_status = Pending | Approved | Rejected

record 'acc proposal_details =
  creator :: 'acc
  amount :: u128
  purpose :: "u8 list"
  status :: proposal_status
  created_at :: u64
  updated_at :: u64

datatype budget_error =
    ProposalDoesNotExist
  | ProposalAlreadyExists
  | InvalidPurpose
  | InvalidReason
  | NotProposalCreator
  | ProposalNotPending

datatype 'acc budget_event =
    BudgetProposalCreated u64 'acc u128 "u8 list"
  | BudgetProposalApproved u64 'acc
  | BudgetProposalRejected u64 'acc "u8 list"

record 'acc budget_storage =
  budget_proposals :: "u64 \<rightharpoonup> 'acc proposal_details"
  next_proposal_id :: u64
  budget_events :: "'acc budget_event list"

definition budget_genesis :: "'acc budget_storage" where
  "budget_genesis = \<lparr>budget_proposals = Map.empty, next_proposal_id = 0, budget_events = []\<rparr>"

subsection \<open>Operations\<close>

text \<open>
  \<open>create_proposal\<close>: the purpose must be non-empty and at most 200 bytes; the id is
  the counter, which is advanced before the block number is read. A failed block-number
  conversion is reported as \<open>InvalidPurpose\<close>, and FRAME discards the advanced counter
  with the rest of the call.
\<close>

definition create_proposal ::
  "build_profile \<Rightarrow> nat \<Rightarrow> 'acc origin \<Rightarrow> u128 \<Rightarrow> u8 list \<Rightarrow> 'acc budget_storage
   \<Rightarrow> budget_error dispatch_error + 'acc budget_storage" where
  "create_proposal prof now origin amt purp s =
     (case ensure_signed origin of
        Inl e \<Rightarrow> Inl e
      | Inr who \<Rightarrow>
        if purp = [] then Inl (Module InvalidPurpose)
        else if 200 < length purp then Inl (Module InvalidPurpose)
        else
          (case bounded_vec 200 purp of
             None \<Rightarrow> Inl (Module InvalidPurpose)
           | Some bounded_purpose \<Rightarrow>
             let proposal_id = next_proposal_id s in
             (case rust_add prof proposal_id 1 of
                None \<Rightarrow> Inl Panic
              | Some next_id \<Rightarrow>
                (case block_number_u64 now of
                   None \<Rightarrow> Inl (Module InvalidPurpose)
                 | Some block \<Rightarrow>
                     Inr (s\<lparr>budget_proposals := (budget_proposals s)(proposal_id \<mapsto>
                              \<lparr>creator = who, amount = amt, purpose = bounded_purpose,
                               status = Pending, created_at = block, updated_at = block\<rparr>),
                            next_proposal_id := next_id,
                            budget_events := budget_events s @
                              [BudgetProposalCreated proposal_id who amt bounded_purpose]\<rparr>)))))"

definition approve_proposal ::
  "nat \<Rightarrow> 'acc origin \<Rightarrow> u64 \<Rightarrow> 'acc budget_storage
   \<Rightarrow> budget_error dispatch_error + 'acc budget_storage" where
  "approve_proposal now origin proposal_id s =
     (case ensure_signed origin of
        Inl e \<Rightarrow> Inl e
      | Inr approver \<Rightarrow>
        (case budget_proposals s proposal_id of
           None \<Rightarrow> Inl (Module ProposalDoesNotExist)
         | Some proposal \<Rightarrow>
           if status proposal \<noteq> Pending then Inl (Module ProposalNotPending)
           else
             (case block_number_u64 now of
                None \<Rightarrow> Inl (Module InvalidPurpose)
              | Some block \<Rightarrow>
                  Inr (s\<lparr>budget_proposals := (budget_proposals s)(proposal_id \<mapsto>
                           proposal\<lparr>status := Approved, updated_at := block\<rparr>),
                         budget_events := budget_events s @
                           [BudgetProposalApproved proposal_id approver]\<rparr>))))"

text \<open>\<open>reject_proposal\<close> validates the 1 to 100 byte reason before looking the proposal up.\<close>

definition reject_proposal ::
  "nat \<Rightarrow> 'acc origin \<Rightarrow> u64 \<Rightarrow> u8 list \<Rightarrow> 'acc budget_storage
   \<Rightarrow> budget_error dispatch_error + 'acc budget_storage" where
  "reject_proposal now origin proposal_id reason s =
     (case ensure_signed origin of
        Inl e \<Rightarrow> Inl e
      | Inr rejecter \<Rightarrow>
        if reason = [] then Inl (Module InvalidReason)
        else if 100 < length reason then Inl (Module InvalidReason)
        else
          (case bounded_vec 100 reason of
             None \<Rightarrow> Inl (Module InvalidReason)
           | Some bounded_reason \<Rightarrow>
             (case budget_proposals s proposal_id of
                None \<Rightarrow> Inl (Module ProposalDoesNotExist)
              | Some proposal \<Rightarrow>
                if status proposal \<noteq> Pending then Inl (Module ProposalNotPending)
                else
                  (case block_number_u64 now of
                     None \<Rightarrow> Inl (Module InvalidPurpose)
                   | Some block \<Rightarrow>
                       Inr (s\<lparr>budget_proposals := (budget_proposals s)(proposal_id \<mapsto>
                                proposal\<lparr>status := Rejected, updated_at := block\<rparr>),
                              budget_events := budget_events s @
                                [BudgetProposalRejected proposal_id rejecter bounded_reason]\<rparr>)))))"

datatype budget_call =
    CreateProposal u128 "u8 list"
  | ApproveProposal u64
  | RejectProposal u64 "u8 list"

fun budget_dispatch :: "build_profile \<Rightarrow> ('acc, budget_call, budget_error, 'acc budget_storage) dispatcher" where
  "budget_dispatch prof now origin (CreateProposal amt purp) s = create_proposal prof now origin amt purp s"
| "budget_dispatch prof now origin (ApproveProposal p) s = approve_proposal now origin p s"
| "budget_dispatch prof now origin (RejectProposal p r) s = reject_proposal now origin p r s"

abbreviation budget_reachable :: "build_profile \<Rightarrow> nat \<Rightarrow> 'acc budget_storage \<Rightarrow> bool" where
  "budget_reachable prof \<equiv> reachable (budget_dispatch prof) budget_genesis"

subsection \<open>The status machine and the invariant\<close>

text \<open>The transitions of a proposal's status that the calls make.\<close>

inductive status_step :: "proposal_status \<Rightarrow> proposal_status \<Rightarrow> bool" where
  approve: "status_step Pending Approved"
| reject: "status_step Pending Rejected"

text \<open>
  The ids in use are exactly those below the counter, or, once a release build has
  wrapped the counter, all of them; every proposal was updated no earlier than it was
  created and no later than the current block, and its purpose has 1 to 200 bytes.
\<close>

definition budget_inv :: "build_profile \<Rightarrow> nat \<Rightarrow> 'acc budget_storage \<Rightarrow> bool" where
  "budget_inv prof now s \<longleftrightarrow>
     (dom (budget_proposals s) = {p. p < next_proposal_id s} \<or>
      prof = Release \<and> dom (budget_proposals s) = UNIV) \<and>
     (\<forall>d \<in> ran (budget_proposals s). created_at d \<le> updated_at d \<and> unat (updated_at d) \<le> now \<and>
        length (purpose d) \<in> {1..200})"

subsection \<open>The specification's example\<close>

text \<open>
  The pallet's tests at block 1: account 1 proposes 500 units for a purpose (here the
  five bytes of ``Roads''), and account 2 approves proposal 0.
\<close>

definition example_purpose :: "u8 list" where
  "example_purpose = [82, 111, 97, 100, 115]"

definition example_created :: "nat budget_storage" where
  "example_created =
     \<lparr>budget_proposals = [0 \<mapsto> \<lparr>creator = 1, amount = 500, purpose = example_purpose,
        status = Pending, created_at = 1, updated_at = 1\<rparr>],
      next_proposal_id = 1,
      budget_events = [BudgetProposalCreated 0 1 500 example_purpose]\<rparr>"

definition example_approved :: "nat budget_storage" where
  "example_approved =
     \<lparr>budget_proposals = [0 \<mapsto> \<lparr>creator = 1, amount = 500, purpose = example_purpose,
        status = Approved, created_at = 1, updated_at = 1\<rparr>],
      next_proposal_id = 1,
      budget_events = [BudgetProposalCreated 0 1 500 example_purpose, BudgetProposalApproved 0 2]\<rparr>"

subsection \<open>Each call on every branch\<close>



lemma create_proposal_Inr_iff:
  "create_proposal prof now origin amt purp s = Inr s' \<longleftrightarrow>
   (\<exists>who. origin = Signed who \<and> purp \<noteq> [] \<and> length purp \<le> 200 \<and> now < 2 ^ 64 \<and>
      (prof = Debug \<longrightarrow> next_proposal_id s \<noteq> - 1) \<and>
      s' = s\<lparr>budget_proposals := (budget_proposals s)(next_proposal_id s \<mapsto>
              \<lparr>creator = who, amount = amt, purpose = purp, status = Pending,
               created_at = word_of_nat now, updated_at = word_of_nat now\<rparr>),
             next_proposal_id := next_proposal_id s + 1,
             budget_events := budget_events s @ [BudgetProposalCreated (next_proposal_id s) who amt purp]\<rparr>)"
  by (auto simp: create_proposal_def ensure_signed_def block_number_u64_def bounded_vec_def
      rust_add_def overflows_one Let_def split: origin.splits option.splits if_splits)

lemma approve_proposal_Inr_iff:
  "approve_proposal now origin p s = Inr s' \<longleftrightarrow>
   (\<exists>who d. origin = Signed who \<and> budget_proposals s p = Some d \<and> status d = Pending \<and> now < 2 ^ 64 \<and>
      s' = s\<lparr>budget_proposals := (budget_proposals s)(p \<mapsto> d\<lparr>status := Approved, updated_at := word_of_nat now\<rparr>),
             budget_events := budget_events s @ [BudgetProposalApproved p who]\<rparr>)"
  by (auto simp: approve_proposal_def ensure_signed_def block_number_u64_def
      split: origin.splits option.splits if_splits)

lemma reject_proposal_Inr_iff:
  "reject_proposal now origin p r s = Inr s' \<longleftrightarrow>
   (\<exists>who d. origin = Signed who \<and> r \<noteq> [] \<and> length r \<le> 100 \<and> budget_proposals s p = Some d \<and>
      status d = Pending \<and> now < 2 ^ 64 \<and>
      s' = s\<lparr>budget_proposals := (budget_proposals s)(p \<mapsto> d\<lparr>status := Rejected, updated_at := word_of_nat now\<rparr>),
             budget_events := budget_events s @ [BudgetProposalRejected p who r]\<rparr>)"
  by (auto simp: reject_proposal_def ensure_signed_def block_number_u64_def bounded_vec_def
      split: origin.splits option.splits if_splits)

lemmas budget_defs [dispatch_defs] = create_proposal_def approve_proposal_def reject_proposal_def

subsection \<open>The invariant of the reachable states\<close>

lemma budget_inv_genesis: "budget_inv prof 0 budget_genesis"
  by (simp add: budget_inv_def budget_genesis_def)

lemma budget_inv_advance:
  assumes "budget_inv prof n s" and "n \<le> n'"
  shows "budget_inv prof n' s"
proof -
  have "unat (updated_at d) \<le> n'" if "d \<in> ran (budget_proposals s)" for d
    using assms that unfolding budget_inv_def by (meson le_trans)
  with assms show ?thesis
    unfolding budget_inv_def by blast
qed

text \<open>Approving and rejecting rewrite one existing proposal's status and update time.\<close>

lemma budget_inv_decide:
  assumes inv: "budget_inv prof n s" and d: "budget_proposals s p = Some d" and n: "n < 2 ^ 64"
  shows "budget_inv prof n (s\<lparr>budget_proposals := (budget_proposals s)(p \<mapsto>
            d\<lparr>status := st, updated_at := word_of_nat n\<rparr>), budget_events := es\<rparr>)"
proof -
  let ?d = "d\<lparr>status := st, updated_at := word_of_nat n\<rparr>"
  have "d \<in> ran (budget_proposals s)"
    using d by (rule ranI)
  then have "unat (created_at d) \<le> n"
    using inv unfolding budget_inv_def by (meson le_trans word_le_nat_alt)
  then have new: "created_at ?d \<le> updated_at ?d \<and> unat (updated_at ?d) \<le> n \<and>
      length (purpose ?d) \<in> {1..200}"
    using n inv \<open>d \<in> ran (budget_proposals s)\<close> by (simp add: block_number_compare budget_inv_def)
  have "dom ((budget_proposals s)(p \<mapsto> ?d)) = dom (budget_proposals s)"
    using d by auto
  moreover have "\<forall>x \<in> ran ((budget_proposals s)(p \<mapsto> ?d)).
      created_at x \<le> updated_at x \<and> unat (updated_at x) \<le> n \<and> length (purpose x) \<in> {1..200}"
    using inv new ran_map_upd_subset [of "budget_proposals s" p ?d] unfolding budget_inv_def by blast
  ultimately show ?thesis
    using inv unfolding budget_inv_def by simp
qed

lemma create_proposal_inv:
  assumes inv: "budget_inv prof n s" and ok: "create_proposal prof n origin amt purp s = Inr s'"
  shows "budget_inv prof n s'"
proof -
  obtain who where p: "purp \<noteq> []" "length purp \<le> 200" and n: "n < 2 ^ 64"
    and nx: "prof = Debug \<longrightarrow> next_proposal_id s \<noteq> - 1"
    and s': "s' = s\<lparr>budget_proposals := (budget_proposals s)(next_proposal_id s \<mapsto>
              \<lparr>creator = who, amount = amt, purpose = purp, status = Pending,
               created_at = word_of_nat n, updated_at = word_of_nat n\<rparr>),
             next_proposal_id := next_proposal_id s + 1,
             budget_events := budget_events s @ [BudgetProposalCreated (next_proposal_id s) who amt purp]\<rparr>"
    using ok by (auto simp: create_proposal_Inr_iff)
  let ?k = "next_proposal_id s"
  have "dom (budget_proposals s') = {p. p < next_proposal_id s'} \<or>
      prof = Release \<and> dom (budget_proposals s') = UNIV"
  proof (cases "dom (budget_proposals s) = {p. p < ?k}")
    case True
    show ?thesis
    proof (cases "?k = - 1")
      case True
      with nx have "prof = Release" by (cases prof) auto
      with True \<open>dom (budget_proposals s) = {p. p < ?k}\<close> s' show ?thesis
        by (simp add: ids_below_max)
    next
      case False
      with \<open>dom (budget_proposals s) = {p. p < ?k}\<close> s' show ?thesis
        by (simp add: ids_below_plus_one)
    qed
  next
    case False
    with inv have "prof = Release \<and> dom (budget_proposals s) = UNIV"
      by (simp add: budget_inv_def)
    with s' show ?thesis
      by auto
  qed
  moreover have "\<forall>x \<in> ran (budget_proposals s').
      created_at x \<le> updated_at x \<and> unat (updated_at x) \<le> n \<and> length (purpose x) \<in> {1..200}"
  proof -
    let ?d = "\<lparr>creator = who, amount = amt, purpose = purp, status = Pending,
               created_at = word_of_nat n, updated_at = word_of_nat n\<rparr> :: 'a proposal_details"
    have old: "\<forall>x \<in> ran (budget_proposals s).
        created_at x \<le> updated_at x \<and> unat (updated_at x) \<le> n \<and> length (purpose x) \<in> {1..200}"
      using inv by (simp add: budget_inv_def)
    have new: "created_at ?d \<le> updated_at ?d \<and> unat (updated_at ?d) \<le> n \<and> length (purpose ?d) \<in> {1..200}"
      using p n by (simp add: Suc_leI)
    have "ran (budget_proposals s') \<subseteq> insert ?d (ran (budget_proposals s))"
      using s' ran_map_upd_subset [of "budget_proposals s" ?k ?d] by simp
    with old new show ?thesis
      by blast
  qed
  ultimately show ?thesis
    by (simp add: budget_inv_def)
qed

lemma budget_dispatch_inv:
  assumes "budget_inv prof n s" and "budget_dispatch prof n origin c s = Inr s'"
  shows "budget_inv prof n s'"
proof (cases c)
  case (CreateProposal amt purp)
  then show ?thesis using assms create_proposal_inv by simp
next
  case (ApproveProposal p)
  then show ?thesis using assms by (auto simp: approve_proposal_Inr_iff intro: budget_inv_decide)
next
  case (RejectProposal p r)
  then show ?thesis using assms by (auto simp: reject_proposal_Inr_iff intro: budget_inv_decide)
qed

lemma budget_reachable_budget_inv: "budget_reachable prof n s \<Longrightarrow> budget_inv prof n s"
  by (erule reachable_inv) (auto intro: budget_inv_genesis budget_inv_advance budget_dispatch_inv)

subsection \<open>Reachable states and the counter\<close>

lemma budget_fresh_id:
  assumes "budget_reachable prof n s" and "dom (budget_proposals s) \<noteq> UNIV"
  shows "budget_proposals s (next_proposal_id s) = None"
proof -
  have "dom (budget_proposals s) = {p. p < next_proposal_id s}"
    using budget_reachable_budget_inv [OF assms(1)] assms(2) by (auto simp: budget_inv_def)
  then show ?thesis
    by auto
qed

lemma budget_reachable_create:
  "budget_reachable prof n s \<Longrightarrow> create_proposal prof n origin amt purp s = Inr s' \<Longrightarrow>
   budget_reachable prof n s'"
  by (rule reachable.dispatch [where c = "CreateProposal amt purp"]) simp_all

lemma budget_reachable_approve:
  "budget_reachable prof n s \<Longrightarrow> approve_proposal n origin p s = Inr s' \<Longrightarrow>
   budget_reachable prof n s'"
  by (rule reachable.dispatch [where c = "ApproveProposal p"]) simp_all

lemma create_proposal_step:
  assumes "now < 2 ^ 64" and "purp \<noteq> []" and "length purp \<le> 200"
  shows "\<exists>s'. create_proposal Release now (Signed a) amt purp s = Inr s' \<and>
    next_proposal_id s' = next_proposal_id s + 1 \<and>
    budget_proposals s' = (budget_proposals s)(next_proposal_id s \<mapsto>
      \<lparr>creator = a, amount = amt, purpose = purp, status = Pending,
       created_at = word_of_nat now, updated_at = word_of_nat now\<rparr>)"
  using assms by (simp add: create_proposal_Inr_iff)

lemma budget_release_creates:
  assumes "budget_reachable Release 0 s" and "next_proposal_id s = word_of_nat k" and "0 < k"
    and "k + j < 2 ^ 64" and "budget_proposals s 0 = Some d"
  shows "\<exists>s'. budget_reachable Release 0 s' \<and> budget_proposals s' 0 = Some d \<and>
    next_proposal_id s' = word_of_nat (k + j)"
proof -
  have step: "\<exists>origin c s2. budget_dispatch Release 0 origin c s1 = Inr s2 \<and>
      budget_proposals s2 0 = Some d \<and> next_proposal_id s2 = next_proposal_id s1 + 1"
    if "budget_reachable Release 0 s1" and "budget_proposals s1 0 = Some d"
      and "next_proposal_id s1 = word_of_nat m" and "k \<le> m" and "m < k + j" for s1 m
  proof -
    have "(word_of_nat m :: u64) \<noteq> 0"
      using that(4,5) assms(3,4) by (intro of_nat_neq_0) simp_all
    moreover obtain s2 where c: "create_proposal Release 0 (Signed (creator d)) 0 [0] s1 = Inr s2"
      and n2: "next_proposal_id s2 = next_proposal_id s1 + 1"
      and p2: "budget_proposals s2 = (budget_proposals s1)(next_proposal_id s1 \<mapsto>
        \<lparr>creator = creator d, amount = 0, purpose = [0], status = Pending,
         created_at = 0, updated_at = 0\<rparr>)"
      using create_proposal_step [of 0 "[0]" "creator d" 0 s1] by auto
    ultimately have "budget_proposals s2 0 = Some d"
      using that(2,3) by simp
    then show ?thesis
      using c n2 by (intro exI [of _ "Signed (creator d)"] exI [of _ "CreateProposal 0 [0]"] exI [of _ s2]) simp
  qed
  have "k + j < 2 ^ LENGTH(64)"
    using assms(4) by simp
  from reachable_iterate [where P = "\<lambda>s. budget_proposals s 0 = Some d" and ctr = next_proposal_id,
      OF assms(1) assms(5) assms(2) this step]
  show ?thesis
    by simp
qed

lemma example_created_reachable: "budget_reachable prof 1 example_created"
proof -
  have "create_proposal prof 1 (Signed 1) 500 example_purpose budget_genesis = Inr example_created"
    by (simp add: create_proposal_Inr_iff example_purpose_def example_created_def budget_genesis_def)
  moreover have "budget_reachable prof 1 budget_genesis"
    by (rule reachable.advance [OF reachable.genesis]) simp
  ultimately show ?thesis
    using budget_reachable_create by blast
qed

lemma example_approved_reachable: "budget_reachable prof 1 example_approved"
proof -
  have "approve_proposal 1 (Signed 2) 0 example_created = Inr example_approved"
    by (simp add: approve_proposal_def example_created_def example_approved_def)
  then show ?thesis
    using budget_reachable_approve example_created_reachable by blast
qed

subsection \<open>Properties\<close>

text \<open>
  C19: A dispatched call (with the counter not wrapped) never removes a proposal or changes its creator, amount, purpose or creation block, and changes its status only along the status machine: Pending to Approved or Pending to Rejected.
\<close>

theorem budget_status_transitions:
  assumes "budget_reachable prof n s" and "budget_dispatch prof n origin c s = Inr s'"
    and "budget_proposals s p = Some d" and "dom (budget_proposals s) \<noteq> UNIV"
  shows "\<exists>d'. budget_proposals s' p = Some d' \<and> creator d' = creator d \<and> amount d' = amount d \<and>
     purpose d' = purpose d \<and> created_at d' = created_at d \<and>
     (status d' = status d \<or> status_step (status d) (status d'))"
proof (cases c)
  case (CreateProposal amt purp)
  have "p \<noteq> next_proposal_id s"
    using budget_fresh_id [OF assms(1,4)] assms(3) by auto
  then show ?thesis
    using assms(2,3) CreateProposal by (auto simp: create_proposal_Inr_iff)
next
  case (ApproveProposal q)
  then show ?thesis
    using assms(2,3) by (auto simp: approve_proposal_Inr_iff status_step.intros)
next
  case (RejectProposal q r)
  then show ?thesis
    using assms(2,3) by (auto simp: reject_proposal_Inr_iff status_step.intros)
qed

text \<open>
  C21: In every reachable state of a debug build the stored ids are exactly those below NextProposalId; in every build each stored proposal has created_at <= updated_at, was updated no later than the current block, and has a purpose of 1 to 200 bytes.
\<close>

theorem budget_reachable_inv:
  assumes "budget_reachable prof n s"
  shows "(prof = Debug \<longrightarrow> dom (budget_proposals s) = {p. p < next_proposal_id s}) \<and>
     (\<forall>p d. budget_proposals s p = Some d \<longrightarrow> created_at d \<le> updated_at d \<and>
        unat (updated_at d) \<le> n \<and> 1 \<le> length (purpose d) \<and> length (purpose d) \<le> 200)"
proof -
  have inv: "budget_inv prof n s"
    using assms by (rule budget_reachable_budget_inv)
  then have "prof = Debug \<longrightarrow> dom (budget_proposals s) = {p. p < next_proposal_id s}"
    by (auto simp: budget_inv_def)
  moreover have "created_at d \<le> updated_at d \<and> unat (updated_at d) \<le> n \<and>
      1 \<le> length (purpose d) \<and> length (purpose d) \<le> 200" if "budget_proposals s p = Some d" for p d
    using inv ranI [of "budget_proposals s", OF that] by (simp add: budget_inv_def)
  ultimately show ?thesis
    by blast
qed

text \<open>
  C23: An approved or rejected proposal is final: approving or rejecting it again (with a valid reason) fails with ProposalNotPending.
\<close>

theorem decided_proposal_final:
  assumes "budget_proposals s p = Some d" and "status d \<noteq> Pending" and "r \<noteq> []" and "length r \<le> 100"
  shows "approve_proposal now (Signed a) p s = Inl (Module ProposalNotPending) \<and>
     reject_proposal now (Signed a) p r s = Inl (Module ProposalNotPending)"
  using assms by (simp add: approve_proposal_def reject_proposal_def)

text \<open>
  C25: In a reachable state whose counter has not wrapped, a valid create_proposal stores a Pending proposal of the caller under the counter value, an id not yet in use, with both timestamps the current block, advances the counter by one and deposits BudgetProposalCreated.
\<close>

theorem create_proposal_effect:
  assumes "budget_reachable prof now s" and "dom (budget_proposals s) \<noteq> UNIV"
    and "purp \<noteq> []" and "length purp \<le> 200" and "now < 2 ^ 64"
    and "prof = Release \<or> next_proposal_id s \<noteq> - 1"
  shows "budget_proposals s (next_proposal_id s) = None \<and>
     create_proposal prof now (Signed a) amt purp s =
     Inr (s\<lparr>budget_proposals := (budget_proposals s)(next_proposal_id s \<mapsto>
              \<lparr>creator = a, amount = amt, purpose = purp, status = Pending,
               created_at = word_of_nat now, updated_at = word_of_nat now\<rparr>),
            next_proposal_id := next_proposal_id s + 1,
            budget_events := budget_events s @ [BudgetProposalCreated (next_proposal_id s) a amt purp]\<rparr>)"
proof -
  have "budget_proposals s (next_proposal_id s) = None"
    using assms(1,2) by (rule budget_fresh_id)
  with assms(3-6) show ?thesis
    by (auto simp: create_proposal_Inr_iff)
qed

text \<open>
  C22: create_proposal checks in the order of the code: BadOrigin, then InvalidPurpose for an empty or over-long purpose, then a debug build panics on the counter at u64::MAX, and only then a block number beyond u64 is reported as InvalidPurpose.
\<close>

theorem create_proposal_errors:
  "create_proposal prof now NoneOrigin amt purp s = Inl BadOrigin \<and>
   create_proposal prof now (Signed a) amt [] s = Inl (Module InvalidPurpose) \<and>
   (200 < length purp \<longrightarrow> create_proposal prof now (Signed a) amt purp s = Inl (Module InvalidPurpose)) \<and>
   (purp \<noteq> [] \<and> length purp \<le> 200 \<and> next_proposal_id s = - 1 \<longrightarrow>
      create_proposal Debug now (Signed a) amt purp s = Inl Panic) \<and>
   (purp \<noteq> [] \<and> length purp \<le> 200 \<and> (prof = Release \<or> next_proposal_id s \<noteq> - 1) \<and> 2 ^ 64 \<le> now \<longrightarrow>
      create_proposal prof now (Signed a) amt purp s = Inl (Module InvalidPurpose))"
  by (auto simp: create_proposal_def rust_add_def overflows_one block_number_u64_large Let_def)

text \<open>
  reject_proposal validates the reason before it looks the proposal up, so a missing proposal with a bad reason is InvalidReason; with a valid reason, or for approve_proposal, a missing proposal is ProposalDoesNotExist.
\<close>

theorem reject_reason_checked_first:
  "((r = [] \<or> 100 < length r) \<longrightarrow> reject_proposal now (Signed a) p r s = Inl (Module InvalidReason)) \<and>
   (r \<noteq> [] \<and> length r \<le> 100 \<and> budget_proposals s p = None \<longrightarrow>
      reject_proposal now (Signed a) p r s = Inl (Module ProposalDoesNotExist)) \<and>
   (budget_proposals s p = None \<longrightarrow> approve_proposal now (Signed a) p s = Inl (Module ProposalDoesNotExist))"
  by (auto simp: reject_proposal_def approve_proposal_def)

text \<open>
  C24: There is no authorization: any signed account, whether or not it created the
  proposal, approves a pending proposal, and rejects it with any 1 to 100 byte reason; the
  call records the new status and the current block and names that account in its event.
  The declared error NotProposalCreator is never raised.
\<close>

theorem budget_no_authorization:
  assumes "budget_proposals s p = Some d" and "status d = Pending" and "now < 2 ^ 64"
  shows "approve_proposal now (Signed a) p s =
      Inr (s\<lparr>budget_proposals := (budget_proposals s)(p \<mapsto> d\<lparr>status := Approved, updated_at := word_of_nat now\<rparr>),
             budget_events := budget_events s @ [BudgetProposalApproved p a]\<rparr>) \<and>
    (r \<noteq> [] \<and> length r \<le> 100 \<longrightarrow> reject_proposal now (Signed a) p r s =
      Inr (s\<lparr>budget_proposals := (budget_proposals s)(p \<mapsto> d\<lparr>status := Rejected, updated_at := word_of_nat now\<rparr>),
             budget_events := budget_events s @ [BudgetProposalRejected p a r]\<rparr>))"
  using assms by (auto simp: approve_proposal_def reject_proposal_def ensure_signed_def block_number_u64_def
      bounded_vec_def)

text \<open>
  C20: In a release build NextProposalId wraps after 2^64 proposals, and a reachable state exists in which create_proposal overwrites the approved proposal 0 with a new Pending one.
\<close>

theorem release_wrap_resets_decided:
  "\<exists>(s :: nat budget_storage) s' d. budget_reachable Release 0 s \<and>
     budget_proposals s 0 = Some d \<and> status d = Approved \<and>
     budget_dispatch Release 0 (Signed 0) (CreateProposal 0 [0]) s = Inr s' \<and>
     (\<exists>d'. budget_proposals s' 0 = Some d' \<and> status d' = Pending)"
proof -
  obtain s1 :: "nat budget_storage" where c1: "create_proposal Release 0 (Signed 0) 0 [0] budget_genesis = Inr s1"
      and n1': "next_proposal_id s1 = next_proposal_id (budget_genesis :: nat budget_storage) + 1"
      and p1': "budget_proposals s1 = (budget_proposals (budget_genesis :: nat budget_storage))(next_proposal_id (budget_genesis :: nat budget_storage) \<mapsto>
        \<lparr>creator = 0, amount = 0, purpose = [0], status = Pending,
         created_at = 0, updated_at = 0\<rparr>)"
    using create_proposal_step [of 0 "[0]" 0 0 budget_genesis] by auto
  have n1: "next_proposal_id s1 = 1" and p1: "budget_proposals s1 0 \<noteq> None"
    using n1' p1' by (simp_all add: budget_genesis_def)
  have r1: "budget_reachable Release 0 s1"
    by (rule budget_reachable_create [OF reachable.genesis c1])
  obtain d1 where d1: "budget_proposals s1 0 = Some d1" and st1: "status d1 = Pending"
    using c1 p1 by (auto simp: create_proposal_Inr_iff budget_genesis_def)
  obtain s2 where c2: "approve_proposal 0 (Signed 0) 0 s1 = Inr s2"
    using d1 st1 by (simp add: approve_proposal_def)
  then obtain d2 where d2: "budget_proposals s2 0 = Some d2" and st2: "status d2 = Approved"
      and n2: "next_proposal_id s2 = 1"
    using d1 n1 by (auto simp: approve_proposal_Inr_iff)
  have r2: "budget_reachable Release 0 s2"
    by (rule budget_reachable_approve [OF r1 c2])
  obtain s3 where r3: "budget_reachable Release 0 s3"
      and d3: "budget_proposals s3 0 = Some d2" and n3: "next_proposal_id s3 = word_of_nat (1 + (2 ^ 64 - 2))"
    using budget_release_creates [OF r2, where k = 1 and j = "2 ^ 64 - 2" and d = d2] n2 d2 by auto
  have n3': "next_proposal_id s3 = - 1"
    using n3 by simp
  obtain s4 where c4: "create_proposal Release 0 (Signed 0) 0 [0] s3 = Inr s4"
      and n4: "next_proposal_id s4 = 0" and d4: "budget_proposals s4 0 = Some d2"
    using create_proposal_step [of 0 "[0]" 0 0 s3] n3' d3 by auto
  have r4: "budget_reachable Release 0 s4"
    by (rule budget_reachable_create [OF r3 c4])
  obtain s5 where c5: "create_proposal Release 0 (Signed 0) 0 [0] s4 = Inr s5"
      and d5: "budget_proposals s5 0 = Some \<lparr>creator = 0, amount = 0, purpose = [0], status = Pending,
         created_at = 0, updated_at = 0\<rparr>"
    using create_proposal_step [of 0 "[0]" 0 0 s4] n4 by auto
  show ?thesis
    using r4 d4 st2 c5 d5 by fastforce
qed

subsection \<open>Witnesses at the specification's example\<close>

theorem budget_status_transitions_witness:
  "\<exists>d'. budget_proposals example_approved 0 = Some d' \<and> status_step Pending (status d')"
proof -
  have c: "budget_dispatch Release 1 (Signed 2) (ApproveProposal 0) example_created = Inr example_approved"
    by (simp add: approve_proposal_def example_created_def example_approved_def)
  have d: "budget_proposals example_created 0 = Some \<lparr>creator = 1, amount = 500, purpose = example_purpose,
        status = Pending, created_at = 1, updated_at = 1\<rparr>"
    by (simp add: example_created_def)
  have u: "dom (budget_proposals example_created) \<noteq> UNIV"
  proof
    assume "dom (budget_proposals example_created) = UNIV"
    then have "(1 :: u64) \<in> dom (budget_proposals example_created)"
      by simp
    then show False
      by (simp add: example_created_def)
  qed
  show ?thesis
    using budget_status_transitions [OF example_created_reachable c d u]
    by (simp add: example_approved_def status_step.intros)
qed

theorem budget_reachable_inv_witness:
  "dom (budget_proposals example_approved) = {p. p < 1} \<and>
   length (purpose (the (budget_proposals example_approved 0))) = 5"
  using budget_reachable_inv [OF example_approved_reachable [where prof = Debug]]
  by (simp add: example_approved_def example_purpose_def)

theorem decided_proposal_final_witness:
  "approve_proposal 2 (Signed 3) 0 example_approved = Inl (Module ProposalNotPending) \<and>
   reject_proposal 2 (Signed 3) 0 [1] example_approved = Inl (Module ProposalNotPending)"
  using decided_proposal_final [where s = example_approved and p = 0 and r = "[1]" and now = 2 and a = "3::nat"
      and d = "\<lparr>creator = 1, amount = 500, purpose = example_purpose, status = Approved,
               created_at = 1, updated_at = 1\<rparr>"]
  by (simp add: example_approved_def)

theorem create_proposal_effect_witness:
  "create_proposal Debug 1 (Signed 1) 500 example_purpose budget_genesis = Inr example_created"
proof -
  have r: "budget_reachable Debug 1 (budget_genesis :: nat budget_storage)"
    by (rule reachable.advance [OF reachable.genesis]) simp
  have u: "dom (budget_proposals (budget_genesis :: nat budget_storage)) \<noteq> UNIV"
    by (simp add: budget_genesis_def)
  show ?thesis
    using create_proposal_effect [OF r u, where a = 1 and amt = 500 and purp = example_purpose]
      budget_genesis_def
    by (simp add: example_purpose_def example_created_def budget_genesis_def One_nat_def)
qed

theorem create_proposal_errors_witness:
  "create_proposal Debug 1 (Signed (1::nat)) 500 (replicate 201 1) budget_genesis = Inl (Module InvalidPurpose) \<and>
   create_proposal Debug 1 (Signed (1::nat)) 500 example_purpose (budget_genesis\<lparr>next_proposal_id := - 1\<rparr>) = Inl Panic \<and>
   create_proposal Release (2 ^ 64) (Signed (1::nat)) 500 example_purpose budget_genesis = Inl (Module InvalidPurpose)"
proof -
  have "create_proposal Debug 1 (Signed (1::nat)) 500 (replicate 201 1) budget_genesis = Inl (Module InvalidPurpose)"
    using create_proposal_errors [where prof = Debug and now = 1 and a = "1::nat" and amt = 500
        and purp = "replicate 201 1" and s = budget_genesis] by (simp add: One_nat_def)
  moreover have "create_proposal Debug 1 (Signed (1::nat)) 500 example_purpose (budget_genesis\<lparr>next_proposal_id := - 1\<rparr>) = Inl Panic"
    using create_proposal_errors [where prof = Debug and now = 1 and a = "1::nat" and amt = 500
        and purp = example_purpose and s = "budget_genesis\<lparr>next_proposal_id := - 1\<rparr>"]
    by (simp add: example_purpose_def)
  moreover have "create_proposal Release (2 ^ 64) (Signed (1::nat)) 500 example_purpose budget_genesis = Inl (Module InvalidPurpose)"
    using create_proposal_errors [where prof = Release and now = "2 ^ 64" and a = "1::nat" and amt = 500
        and purp = example_purpose and s = budget_genesis]
    by (simp add: example_purpose_def)
  ultimately show ?thesis
    by blast
qed

theorem reject_reason_checked_first_witness:
  "reject_proposal 1 (Signed 2) 7 [] example_created = Inl (Module InvalidReason) \<and>
   reject_proposal 1 (Signed 2) 7 [1] example_created = Inl (Module ProposalDoesNotExist) \<and>
   approve_proposal 1 (Signed 2) 7 example_created = Inl (Module ProposalDoesNotExist)"
proof -
  have "reject_proposal 1 (Signed 2) 7 [] example_created = Inl (Module InvalidReason)"
    using reject_reason_checked_first [where now = 1 and a = "2::nat" and p = 7 and r = "[]" and s = example_created]
    by simp
  moreover have "reject_proposal 1 (Signed 2) 7 [1] example_created = Inl (Module ProposalDoesNotExist) \<and>
      approve_proposal 1 (Signed 2) 7 example_created = Inl (Module ProposalDoesNotExist)"
    using reject_reason_checked_first [where now = 1 and a = "2::nat" and p = 7 and r = "[1]" and s = example_created]
    by (simp add: example_created_def)
  ultimately show ?thesis
    by blast
qed

theorem budget_no_authorization_witness:
  "approve_proposal 1 (Signed 2) 0 example_created =
     Inr (example_created\<lparr>budget_proposals := (budget_proposals example_created)(0 \<mapsto>
            \<lparr>creator = 1, amount = 500, purpose = example_purpose, status = Approved,
             created_at = 1, updated_at = 1\<rparr>),
          budget_events := budget_events example_created @ [BudgetProposalApproved 0 2]\<rparr>)"
  using budget_no_authorization [where s = example_created and p = 0 and now = 1 and a = 2 and r = "[]"
      and d = "\<lparr>creator = 1, amount = 500, purpose = example_purpose, status = Pending,
               created_at = 1, updated_at = 1\<rparr>"]
  by (simp add: example_created_def)

end
