(* ===== verification/AuditLog.thy ===== *)
theory AuditLog
  imports Prelude
begin

text \<open>
  The audit-log pallet (\<open>src/pallets/audit-log/src/lib.rs\<close>): an activity journal whose
  entries are numbered from the counter \<open>NextEntryId\<close> and never modified, and a
  read-only lookup. Its storage is the map \<open>AuditLog\<close>, the counter and the events. This
  theory holds the two calls on every branch, the journal's invariant over the reachable
  states (the ids in use are exactly those below the counter, the events list the entries
  in id order and describe them, the field lengths are within their bounds), its
  append-only property, and the counter's wrap-around in a release build.
\<close>

subsection \<open>Data\<close>

record 'acc audit_entry =
  activity_type :: "u8 list"
  actor :: 'acc
  details :: "u8 list"
  timestamp :: u64
  related_proposal_id :: "u64 option"
  related_wallet_id :: "'acc option"

datatype audit_error =
    EntryDoesNotExist
  | InvalidActivityType
  | InvalidDetails

datatype 'acc audit_event = AuditEntryCreated u64 "u8 list" 'acc "u8 list"

record 'acc audit_storage =
  audit_log :: "u64 \<rightharpoonup> 'acc audit_entry"
  next_entry_id :: u64
  audit_events :: "'acc audit_event list"

definition audit_genesis :: "'acc audit_storage" where
  "audit_genesis = \<lparr>audit_log = Map.empty, next_entry_id = 0, audit_events = []\<rparr>"

subsection \<open>Operations\<close>

text \<open>
  \<open>log_activity\<close>: the activity type must have 1 to 50 bytes and the details 1 to 500,
  checked in that order; the id is the counter, advanced before the block number is read,
  and a failed block-number conversion is reported as \<open>InvalidActivityType\<close>.
\<close>

definition log_activity ::
  "build_profile \<Rightarrow> nat \<Rightarrow> 'acc origin \<Rightarrow> u8 list \<Rightarrow> u8 list \<Rightarrow> u64 option \<Rightarrow> 'acc option
   \<Rightarrow> 'acc audit_storage \<Rightarrow> audit_error dispatch_error + 'acc audit_storage" where
  "log_activity prof now origin act det rp rw s =
     (case ensure_signed origin of
        Inl e \<Rightarrow> Inl e
      | Inr who \<Rightarrow>
        if act = [] then Inl (Module InvalidActivityType)
        else if 50 < length act then Inl (Module InvalidActivityType)
        else if det = [] then Inl (Module InvalidDetails)
        else if 500 < length det then Inl (Module InvalidDetails)
        else
          (case bounded_vec 50 act of
             None \<Rightarrow> Inl (Module InvalidActivityType)
           | Some bounded_act \<Rightarrow>
             (case bounded_vec 500 det of
                None \<Rightarrow> Inl (Module InvalidDetails)
              | Some bounded_det \<Rightarrow>
                let entry_id = next_entry_id s in
                (case rust_add prof entry_id 1 of
                   None \<Rightarrow> Inl Panic
                 | Some next_id \<Rightarrow>
                   (case block_number_u64 now of
                      None \<Rightarrow> Inl (Module InvalidActivityType)
                    | Some ts \<Rightarrow>
                        Inr (s\<lparr>audit_log := (audit_log s)(entry_id \<mapsto>
                                 \<lparr>activity_type = bounded_act, actor = who, details = bounded_det,
                                  timestamp = ts, related_proposal_id = rp, related_wallet_id = rw\<rparr>),
                               next_entry_id := next_id,
                               audit_events := audit_events s @
                                 [AuditEntryCreated entry_id bounded_act who bounded_det]\<rparr>))))))"

text \<open>\<open>get_audit_entry\<close> only checks that the entry exists; it returns no data.\<close>

definition get_audit_entry ::
  "'acc origin \<Rightarrow> u64 \<Rightarrow> 'acc audit_storage \<Rightarrow> audit_error dispatch_error + 'acc audit_storage" where
  "get_audit_entry origin entry_id s =
     (case ensure_signed origin of
        Inl e \<Rightarrow> Inl e
      | Inr requester \<Rightarrow>
        (case audit_log s entry_id of
           None \<Rightarrow> Inl (Module EntryDoesNotExist)
         | Some entry \<Rightarrow> Inr s))"

datatype 'acc audit_call =
    LogActivity "u8 list" "u8 list" "u64 option" "'acc option"
  | GetAuditEntry u64

fun audit_dispatch ::
  "build_profile \<Rightarrow> ('acc, 'acc audit_call, audit_error, 'acc audit_storage) dispatcher" where
  "audit_dispatch prof now origin (LogActivity act det rp rw) s = log_activity prof now origin act det rp rw s"
| "audit_dispatch prof now origin (GetAuditEntry i) s = get_audit_entry origin i s"

abbreviation audit_reachable :: "build_profile \<Rightarrow> nat \<Rightarrow> 'acc audit_storage \<Rightarrow> bool" where
  "audit_reachable prof \<equiv> reachable (audit_dispatch prof) audit_genesis"

subsection \<open>The journal's invariant\<close>

primrec event_entry_id :: "'acc audit_event \<Rightarrow> u64" where
  "event_entry_id (AuditEntryCreated i act who det) = i"

text \<open>An event describes the stored entry of its id.\<close>

primrec event_logged :: "'acc audit_storage \<Rightarrow> 'acc audit_event \<Rightarrow> bool" where
  "event_logged s (AuditEntryCreated i act who det) =
     (case audit_log s i of
        None \<Rightarrow> False
      | Some e \<Rightarrow> activity_type e = act \<and> actor e = who \<and> details e = det)"

text \<open>
  Until a release build wraps the counter, the ids in use are exactly those below it and
  the events name them in order, each describing its entry; after the wrap every id is in
  use. Every entry was logged no later than the current block, with field lengths in their
  bounds.
\<close>

definition audit_inv :: "build_profile \<Rightarrow> nat \<Rightarrow> 'acc audit_storage \<Rightarrow> bool" where
  "audit_inv prof now s \<longleftrightarrow>
     ((dom (audit_log s) = {p. p < next_entry_id s} \<and>
       map event_entry_id (audit_events s) = map word_of_nat [0..<unat (next_entry_id s)] \<and>
       (\<forall>ev \<in> set (audit_events s). event_logged s ev)) \<or>
      prof = Release \<and> dom (audit_log s) = UNIV) \<and>
     (\<forall>e \<in> ran (audit_log s). unat (timestamp e) \<le> now \<and>
        length (activity_type e) \<in> {1..50} \<and> length (details e) \<in> {1..500})"

subsection \<open>The specification's example\<close>

text \<open>
  The pallet's test \<open>multiple_entries_have_sequential_ids\<close>, at block 1 with the activity
  types abbreviated to one byte: accounts 1, 2 and 3 log a create, an update and a delete.
\<close>

definition example_calls :: "(nat \<times> nat origin \<times> nat audit_call) list" where
  "example_calls =
     [(1, Signed 1, LogActivity [67] [70] None None),
      (1, Signed 2, LogActivity [85] [83] None None),
      (1, Signed 3, LogActivity [68] [84] None None)]"

definition example_journal :: "nat \<Rightarrow> nat audit_storage" where
  "example_journal k = run_calls (audit_dispatch Debug) audit_genesis (take k example_calls)"

subsection \<open>Each call on every branch\<close>

lemma log_activity_Inr_iff:
  "log_activity prof now origin act det rp rw s = Inr s' \<longleftrightarrow>
   (\<exists>who. origin = Signed who \<and> act \<noteq> [] \<and> length act \<le> 50 \<and> det \<noteq> [] \<and> length det \<le> 500 \<and>
      now < 2 ^ 64 \<and> (prof = Debug \<longrightarrow> next_entry_id s \<noteq> - 1) \<and>
      s' = s\<lparr>audit_log := (audit_log s)(next_entry_id s \<mapsto>
              \<lparr>activity_type = act, actor = who, details = det, timestamp = word_of_nat now,
               related_proposal_id = rp, related_wallet_id = rw\<rparr>),
             next_entry_id := next_entry_id s + 1,
             audit_events := audit_events s @ [AuditEntryCreated (next_entry_id s) act who det]\<rparr>)"
  by (auto simp: log_activity_def ensure_signed_def block_number_u64_def bounded_vec_def
      rust_add_def overflows_one Let_def split: origin.splits option.splits if_splits)

lemma get_audit_entry_result:
  "get_audit_entry origin i s =
     (case origin of
        Signed who \<Rightarrow> if audit_log s i = None then Inl (Module EntryDoesNotExist) else Inr s
      | _ \<Rightarrow> Inl BadOrigin)"
  by (auto simp: get_audit_entry_def ensure_signed_def split: origin.splits option.splits)

lemmas audit_defs [dispatch_defs] = log_activity_def get_audit_entry_def

subsection \<open>The invariant of the reachable states\<close>

lemma event_logged_cong:
  "audit_log s' (event_entry_id ev) = audit_log s (event_entry_id ev) \<Longrightarrow>
   event_logged s' ev = event_logged s ev"
  by (cases ev) simp

lemma event_logged_dom: "event_logged s ev \<Longrightarrow> event_entry_id ev \<in> dom (audit_log s)"
  by (cases ev) (auto split: option.splits)

lemma audit_inv_genesis: "audit_inv prof 0 audit_genesis"
  by (simp add: audit_inv_def audit_genesis_def)

lemma audit_inv_advance:
  assumes "audit_inv prof n s" and "n \<le> n'"
  shows "audit_inv prof n' s"
proof -
  have "unat (timestamp e) \<le> n'" if "e \<in> ran (audit_log s)" for e
    using assms that unfolding audit_inv_def by (meson le_trans)
  with assms show ?thesis
    unfolding audit_inv_def by blast
qed

text \<open>Logging below a counter that has not wrapped keeps the ids, the events and the entries in step.\<close>

lemma audit_journal_append:
  assumes dom: "dom (audit_log s) = {p. p < k}" and k: "k \<noteq> - 1"
    and ids: "map event_entry_id (audit_events s) = map word_of_nat [0..<unat k]"
    and logged: "\<forall>ev \<in> set (audit_events s). event_logged s ev"
    and s': "s' = s\<lparr>audit_log := (audit_log s)(k \<mapsto> e), next_entry_id := k + 1,
      audit_events := audit_events s @ [AuditEntryCreated k (activity_type e) (actor e) (details e)]\<rparr>"
  shows "dom (audit_log s') = {p. p < next_entry_id s'} \<and>
    map event_entry_id (audit_events s') = map word_of_nat [0..<unat (next_entry_id s')] \<and>
    (\<forall>ev \<in> set (audit_events s'). event_logged s' ev)"
proof -
  have "dom (audit_log s') = {p. p < next_entry_id s'}"
    using dom k s' by (simp add: ids_below_plus_one)
  moreover have "map event_entry_id (audit_events s') = map word_of_nat [0..<unat (next_entry_id s')]"
    using ids k s' by (simp add: ids_upto_plus_one)
  moreover have "event_logged s' ev" if "ev \<in> set (audit_events s)" for ev
  proof -
    have "event_entry_id ev \<noteq> k"
      using event_logged_dom [of s ev] logged that dom by auto
    then have "event_logged s' ev = event_logged s ev"
      using s' by (intro event_logged_cong) simp
    then show ?thesis
      using logged that by blast
  qed
  moreover have "event_logged s' (AuditEntryCreated k (activity_type e) (actor e) (details e))"
    using s' by simp
  ultimately show ?thesis
    using s' by auto
qed

lemma log_activity_inv:
  assumes inv: "audit_inv prof n s" and ok: "log_activity prof n origin act det rp rw s = Inr s'"
  shows "audit_inv prof n s'"
proof -
  obtain who where a: "act \<noteq> []" "length act \<le> 50" and d: "det \<noteq> []" "length det \<le> 500"
    and n: "n < 2 ^ 64" and nx: "prof = Debug \<longrightarrow> next_entry_id s \<noteq> - 1"
    and s': "s' = s\<lparr>audit_log := (audit_log s)(next_entry_id s \<mapsto>
              \<lparr>activity_type = act, actor = who, details = det, timestamp = word_of_nat n,
               related_proposal_id = rp, related_wallet_id = rw\<rparr>),
             next_entry_id := next_entry_id s + 1,
             audit_events := audit_events s @ [AuditEntryCreated (next_entry_id s) act who det]\<rparr>"
    using ok by (auto simp: log_activity_Inr_iff)
  let ?k = "next_entry_id s"
  let ?e = "\<lparr>activity_type = act, actor = who, details = det, timestamp = word_of_nat n,
               related_proposal_id = rp, related_wallet_id = rw\<rparr> :: 'a audit_entry"
  have "(dom (audit_log s') = {p. p < next_entry_id s'} \<and>
       map event_entry_id (audit_events s') = map word_of_nat [0..<unat (next_entry_id s')] \<and>
       (\<forall>ev \<in> set (audit_events s'). event_logged s' ev)) \<or>
      prof = Release \<and> dom (audit_log s') = UNIV"
  proof (cases "dom (audit_log s) = {p. p < ?k}")
    case True
    show ?thesis
    proof (cases "?k = - 1")
      case True
      with nx have "prof = Release"
        by (cases prof) auto
      with True \<open>dom (audit_log s) = {p. p < ?k}\<close> s' show ?thesis
        by (simp add: ids_below_max)
    next
      case False
      have "map event_entry_id (audit_events s) = map word_of_nat [0..<unat ?k] \<and>
          (\<forall>ev \<in> set (audit_events s). event_logged s ev)"
        using inv True by (auto simp: audit_inv_def)
      then show ?thesis
        using audit_journal_append [OF True False, of s' ?e] s' by simp
    qed
  next
    case False
    with inv have "prof = Release \<and> dom (audit_log s) = UNIV"
      by (simp add: audit_inv_def)
    with s' show ?thesis
      by auto
  qed
  moreover have "\<forall>x \<in> ran (audit_log s'). unat (timestamp x) \<le> n \<and>
      length (activity_type x) \<in> {1..50} \<and> length (details x) \<in> {1..500}"
  proof -
    have old: "\<forall>x \<in> ran (audit_log s). unat (timestamp x) \<le> n \<and>
        length (activity_type x) \<in> {1..50} \<and> length (details x) \<in> {1..500}"
      using inv by (simp add: audit_inv_def)
    have new: "unat (timestamp ?e) \<le> n \<and> length (activity_type ?e) \<in> {1..50} \<and>
        length (details ?e) \<in> {1..500}"
      using a d n by (simp add: Suc_leI)
    have "ran (audit_log s') \<subseteq> insert ?e (ran (audit_log s))"
      using s' ran_map_upd_subset [of "audit_log s" ?k ?e] by simp
    with old new show ?thesis
      by blast
  qed
  ultimately show ?thesis
    by (simp add: audit_inv_def)
qed

lemma audit_dispatch_inv:
  assumes "audit_inv prof n s" and "audit_dispatch prof n origin c s = Inr s'"
  shows "audit_inv prof n s'"
proof (cases c)
  case (LogActivity act det rp rw)
  then show ?thesis
    using assms log_activity_inv by simp
next
  case (GetAuditEntry i)
  then show ?thesis
    using assms by (auto simp: get_audit_entry_result split: origin.splits if_splits)
qed

lemma audit_reachable_audit_inv: "audit_reachable prof n s \<Longrightarrow> audit_inv prof n s"
  by (erule reachable_inv) (auto intro: audit_inv_genesis audit_inv_advance audit_dispatch_inv)

subsection \<open>Reachable states and the counter\<close>

lemma audit_fresh_id:
  assumes "audit_reachable prof n s" and "dom (audit_log s) \<noteq> UNIV"
  shows "audit_log s (next_entry_id s) = None"
proof -
  have "dom (audit_log s) = {p. p < next_entry_id s}"
    using audit_reachable_audit_inv [OF assms(1)] assms(2) by (auto simp: audit_inv_def)
  then show ?thesis
    by auto
qed

lemma log_activity_step:
  assumes "now < 2 ^ 64" and "act \<noteq> []" and "length act \<le> 50" and "det \<noteq> []" and "length det \<le> 500"
  shows "\<exists>s'. audit_dispatch Release now (Signed a) (LogActivity act det None None) s = Inr s' \<and>
    next_entry_id s' = next_entry_id s + 1 \<and>
    audit_log s' = (audit_log s)(next_entry_id s \<mapsto>
      \<lparr>activity_type = act, actor = a, details = det, timestamp = word_of_nat now,
       related_proposal_id = None, related_wallet_id = None\<rparr>)"
  using assms by (simp add: log_activity_Inr_iff)

text \<open>From a state whose entry 0 is stored, a release build logs until its counter is any value.\<close>

lemma audit_release_logs:
  assumes "audit_reachable Release 0 s" and "next_entry_id s = word_of_nat k" and "0 < k"
    and "k + j < 2 ^ 64" and "audit_log s 0 = Some e"
  shows "\<exists>s'. audit_reachable Release 0 s' \<and> audit_log s' 0 = Some e \<and>
    next_entry_id s' = word_of_nat (k + j)"
proof -
  have step: "\<exists>origin c s2. audit_dispatch Release 0 origin c s1 = Inr s2 \<and>
      audit_log s2 0 = Some e \<and> next_entry_id s2 = next_entry_id s1 + 1"
    if "audit_reachable Release 0 s1" and "audit_log s1 0 = Some e"
      and "next_entry_id s1 = word_of_nat m" and "k \<le> m" and "m < k + j" for s1 m
  proof -
    have "(word_of_nat m :: u64) \<noteq> 0"
      using that(4,5) assms(3,4) by (intro of_nat_neq_0) simp_all
    moreover obtain s2 where c: "audit_dispatch Release 0 (Signed (actor e)) (LogActivity [0] [0] None None) s1 = Inr s2"
      and n2: "next_entry_id s2 = next_entry_id s1 + 1"
      and p2: "audit_log s2 = (audit_log s1)(next_entry_id s1 \<mapsto>
        \<lparr>activity_type = [0], actor = actor e, details = [0], timestamp = 0,
         related_proposal_id = None, related_wallet_id = None\<rparr>)"
      using log_activity_step [of 0 "[0]" "[0]" "actor e" s1] by auto
    ultimately have "audit_log s2 0 = Some e"
      using that(2,3) by simp
    then show ?thesis
      using c n2 by blast
  qed
  have "k + j < 2 ^ LENGTH(64)"
    using assms(4) by simp
  from reachable_iterate [where P = "\<lambda>s. audit_log s 0 = Some e" and ctr = next_entry_id,
      OF assms(1) assms(5) assms(2) this step]
  show ?thesis
    by simp
qed

lemma example_journal_reachable: "audit_reachable Debug 1 (example_journal k)"
proof -
  have "audit_reachable Debug 1 audit_genesis"
    by (rule reachable.advance [OF reachable.genesis]) simp
  moreover have "\<forall>x \<in> set (take k example_calls). fst x = 1"
    by (auto simp: example_calls_def dest: in_set_takeD)
  ultimately show ?thesis
    unfolding example_journal_def by (rule reachable_run_calls)
qed

lemmas audit_eval = example_journal_def example_calls_def audit_genesis_def log_activity_Inr_iff
  apply_call_def log_activity_def ensure_signed_def bounded_vec_def rust_add_def overflows_def

subsection \<open>Properties\<close>

text \<open>
  C26: The journal is append-only: while the counter has not wrapped, no call changes or removes a stored entry, and each call appends at most one event.
\<close>

theorem audit_append_only:
  assumes "audit_reachable prof n s" and "audit_dispatch prof n origin c s = Inr s'"
    and "dom (audit_log s) \<noteq> UNIV"
  shows "audit_log s \<subseteq>\<^sub>m audit_log s' \<and>
    (\<exists>new. audit_events s' = audit_events s @ new \<and> length new \<le> 1)"
proof (cases c)
  case (LogActivity act det rp rw)
  have "audit_log s (next_entry_id s) = None"
    using assms(1,3) by (rule audit_fresh_id)
  then show ?thesis
    using assms(2) LogActivity by (auto simp: log_activity_Inr_iff map_le_def)
next
  case (GetAuditEntry i)
  then show ?thesis
    using assms(2) by (auto simp: get_audit_entry_result split: origin.splits if_splits)
qed

text \<open>
  C27: In every reachable state of a debug build the entry ids in use are exactly 0 .. NextEntryId - 1, the AuditEntryCreated events name them in that order, and each event describes its stored entry.
\<close>

theorem audit_journal_sequential:
  assumes "audit_reachable Debug n s"
  shows "dom (audit_log s) = {p. p < next_entry_id s} \<and>
    map event_entry_id (audit_events s) = map word_of_nat [0..<unat (next_entry_id s)] \<and>
    (\<forall>ev \<in> set (audit_events s). event_logged s ev)"
  using audit_reachable_audit_inv [OF assms] by (simp add: audit_inv_def)

text \<open>
  Every stored entry was logged no later than the current block and has an activity type of 1 to 50 bytes and details of 1 to 500 bytes.
\<close>

theorem audit_entry_bounds:
  assumes "audit_reachable prof n s" and "audit_log s i = Some e"
  shows "unat (timestamp e) \<le> n \<and> 1 \<le> length (activity_type e) \<and> length (activity_type e) \<le> 50 \<and>
    1 \<le> length (details e) \<and> length (details e) \<le> 500"
  using audit_reachable_audit_inv [OF assms(1)] ranI [of "audit_log s", OF assms(2)]
  by (simp add: audit_inv_def)

text \<open>
  C29: log_activity fails in code order: BadOrigin, InvalidActivityType for an empty or over-50-byte type, InvalidDetails for empty or over-500-byte details, a debug-build panic on the counter at u64::MAX, then InvalidActivityType for a block number beyond u64.
\<close>

theorem log_activity_errors:
  "log_activity prof now NoneOrigin act det rp rw s = Inl BadOrigin \<and>
   ((act = [] \<or> 50 < length act) \<longrightarrow>
      log_activity prof now (Signed a) act det rp rw s = Inl (Module InvalidActivityType)) \<and>
   (act \<noteq> [] \<and> length act \<le> 50 \<and> (det = [] \<or> 500 < length det) \<longrightarrow>
      log_activity prof now (Signed a) act det rp rw s = Inl (Module InvalidDetails)) \<and>
   (act \<noteq> [] \<and> length act \<le> 50 \<and> det \<noteq> [] \<and> length det \<le> 500 \<and> next_entry_id s = - 1 \<longrightarrow>
      log_activity Debug now (Signed a) act det rp rw s = Inl Panic) \<and>
   (act \<noteq> [] \<and> length act \<le> 50 \<and> det \<noteq> [] \<and> length det \<le> 500 \<and>
    (prof = Release \<or> next_entry_id s \<noteq> - 1) \<and> 2 ^ 64 \<le> now \<longrightarrow>
      log_activity prof now (Signed a) act det rp rw s = Inl (Module InvalidActivityType))"
  by (auto simp: log_activity_def rust_add_def overflows_one block_number_u64_large bounded_vec_def Let_def)

text \<open>
  C30: A valid log_activity by any signed account stores the entry, with that account as
  actor and the current block as timestamp, under the current NextEntryId, advances the
  counter by one (wrapping in a release build) and deposits AuditEntryCreated; in a debug
  build the counter must not be at u64::MAX.
\<close>

theorem log_activity_effect:
  assumes "act \<noteq> []" and "length act \<le> 50" and "det \<noteq> []" and "length det \<le> 500" and "now < 2 ^ 64"
    and "prof = Debug \<longrightarrow> next_entry_id s \<noteq> - 1"
  shows "log_activity prof now (Signed a) act det rp rw s =
    Inr (s\<lparr>audit_log := (audit_log s)(next_entry_id s \<mapsto>
              \<lparr>activity_type = act, actor = a, details = det, timestamp = word_of_nat now,
               related_proposal_id = rp, related_wallet_id = rw\<rparr>),
           next_entry_id := next_entry_id s + 1,
           audit_events := audit_events s @ [AuditEntryCreated (next_entry_id s) act a det]\<rparr>)"
  using assms by (auto simp: log_activity_def ensure_signed_def block_number_u64_def bounded_vec_def
      rust_add_def overflows_one Let_def)

text \<open>
  C38: get_audit_entry never changes the state: it returns the unchanged state, BadOrigin or EntryDoesNotExist, and succeeds for a signed caller exactly when the entry exists.
\<close>

theorem get_audit_entry_read_only:
  "get_audit_entry origin i s \<in> {Inr s, Inl BadOrigin, Inl (Module EntryDoesNotExist)} \<and>
   (get_audit_entry (Signed a) i s = Inr s \<longleftrightarrow> i \<in> dom (audit_log s))"
  by (auto simp: get_audit_entry_result split: origin.splits)

text \<open>
  C28: In a release build NextEntryId wraps after 2^64 entries, and a reachable state exists in which log_activity overwrites the stored entry 0.
\<close>

theorem audit_release_wrap_overwrites:
  "\<exists>(s :: nat audit_storage) s' e. audit_reachable Release 0 s \<and> audit_log s 0 = Some e \<and>
     audit_dispatch Release 0 (Signed 1) (LogActivity [1] [1] None None) s = Inr s' \<and>
     audit_log s' 0 \<noteq> Some e"
proof -
  obtain s1 :: "nat audit_storage" where c1: "audit_dispatch Release 0 (Signed 0) (LogActivity [0] [0] None None) audit_genesis = Inr s1"
      and n1': "next_entry_id s1 = next_entry_id (audit_genesis :: nat audit_storage) + 1"
      and p1': "audit_log s1 = (audit_log (audit_genesis :: nat audit_storage))(next_entry_id (audit_genesis :: nat audit_storage) \<mapsto>
        \<lparr>activity_type = [0], actor = 0, details = [0], timestamp = 0,
         related_proposal_id = None, related_wallet_id = None\<rparr>)"
    using log_activity_step [of 0 "[0]" "[0]" 0 audit_genesis] by auto
  let ?e = "\<lparr>activity_type = [0], actor = 0 :: nat, details = [0], timestamp = 0,
         related_proposal_id = None, related_wallet_id = None\<rparr>"
  have n1: "next_entry_id s1 = 1" and p1: "audit_log s1 0 = Some ?e"
    using n1' p1' by (simp_all add: audit_genesis_def)
  have r1: "audit_reachable Release 0 s1"
    by (rule reachable.dispatch, rule reachable.genesis, rule c1)
  obtain s2 where r2: "audit_reachable Release 0 s2" and p2: "audit_log s2 0 = Some ?e"
      and n2: "next_entry_id s2 = word_of_nat (1 + (2 ^ 64 - 2))"
    using audit_release_logs [OF r1, where k = 1 and j = "2 ^ 64 - 2"] n1 p1 by auto
  have n2': "next_entry_id s2 = - 1"
    using n2 by simp
  obtain s3 where c3: "audit_dispatch Release 0 (Signed 0) (LogActivity [0] [0] None None) s2 = Inr s3"
      and n3: "next_entry_id s3 = 0" and p3: "audit_log s3 0 = Some ?e"
    using log_activity_step [of 0 "[0]" "[0]" 0 s2] n2' p2 by auto
  have r3: "audit_reachable Release 0 s3"
    by (rule reachable.dispatch [OF r2 c3])
  obtain s4 where c4: "audit_dispatch Release 0 (Signed 1) (LogActivity [1] [1] None None) s3 = Inr s4"
      and p4: "audit_log s4 0 = Some \<lparr>activity_type = [1], actor = 1, details = [1], timestamp = 0,
         related_proposal_id = None, related_wallet_id = None\<rparr>"
    using log_activity_step [of 0 "[1]" "[1]" 1 s3] n3 by auto
  show ?thesis
    using r3 p3 c4 p4 by fastforce
qed

subsection \<open>Witnesses\<close>

theorem audit_append_only_witness:
  "audit_log (example_journal 2) \<subseteq>\<^sub>m audit_log (example_journal 3)"
proof -
  have c: "audit_dispatch Debug 1 (Signed 3) (LogActivity [68] [84] None None) (example_journal 2) =
      Inr (example_journal 3)"
    by (simp add: audit_eval)
  have u: "dom (audit_log (example_journal 2)) \<noteq> UNIV"
  proof
    assume "dom (audit_log (example_journal 2)) = UNIV"
    then have "(5 :: u64) \<in> dom (audit_log (example_journal 2))"
      by simp
    then show False
      by (simp add: audit_eval)
  qed
  show ?thesis
    using audit_append_only [OF example_journal_reachable c u] by simp
qed

theorem audit_journal_sequential_witness:
  "dom (audit_log (example_journal 3)) = {p. p < 3} \<and>
   map event_entry_id (audit_events (example_journal 3)) = [0, 1, 2]"
proof -
  have "next_entry_id (example_journal 3) = 3"
    by (simp add: audit_eval)
  then show ?thesis
    using audit_journal_sequential [OF example_journal_reachable [of 3]] by (simp add: upt_rec)
qed

theorem audit_entry_bounds_witness:
  "unat (timestamp (the (audit_log (example_journal 3) 1))) \<le> 1"
proof -
  have "audit_log (example_journal 3) 1 = Some \<lparr>activity_type = [85], actor = 2, details = [83],
      timestamp = 1, related_proposal_id = None, related_wallet_id = None\<rparr>"
    by (simp add: audit_eval)
  then show ?thesis
    using audit_entry_bounds [OF example_journal_reachable [of 3]] by simp
qed

theorem log_activity_errors_witness:
  "log_activity Debug 1 (Signed (1::nat)) [] [70] None None audit_genesis = Inl (Module InvalidActivityType) \<and>
   log_activity Debug 1 (Signed (1::nat)) [67] (replicate 501 0) None None audit_genesis = Inl (Module InvalidDetails) \<and>
   log_activity Debug 1 (Signed (1::nat)) [67] [70] None None (audit_genesis\<lparr>next_entry_id := - 1\<rparr>) = Inl Panic"
proof -
  have "log_activity Debug 1 (Signed (1::nat)) [] [70] None None audit_genesis = Inl (Module InvalidActivityType)"
    using log_activity_errors [where prof = Debug and now = 1 and a = "1::nat" and act = "[]" and det = "[70]"
        and rp = None and rw = None and s = audit_genesis] by simp
  moreover have "log_activity Debug 1 (Signed (1::nat)) [67] (replicate 501 0) None None audit_genesis =
      Inl (Module InvalidDetails)"
    using log_activity_errors [where prof = Debug and now = 1 and a = "1::nat" and act = "[67]"
        and det = "replicate 501 0" and rp = None and rw = None and s = audit_genesis] by simp
  moreover have "log_activity Debug 1 (Signed (1::nat)) [67] [70] None None (audit_genesis\<lparr>next_entry_id := - 1\<rparr>) = Inl Panic"
    using log_activity_errors [where prof = Debug and now = 1 and a = "1::nat" and act = "[67]" and det = "[70]"
        and rp = None and rw = None and s = "audit_genesis\<lparr>next_entry_id := - 1\<rparr>"] by simp
  ultimately show ?thesis
    by blast
qed

theorem log_activity_effect_witness:
  "log_activity Debug 1 (Signed (1::nat)) [76] [85] None None audit_genesis =
    Inr (audit_genesis\<lparr>audit_log := [0 \<mapsto>
              \<lparr>activity_type = [76], actor = 1, details = [85], timestamp = 1,
               related_proposal_id = None, related_wallet_id = None\<rparr>],
           next_entry_id := 1,
           audit_events := [AuditEntryCreated 0 [76] 1 [85]]\<rparr>)"
  using log_activity_effect [where prof = Debug and now = 1 and a = "1::nat" and act = "[76]" and det = "[85]"
      and rp = None and rw = None and s = audit_genesis]
  by (simp add: audit_genesis_def)

end
