(* ===== verification/GovernmentWallet.thy ===== *)
theory GovernmentWallet
  imports Prelude
begin

text \<open>
  The government-wallet pallet (\<open>src/pallets/government-wallet/src/lib.rs\<close>): wallets
  keyed by an account id, each with its creator, a department name of 1 to 100 bytes and
  its creation block, and a \<open>u128\<close> balance that allocations raise with a saturating add.
  Its storage is the maps \<open>GovernmentWallets\<close> and \<open>WalletBalances\<close> (a \<open>ValueQuery\<close>
  read as 0 when absent) and the events. This theory holds the two calls on every branch,
  the invariant of the reachable states (a balance is stored exactly for each wallet),
  the monotonicity of balances and the saturation bound.
\<close>

subsection \<open>Data\<close>

record 'acc wallet_details =
  creator :: 'acc
  department :: "u8 list"
  created_at :: u64

datatype wallet_error =
    WalletAlreadyExists
  | WalletDoesNotExist
  | InvalidDepartment

datatype 'acc wallet_event =
    GovernmentWalletCreated 'acc "u8 list"
  | FundsAllocated 'acc u128 "u8 list"

record 'acc wallet_storage =
  government_wallets :: "'acc \<rightharpoonup> 'acc wallet_details"
  wallet_balances :: "'acc \<rightharpoonup> u128"
  wallet_events :: "'acc wallet_event list"

definition wallet_genesis :: "'acc wallet_storage" where
  "wallet_genesis = \<lparr>government_wallets = Map.empty, wallet_balances = Map.empty, wallet_events = []\<rparr>"

text \<open>\<open>WalletBalances::get\<close>: a \<open>ValueQuery\<close>, so an absent balance reads as 0.\<close>

definition balance_get :: "'acc wallet_storage \<Rightarrow> 'acc \<Rightarrow> u128" where
  "balance_get s w = (case wallet_balances s w of None \<Rightarrow> 0 | Some b \<Rightarrow> b)"

subsection \<open>Operations\<close>

text \<open>
  \<open>create_wallet\<close> checks the department, then that the wallet is new, then converts the
  block number (a failure is reported as \<open>InvalidDepartment\<close>) before bounding the
  department; it stores the caller as creator, a zero balance and an event with the
  department as given.
\<close>

definition create_wallet ::
  "nat \<Rightarrow> 'acc origin \<Rightarrow> 'acc \<Rightarrow> u8 list \<Rightarrow> 'acc wallet_storage
   \<Rightarrow> wallet_error dispatch_error + 'acc wallet_storage" where
  "create_wallet now origin wallet_id dept s =
     (case ensure_signed origin of
        Inl e \<Rightarrow> Inl e
      | Inr who \<Rightarrow>
        if dept = [] then Inl (Module InvalidDepartment)
        else if 100 < length dept then Inl (Module InvalidDepartment)
        else if government_wallets s wallet_id \<noteq> None then Inl (Module WalletAlreadyExists)
        else
          (case block_number_u64 now of
             None \<Rightarrow> Inl (Module InvalidDepartment)
           | Some block \<Rightarrow>
             (case bounded_vec 100 dept of
                None \<Rightarrow> Inl (Module InvalidDepartment)
              | Some bounded_dept \<Rightarrow>
                  Inr (s\<lparr>government_wallets := (government_wallets s)(wallet_id \<mapsto>
                           \<lparr>creator = who, department = bounded_dept, created_at = block\<rparr>),
                         wallet_balances := (wallet_balances s)(wallet_id \<mapsto> 0),
                         wallet_events := wallet_events s @ [GovernmentWalletCreated wallet_id dept]\<rparr>))))"

text \<open>
  \<open>allocate_funds\<close> accepts any signed caller and any amount for an existing wallet:
  \<open>WalletBalances::mutate\<close> with \<open>saturating_add\<close>.
\<close>

definition allocate_funds ::
  "'acc origin \<Rightarrow> 'acc \<Rightarrow> u128 \<Rightarrow> u8 list \<Rightarrow> 'acc wallet_storage
   \<Rightarrow> wallet_error dispatch_error + 'acc wallet_storage" where
  "allocate_funds origin wallet_id amt purp s =
     (case ensure_signed origin of
        Inl e \<Rightarrow> Inl e
      | Inr from \<Rightarrow>
        if government_wallets s wallet_id = None then Inl (Module WalletDoesNotExist)
        else
          Inr (s\<lparr>wallet_balances := (wallet_balances s)(wallet_id \<mapsto>
                   saturating_add (balance_get s wallet_id) amt),
                 wallet_events := wallet_events s @ [FundsAllocated wallet_id amt purp]\<rparr>))"

datatype 'acc wallet_call =
    CreateWallet 'acc "u8 list"
  | AllocateFunds 'acc u128 "u8 list"

fun wallet_dispatch :: "('acc, 'acc wallet_call, wallet_error, 'acc wallet_storage) dispatcher" where
  "wallet_dispatch now origin (CreateWallet w dept) s = create_wallet now origin w dept s"
| "wallet_dispatch now origin (AllocateFunds w amt purp) s = allocate_funds origin w amt purp s"

abbreviation wallet_reachable :: "nat \<Rightarrow> 'acc wallet_storage \<Rightarrow> bool" where
  "wallet_reachable \<equiv> reachable wallet_dispatch wallet_genesis"

subsection \<open>The invariant\<close>

text \<open>
  A balance is stored exactly for each wallet; every wallet was created no later than the
  current block and has a department of 1 to 100 bytes.
\<close>

definition wallet_inv :: "nat \<Rightarrow> 'acc wallet_storage \<Rightarrow> bool" where
  "wallet_inv now s \<longleftrightarrow>
     dom (wallet_balances s) = dom (government_wallets s) \<and>
     (\<forall>d \<in> ran (government_wallets s). unat (created_at d) \<le> now \<and> length (department d) \<in> {1..100})"

subsection \<open>The specification's example\<close>

text \<open>
  The pallet's test \<open>multiple_allocations_to_same_wallet\<close> at block 1: account 1 creates
  wallet 10 for ``Transportation'' (abbreviated to one byte), and accounts 2, 3 and 4
  allocate 1000, 2000 and 1500 to it.
\<close>

definition example_calls :: "(nat \<times> nat origin \<times> nat wallet_call) list" where
  "example_calls =
     [(1, Signed 1, CreateWallet 10 [84]),
      (1, Signed 2, AllocateFunds 10 1000 [82]),
      (1, Signed 3, AllocateFunds 10 2000 [86]),
      (1, Signed 4, AllocateFunds 10 1500 [70])]"

definition example_wallets :: "nat \<Rightarrow> nat wallet_storage" where
  "example_wallets k = run_calls wallet_dispatch wallet_genesis (take k example_calls)"

subsection \<open>Each call on every branch\<close>

lemma create_wallet_Inr_iff:
  "create_wallet now origin w dept s = Inr s' \<longleftrightarrow>
   (\<exists>who. origin = Signed who \<and> dept \<noteq> [] \<and> length dept \<le> 100 \<and> government_wallets s w = None \<and>
      now < 2 ^ 64 \<and>
      s' = s\<lparr>government_wallets := (government_wallets s)(w \<mapsto>
              \<lparr>creator = who, department = dept, created_at = word_of_nat now\<rparr>),
             wallet_balances := (wallet_balances s)(w \<mapsto> 0),
             wallet_events := wallet_events s @ [GovernmentWalletCreated w dept]\<rparr>)"
  by (auto simp: create_wallet_def ensure_signed_def block_number_u64_def bounded_vec_def
      split: origin.splits option.splits if_splits)

lemma allocate_funds_Inr_iff:
  "allocate_funds origin w amt purp s = Inr s' \<longleftrightarrow>
   (\<exists>who. origin = Signed who \<and> government_wallets s w \<noteq> None \<and>
      s' = s\<lparr>wallet_balances := (wallet_balances s)(w \<mapsto> saturating_add (balance_get s w) amt),
             wallet_events := wallet_events s @ [FundsAllocated w amt purp]\<rparr>)"
  by (auto simp: allocate_funds_def ensure_signed_def split: origin.splits)

lemma balance_get_upd [simp]:
  "balance_get (s\<lparr>wallet_balances := (wallet_balances s)(w \<mapsto> b), wallet_events := es\<rparr>) v =
   (if v = w then b else balance_get s v)"
  by (simp add: balance_get_def)

lemmas wallet_defs [dispatch_defs] = create_wallet_def allocate_funds_def

lemmas wallet_eval = example_wallets_def example_calls_def wallet_genesis_def apply_call_def
  create_wallet_def allocate_funds_def ensure_signed_def bounded_vec_def balance_get_def
  saturating_add_def overflows_def

subsection \<open>The invariant of the reachable states\<close>

lemma wallet_inv_genesis: "wallet_inv 0 wallet_genesis"
  by (simp add: wallet_inv_def wallet_genesis_def)

lemma wallet_inv_advance:
  assumes "wallet_inv n s" and "n \<le> n'"
  shows "wallet_inv n' s"
proof -
  have "unat (created_at d) \<le> n'" if "d \<in> ran (government_wallets s)" for d
    using assms that unfolding wallet_inv_def by (meson le_trans)
  with assms show ?thesis
    unfolding wallet_inv_def by blast
qed

lemma create_wallet_inv:
  assumes inv: "wallet_inv n s" and ok: "create_wallet n origin w dept s = Inr s'"
  shows "wallet_inv n s'"
proof -
  obtain who where d: "dept \<noteq> []" "length dept \<le> 100" and n: "n < 2 ^ 64"
    and s': "s' = s\<lparr>government_wallets := (government_wallets s)(w \<mapsto>
              \<lparr>creator = who, department = dept, created_at = word_of_nat n\<rparr>),
             wallet_balances := (wallet_balances s)(w \<mapsto> 0),
             wallet_events := wallet_events s @ [GovernmentWalletCreated w dept]\<rparr>"
    using ok by (auto simp: create_wallet_Inr_iff)
  let ?d = "\<lparr>creator = who, department = dept, created_at = word_of_nat n\<rparr> :: 'a wallet_details"
  have "dom (wallet_balances s') = dom (government_wallets s')"
    using inv s' by (simp add: wallet_inv_def)
  moreover have "\<forall>x \<in> ran (government_wallets s'). unat (created_at x) \<le> n \<and> length (department x) \<in> {1..100}"
  proof -
    have old: "\<forall>x \<in> ran (government_wallets s). unat (created_at x) \<le> n \<and> length (department x) \<in> {1..100}"
      using inv by (simp add: wallet_inv_def)
    have new: "unat (created_at ?d) \<le> n \<and> length (department ?d) \<in> {1..100}"
      using d n by (simp add: Suc_leI)
    have "ran (government_wallets s') \<subseteq> insert ?d (ran (government_wallets s))"
      using s' ran_map_upd_subset [of "government_wallets s" w ?d] by simp
    with old new show ?thesis
      by blast
  qed
  ultimately show ?thesis
    by (simp add: wallet_inv_def)
qed

lemma wallet_dispatch_inv:
  assumes "wallet_inv n s" and "wallet_dispatch n origin c s = Inr s'"
  shows "wallet_inv n s'"
proof (cases c)
  case (CreateWallet w dept)
  then show ?thesis
    using assms create_wallet_inv by simp
next
  case (AllocateFunds w amt purp)
  then show ?thesis
    using assms by (auto simp: allocate_funds_Inr_iff wallet_inv_def)
qed

lemma wallet_reachable_wallet_inv: "wallet_reachable n s \<Longrightarrow> wallet_inv n s"
  by (erule reachable_inv) (auto intro: wallet_inv_genesis wallet_inv_advance wallet_dispatch_inv)

text \<open>A wallet that does not exist has no stored balance, so it reads as 0.\<close>

lemma balance_get_fresh:
  "wallet_reachable n s \<Longrightarrow> government_wallets s w = None \<Longrightarrow> balance_get s w = 0"
proof -
  assume "wallet_reachable n s" and w: "government_wallets s w = None"
  then have "dom (wallet_balances s) = dom (government_wallets s)"
    using wallet_reachable_wallet_inv [of n s] by (simp add: wallet_inv_def)
  then have "wallet_balances s w = None"
    using w by blast
  then show ?thesis
    by (simp add: balance_get_def)
qed

lemma example_wallets_reachable: "wallet_reachable 1 (example_wallets k)"
proof -
  have "wallet_reachable 1 wallet_genesis"
    by (rule reachable.advance [OF reachable.genesis]) simp
  moreover have "\<forall>x \<in> set (take k example_calls). fst x = 1"
    by (auto simp: example_calls_def dest: in_set_takeD)
  ultimately show ?thesis
    unfolding example_wallets_def by (rule reachable_run_calls)
qed

subsection \<open>Properties\<close>

text \<open>
  C31: In every reachable state no call removes or changes a wallet, and no call lowers any balance (as read through the ValueQuery default of 0).
\<close>

theorem wallet_balances_monotone:
  assumes "wallet_reachable n s" and "wallet_dispatch n origin c s = Inr s'"
  shows "government_wallets s \<subseteq>\<^sub>m government_wallets s' \<and> (\<forall>w. balance_get s w \<le> balance_get s' w)"
proof (cases c)
  case (CreateWallet w dept)
  then obtain who where fresh: "government_wallets s w = None" and s': "s' = s\<lparr>government_wallets := (government_wallets s)(w \<mapsto>
        \<lparr>creator = who, department = dept, created_at = word_of_nat n\<rparr>),
      wallet_balances := (wallet_balances s)(w \<mapsto> 0),
      wallet_events := wallet_events s @ [GovernmentWalletCreated w dept]\<rparr>"
    using assms(2) by (auto simp: create_wallet_Inr_iff)
  have "balance_get s w = 0"
    using assms(1) fresh by (rule balance_get_fresh)
  then show ?thesis
    using fresh s' by (auto simp: map_le_def balance_get_def)
next
  case (AllocateFunds w amt purp)
  then show ?thesis
    using assms(2) by (auto simp: allocate_funds_Inr_iff saturating_add_ge)
qed

text \<open>
  C32: Any signed account can allocate any amount to an existing wallet: the balance becomes min(balance + amount, u128::MAX), every other balance and the wallets are unchanged, and FundsAllocated is deposited.
\<close>

theorem allocate_funds_saturates:
  assumes "government_wallets s w \<noteq> None"
  shows "\<exists>s'. allocate_funds (Signed a) w amt purp s = Inr s' \<and>
    unat (balance_get s' w) = min (unat (balance_get s w) + unat amt) (2 ^ 128 - 1) \<and>
    (\<forall>v. v \<noteq> w \<longrightarrow> balance_get s' v = balance_get s v) \<and>
    government_wallets s' = government_wallets s \<and>
    wallet_events s' = wallet_events s @ [FundsAllocated w amt purp]"
  using assms by (simp add: allocate_funds_Inr_iff unat_saturating_add)

text \<open>
  C33: In every reachable state a balance is stored exactly for each wallet, and each wallet was created no later than the current block with a department of 1 to 100 bytes.
\<close>

theorem wallet_reachable_inv:
  assumes "wallet_reachable n s"
  shows "dom (wallet_balances s) = dom (government_wallets s) \<and>
    (\<forall>w d. government_wallets s w = Some d \<longrightarrow>
       unat (created_at d) \<le> n \<and> 1 \<le> length (department d) \<and> length (department d) \<le> 100)"
proof -
  have inv: "wallet_inv n s"
    using assms by (rule wallet_reachable_wallet_inv)
  have "unat (created_at d) \<le> n \<and> 1 \<le> length (department d) \<and> length (department d) \<le> 100"
    if "government_wallets s w = Some d" for w d
    using inv ranI [of "government_wallets s", OF that] by (simp add: wallet_inv_def)
  then show ?thesis
    using inv by (simp add: wallet_inv_def)
qed

text \<open>
  C34: create_wallet fails in code order: BadOrigin, InvalidDepartment for an empty or over-100-byte department, WalletAlreadyExists, then InvalidDepartment for a block number beyond u64; allocate_funds on a missing wallet fails with WalletDoesNotExist.
\<close>

theorem create_wallet_errors:
  "create_wallet now NoneOrigin w dept s = Inl BadOrigin \<and>
   ((dept = [] \<or> 100 < length dept) \<longrightarrow>
      create_wallet now (Signed a) w dept s = Inl (Module InvalidDepartment)) \<and>
   (dept \<noteq> [] \<and> length dept \<le> 100 \<and> government_wallets s w \<noteq> None \<longrightarrow>
      create_wallet now (Signed a) w dept s = Inl (Module WalletAlreadyExists)) \<and>
   (dept \<noteq> [] \<and> length dept \<le> 100 \<and> government_wallets s w = None \<and> 2 ^ 64 \<le> now \<longrightarrow>
      create_wallet now (Signed a) w dept s = Inl (Module InvalidDepartment)) \<and>
   (government_wallets s w = None \<longrightarrow>
      allocate_funds (Signed a) w amt purp s = Inl (Module WalletDoesNotExist))"
  by (auto simp: create_wallet_def allocate_funds_def block_number_u64_large)

text \<open>
  C37: A valid create_wallet for a new id records the caller (not the wallet id) as creator, the department and the current block, stores a zero balance, touches no other wallet and deposits GovernmentWalletCreated.
\<close>

theorem create_wallet_effect:
  assumes "dept \<noteq> []" and "length dept \<le> 100" and "government_wallets s w = None" and "now < 2 ^ 64"
  shows "\<exists>s'. create_wallet now (Signed a) w dept s = Inr s' \<and>
    government_wallets s' w = Some \<lparr>creator = a, department = dept, created_at = word_of_nat now\<rparr> \<and>
    wallet_balances s' w = Some 0 \<and>
    (\<forall>v. v \<noteq> w \<longrightarrow> government_wallets s' v = government_wallets s v \<and> balance_get s' v = balance_get s v) \<and>
    wallet_events s' = wallet_events s @ [GovernmentWalletCreated w dept]"
  using assms by (auto simp: create_wallet_def ensure_signed_def block_number_u64_def bounded_vec_def
      balance_get_def)

subsection \<open>Witnesses\<close>

theorem wallet_balances_monotone_witness:
  "balance_get (example_wallets 1) 10 \<le> balance_get (example_wallets 2) 10 \<and>
   balance_get (example_wallets 2) 10 = 1000"
proof -
  have c: "wallet_dispatch 1 (Signed 2) (AllocateFunds 10 1000 [82]) (example_wallets 1) = Inr (example_wallets 2)"
    by (simp add: wallet_eval)
  have "balance_get (example_wallets 1) 10 \<le> balance_get (example_wallets 2) 10"
    using wallet_balances_monotone [OF example_wallets_reachable c] by blast
  moreover have "balance_get (example_wallets 2) 10 = 1000"
    by (simp add: wallet_eval)
  ultimately show ?thesis
    by blast
qed

theorem allocate_funds_saturates_witness:
  "unat (balance_get (example_wallets 4) 10) = 4500"
proof -
  have c: "allocate_funds (Signed 4) 10 1500 [70] (example_wallets 3) = Inr (example_wallets 4)"
    by (simp add: wallet_eval)
  have w: "government_wallets (example_wallets 3) 10 \<noteq> None"
    by (simp add: wallet_eval)
  have b: "unat (balance_get (example_wallets 3) 10) = 3000"
    by (simp add: wallet_eval)
  show ?thesis
    using allocate_funds_saturates [OF w, where a = 4 and amt = 1500 and purp = "[70]"] c b by simp
qed

theorem wallet_reachable_inv_witness:
  "dom (wallet_balances (example_wallets 4)) = {10}"
proof -
  have "dom (government_wallets (example_wallets 4)) = {10}"
    by (simp add: wallet_eval)
  then show ?thesis
    using wallet_reachable_inv [OF example_wallets_reachable [of 4]] by simp
qed

theorem create_wallet_errors_witness:
  "create_wallet 1 (Signed (1::nat)) 10 [] wallet_genesis = Inl (Module InvalidDepartment) \<and>
   create_wallet 1 (Signed (2::nat)) 10 [72] (example_wallets 1) = Inl (Module WalletAlreadyExists) \<and>
   allocate_funds (Signed (1::nat)) 99 5000 [77] wallet_genesis = Inl (Module WalletDoesNotExist)"
proof -
  have "create_wallet 1 (Signed (1::nat)) 10 [] wallet_genesis = Inl (Module InvalidDepartment)"
    using create_wallet_errors [where now = 1 and a = "1::nat" and w = 10 and dept = "[]" and s = wallet_genesis]
    by simp
  moreover have "create_wallet 1 (Signed (2::nat)) 10 [72] (example_wallets 1) = Inl (Module WalletAlreadyExists)"
    using create_wallet_errors [where now = 1 and a = "2::nat" and w = 10 and dept = "[72]" and s = "example_wallets 1"]
    by (simp add: wallet_eval)
  moreover have "allocate_funds (Signed (1::nat)) 99 5000 [77] wallet_genesis = Inl (Module WalletDoesNotExist)"
    using create_wallet_errors [where a = "1::nat" and w = 99 and amt = 5000 and purp = "[77]" and s = wallet_genesis]
    by (simp add: wallet_genesis_def)
  ultimately show ?thesis
    by blast
qed

theorem create_wallet_effect_witness:
  "\<exists>s'. create_wallet 1 (Signed (1::nat)) 10 [84] wallet_genesis = Inr s' \<and>
     government_wallets s' 10 = Some \<lparr>creator = 1, department = [84], created_at = 1\<rparr> \<and>
     wallet_balances s' 10 = Some 0"
  using create_wallet_effect [where now = 1 and a = "1::nat" and w = 10 and dept = "[84]" and s = wallet_genesis]
  by (simp add: wallet_genesis_def, blast)

end
