(* ===== verification/Runtime.thy ===== *)
theory Runtime
  imports VotingRounds BudgetProposal AuditLog GovernmentWallet
begin

text \<open>
  The four pallets in one runtime. The repository holds no runtime crate; following the
  specification, the pallets share only the account type and the block number, and the
  runtime dispatches each extrinsic to the pallet it names (as \<open>construct_runtime!\<close> does),
  lifting the pallet's error into the runtime's error type. The state is the product of
  the four storages. This theory shows that the reachable states of the runtime project
  onto reachable states of every pallet, so each pallet's invariant holds in the runtime,
  and that a call never touches another pallet's storage.
\<close>

subsection \<open>The composed runtime\<close>

record 'acc runtime_state =
  voting :: "'acc voting_storage"
  budget :: "'acc budget_storage"
  audit :: "'acc audit_storage"
  wallet :: "'acc wallet_storage"

datatype 'acc runtime_call =
    VotingCall voting_call
  | BudgetCall budget_call
  | AuditCall "'acc audit_call"
  | WalletCall "'acc wallet_call"

datatype runtime_error =
    VotingError voting_error
  | BudgetError budget_error
  | AuditError audit_error
  | WalletError wallet_error

text \<open>\<open>DispatchError::Module\<close> carries the pallet's error; the other errors pass unchanged.\<close>

primrec lift_error :: "('e \<Rightarrow> runtime_error) \<Rightarrow> 'e dispatch_error \<Rightarrow> runtime_error dispatch_error" where
  "lift_error f BadOrigin = BadOrigin"
| "lift_error f (Module e) = Module (f e)"
| "lift_error f Panic = Panic"

definition runtime_genesis :: "'acc runtime_state" where
  "runtime_genesis = \<lparr>voting = voting_genesis, budget = budget_genesis, audit = audit_genesis,
     wallet = wallet_genesis\<rparr>"

fun runtime_dispatch ::
  "build_profile \<Rightarrow> ('acc, 'acc runtime_call, runtime_error, 'acc runtime_state) dispatcher" where
  "runtime_dispatch prof now origin (VotingCall c) s =
     map_sum (lift_error VotingError) (\<lambda>v. s\<lparr>voting := v\<rparr>) (voting_dispatch prof now origin c (voting s))"
| "runtime_dispatch prof now origin (BudgetCall c) s =
     map_sum (lift_error BudgetError) (\<lambda>b. s\<lparr>budget := b\<rparr>) (budget_dispatch prof now origin c (budget s))"
| "runtime_dispatch prof now origin (AuditCall c) s =
     map_sum (lift_error AuditError) (\<lambda>a. s\<lparr>audit := a\<rparr>) (audit_dispatch prof now origin c (audit s))"
| "runtime_dispatch prof now origin (WalletCall c) s =
     map_sum (lift_error WalletError) (\<lambda>w. s\<lparr>wallet := w\<rparr>) (wallet_dispatch now origin c (wallet s))"

abbreviation runtime_reachable :: "build_profile \<Rightarrow> nat \<Rightarrow> 'acc runtime_state \<Rightarrow> bool" where
  "runtime_reachable prof \<equiv> reachable (runtime_dispatch prof) runtime_genesis"

text \<open>The pallet an extrinsic is routed to.\<close>

datatype pallet = VotingPallet | BudgetPallet | AuditPallet | WalletPallet

primrec call_pallet :: "'acc runtime_call \<Rightarrow> pallet" where
  "call_pallet (VotingCall c) = VotingPallet"
| "call_pallet (BudgetCall c) = BudgetPallet"
| "call_pallet (AuditCall c) = AuditPallet"
| "call_pallet (WalletCall c) = WalletPallet"

text \<open>Two runtime states agree on every pallet's storage but one.\<close>

definition agree_except :: "pallet \<Rightarrow> 'acc runtime_state \<Rightarrow> 'acc runtime_state \<Rightarrow> bool" where
  "agree_except p s s' \<longleftrightarrow>
     (p \<noteq> VotingPallet \<longrightarrow> voting s' = voting s) \<and> (p \<noteq> BudgetPallet \<longrightarrow> budget s' = budget s) \<and>
     (p \<noteq> AuditPallet \<longrightarrow> audit s' = audit s) \<and> (p \<noteq> WalletPallet \<longrightarrow> wallet s' = wallet s)"

subsection \<open>Storage types\<close>

text \<open>
  The declared types of the stored values and event fields bound every byte string:
  \<open>BoundedVec<u8, ConstU32<N>>\<close>. A value conforms when it fits its bound (its
  \<open>MaxEncodedLen\<close> then holds); the other fields are words or accounts, which conform by
  their HOL type.
\<close>

primrec budget_event_conforms :: "'acc budget_event \<Rightarrow> bool" where
  "budget_event_conforms (BudgetProposalCreated p who amt purp) = (length purp \<le> 200)"
| "budget_event_conforms (BudgetProposalApproved p who) = True"
| "budget_event_conforms (BudgetProposalRejected p who reason) = (length reason \<le> 100)"

primrec audit_event_conforms :: "'acc audit_event \<Rightarrow> bool" where
  "audit_event_conforms (AuditEntryCreated i act who det) = (length act \<le> 50 \<and> length det \<le> 500)"

definition budget_conforms :: "'acc budget_storage \<Rightarrow> bool" where
  "budget_conforms s \<longleftrightarrow>
     (\<forall>d \<in> ran (budget_proposals s). length (purpose d) \<le> 200) \<and>
     (\<forall>ev \<in> set (budget_events s). budget_event_conforms ev)"

definition audit_conforms :: "'acc audit_storage \<Rightarrow> bool" where
  "audit_conforms s \<longleftrightarrow>
     (\<forall>e \<in> ran (audit_log s). length (activity_type e) \<le> 50 \<and> length (details e) \<le> 500) \<and>
     (\<forall>ev \<in> set (audit_events s). audit_event_conforms ev)"

definition wallet_conforms :: "'acc wallet_storage \<Rightarrow> bool" where
  "wallet_conforms s \<longleftrightarrow> (\<forall>d \<in> ran (government_wallets s). length (department d) \<le> 100)"

definition runtime_conforms :: "'acc runtime_state \<Rightarrow> bool" where
  "runtime_conforms s \<longleftrightarrow> budget_conforms (budget s) \<and> audit_conforms (audit s) \<and> wallet_conforms (wallet s)"

text \<open>
  An example block 1: a vote opened on proposal 1 and cast by account 2, a budget proposal
  created by account 1, the creation logged, and wallet 10 created and funded.
\<close>

definition example_block :: "(nat \<times> nat origin \<times> nat runtime_call) list" where
  "example_block =
     [(1, Signed 1, VotingCall (StartVoting 1 5)),
      (1, Signed 2, VotingCall (CastVote 1 0)),
      (1, Signed 1, BudgetCall (CreateProposal 500 [82])),
      (1, Signed 1, AuditCall (LogActivity [67] [80] (Some 0) None)),
      (1, Signed 1, WalletCall (CreateWallet 10 [84])),
      (1, Signed 2, WalletCall (AllocateFunds 10 1000 [82]))]"

definition example_runtime :: "nat runtime_state" where
  "example_runtime = run_calls (runtime_dispatch Debug) runtime_genesis example_block"

subsection \<open>Projection onto the pallets\<close>

lemma map_sum_Inr_iff: "map_sum f g x = Inr y \<longleftrightarrow> (\<exists>z. x = Inr z \<and> y = g z)"
  by (cases x) auto

lemma runtime_reachable_components:
  assumes "runtime_reachable prof n s"
  shows "voting_reachable prof n (voting s) \<and> budget_reachable prof n (budget s) \<and>
    audit_reachable prof n (audit s) \<and> wallet_reachable n (wallet s)"
  using assms
proof (induction rule: reachable.induct)
  case genesis
  then show ?case
    by (simp add: runtime_genesis_def reachable.genesis)
next
  case (advance n s n')
  then show ?case
    by (blast intro: reachable.advance)
next
  case (dispatch n s origin c s')
  then show ?case
    by (cases c) (auto simp: map_sum_Inr_iff intro: reachable.dispatch)
qed

lemma example_runtime_reachable: "runtime_reachable Debug 1 example_runtime"
proof -
  have "runtime_reachable Debug 1 runtime_genesis"
    by (rule reachable.advance [OF reachable.genesis]) simp
  moreover have "\<forall>x \<in> set example_block. fst x = 1"
    by (simp add: example_block_def)
  ultimately show ?thesis
    unfolding example_runtime_def by (rule reachable_run_calls)
qed

subsection \<open>Conformance of the reachable states\<close>

lemma budget_events_conform:
  assumes "budget_reachable prof n s"
  shows "\<forall>ev \<in> set (budget_events s). budget_event_conforms ev"
  using assms
proof (rule reachable_inv [where I = "\<lambda>n s. \<forall>ev \<in> set (budget_events s). budget_event_conforms ev"])
  fix n origin c and s s' :: "'a budget_storage"
  assume "\<forall>ev \<in> set (budget_events s). budget_event_conforms ev" and "budget_dispatch prof n origin c s = Inr s'"
  then show "\<forall>ev \<in> set (budget_events s'). budget_event_conforms ev"
    by (cases c) (auto simp: create_proposal_Inr_iff approve_proposal_Inr_iff reject_proposal_Inr_iff)
qed (simp_all add: budget_genesis_def)

lemma audit_events_conform:
  assumes "audit_reachable prof n s"
  shows "\<forall>ev \<in> set (audit_events s). audit_event_conforms ev"
  using assms
proof (rule reachable_inv [where I = "\<lambda>n s. \<forall>ev \<in> set (audit_events s). audit_event_conforms ev"])
  fix n origin c and s s' :: "'a audit_storage"
  assume "\<forall>ev \<in> set (audit_events s). audit_event_conforms ev" and "audit_dispatch prof n origin c s = Inr s'"
  then show "\<forall>ev \<in> set (audit_events s'). audit_event_conforms ev"
    by (cases c) (auto simp: log_activity_Inr_iff get_audit_entry_result split: origin.splits if_splits)
qed (simp_all add: audit_genesis_def)

subsection \<open>Properties\<close>

text \<open>
  In every reachable state of the runtime composing the four pallets, each pallet's storage satisfies that pallet's invariant (one VoteCast per voter and proposal, sequential budget and audit ids, balances stored exactly for wallets).
\<close>

theorem runtime_pallet_invariants:
  assumes "runtime_reachable prof n s"
  shows "voting_inv n (voting s) \<and> budget_inv prof n (budget s) \<and> audit_inv prof n (audit s) \<and>
    wallet_inv n (wallet s)"
  using runtime_reachable_components [OF assms] voting_reachable_voting_inv budget_reachable_budget_inv
    audit_reachable_audit_inv wallet_reachable_wallet_inv by blast

text \<open>
  Applying any extrinsic, successful or failed, changes the storage of the pallet it is routed to and no other.
\<close>

theorem runtime_call_isolated:
  "agree_except (call_pallet c) s (apply_call (runtime_dispatch prof) now origin c s)"
  by (cases c) (auto simp: agree_except_def apply_call_def map_sum_Inr_iff split: sum.splits)

text \<open>
  Type conformance: in every reachable state of the runtime, every stored byte string and every byte string in a deposited event fits the bound of its declared BoundedVec type (purposes 200, reasons 100, activity types 50, details 500, departments 100).
\<close>

theorem runtime_storage_conforms:
  assumes "runtime_reachable prof n s"
  shows "runtime_conforms s"
proof -
  have v: "budget_reachable prof n (budget s)" "audit_reachable prof n (audit s)" "wallet_reachable n (wallet s)"
    using runtime_reachable_components [OF assms] by simp_all
  have "budget_conforms (budget s)"
    using budget_reachable_budget_inv [OF v(1)] budget_events_conform [OF v(1)]
    by (auto simp: budget_conforms_def budget_inv_def)
  moreover have "audit_conforms (audit s)"
    using audit_reachable_audit_inv [OF v(2)] audit_events_conform [OF v(2)]
    by (auto simp: audit_conforms_def audit_inv_def)
  moreover have "wallet_conforms (wallet s)"
    using wallet_reachable_wallet_inv [OF v(3)] by (auto simp: wallet_conforms_def wallet_inv_def)
  ultimately show ?thesis
    by (simp add: runtime_conforms_def)
qed

subsection \<open>Witnesses\<close>

theorem runtime_pallet_invariants_witness:
  "audit_inv Debug 1 (audit example_runtime) \<and> wallet_inv 1 (wallet example_runtime)"
  using runtime_pallet_invariants [OF example_runtime_reachable] by blast

theorem runtime_storage_conforms_witness: "runtime_conforms example_runtime"
  using runtime_storage_conforms [OF example_runtime_reachable] .

end
