(* ===== verification/Benchmarks.thy ===== *)
theory Benchmarks
  imports CommunityVoting BudgetProposal AuditLog GovernmentWallet
begin

text \<open>
  The weight benchmarks of the four pallets (\<open>src/pallets/*/src/benchmarking.rs\<close>, FRAME
  benchmarking v2). Each benchmark starts from empty storage, runs its setup calls (each
  wrapped in \<open>assert_ok!\<close>), then the measured \<open>#[extrinsic_call]\<close>, then its
  verification block of assertions. Every account a benchmark obtains from
  \<open>whitelisted_caller()\<close> is the same fixed account, the parameter \<open>caller\<close> here; the block
  number is the parameter \<open>now\<close>. This theory shows that every benchmark but one passes
  for any caller at any block (and either build), and that the \<open>end_voting\<close> benchmark
  measures a failing call at every block.
\<close>

subsection \<open>Running a benchmark\<close>

text \<open>How a benchmark ends: it passes, a setup call or the measured call returns an error,
  or an assertion of the verification block fails.\<close>

datatype 'e bench_outcome = Passed | SetupFailed 'e | CallFailed 'e | VerifyFailed

definition run_benchmark ::
  "('s \<Rightarrow> 'e + 's) \<Rightarrow> ('s \<Rightarrow> 'e + 's) \<Rightarrow> ('s \<Rightarrow> bool) \<Rightarrow> 's \<Rightarrow> 'e bench_outcome" where
  "run_benchmark setup call verify s0 =
     (case setup s0 of
        Inl e \<Rightarrow> SetupFailed e
      | Inr s1 \<Rightarrow>
        (case call s1 of
           Inl e \<Rightarrow> CallFailed e
         | Inr s2 \<Rightarrow> if verify s2 then Passed else VerifyFailed))"

text \<open>
  The harness (\<open>frame_benchmarking\<close>, both the runtime benchmark and the test of
  \<open>impl_benchmark_test_suite!\<close>) runs the setup, the statements before
  \<open>#[extrinsic_call]\<close>, at the current block, then sets the block number to at least 1
  "so events are deposited", then runs the measured call and the verification block. A
  benchmark started in block 0 makes its setup calls in block 0 and its measured call in
  block 1.
\<close>

definition bench_call_block :: "nat \<Rightarrow> nat" where
  "bench_call_block now = (if now = 0 then 1 else now)"

subsection \<open>Community voting\<close>

definition bench_start_voting :: "build_profile \<Rightarrow> nat \<Rightarrow> 'acc \<Rightarrow> voting_error dispatch_error bench_outcome" where
  "bench_start_voting prof now caller =
     run_benchmark Inr (start_voting prof (bench_call_block now) (Signed caller) 1 10)
       (\<lambda>s. voting_periods s 1 \<noteq> None \<and> yes_votes (vote_counts_get s 1) = 0 \<and>
            no_votes (vote_counts_get s 1) = 0 \<and> abstain_votes (vote_counts_get s 1) = 0)
       voting_genesis"

definition bench_cast_vote :: "build_profile \<Rightarrow> nat \<Rightarrow> 'acc \<Rightarrow> voting_error dispatch_error bench_outcome" where
  "bench_cast_vote prof now caller =
     run_benchmark (start_voting prof now (Signed caller) 1 10) (cast_vote prof (bench_call_block now) (Signed caller) 1 0)
       (\<lambda>s. proposal_votes s (1, caller) \<noteq> None \<and> yes_votes (vote_counts_get s 1) = 1 \<and>
            no_votes (vote_counts_get s 1) = 0 \<and> abstain_votes (vote_counts_get s 1) = 0)
       voting_genesis"

definition bench_end_voting :: "build_profile \<Rightarrow> nat \<Rightarrow> 'acc \<Rightarrow> voting_error dispatch_error bench_outcome" where
  "bench_end_voting prof now caller =
     run_benchmark (start_voting prof now (Signed caller) 1 0) (end_voting prof (bench_call_block now) (Signed caller) 1)
       (\<lambda>s. True) voting_genesis"

definition bench_cast_vote_no :: "build_profile \<Rightarrow> nat \<Rightarrow> 'acc \<Rightarrow> voting_error dispatch_error bench_outcome" where
  "bench_cast_vote_no prof now caller =
     run_benchmark (start_voting prof now (Signed caller) 2 10) (cast_vote prof (bench_call_block now) (Signed caller) 2 1)
       (\<lambda>s. proposal_votes s (2, caller) \<noteq> None \<and> yes_votes (vote_counts_get s 2) = 0 \<and>
            no_votes (vote_counts_get s 2) = 1 \<and> abstain_votes (vote_counts_get s 2) = 0)
       voting_genesis"

subsection \<open>Budget proposals\<close>

text \<open>\<open>BudgetProposals::get(0).expect(..)\<close> panics on a missing proposal: the assertion fails.\<close>

definition proposal_0_has :: "('acc proposal_details \<Rightarrow> bool) \<Rightarrow> 'acc budget_storage \<Rightarrow> bool" where
  "proposal_0_has P s = (case budget_proposals s 0 of None \<Rightarrow> False | Some d \<Rightarrow> P d)"

definition bench_create_proposal :: "build_profile \<Rightarrow> nat \<Rightarrow> 'acc \<Rightarrow> budget_error dispatch_error bench_outcome" where
  "bench_create_proposal prof now caller =
     run_benchmark Inr (create_proposal prof (bench_call_block now) (Signed caller) 1000 (bytes ''Community development project''))
       (\<lambda>s. next_proposal_id s = 1 \<and> budget_proposals s 0 \<noteq> None)
       budget_genesis"

definition bench_approve_proposal :: "build_profile \<Rightarrow> nat \<Rightarrow> 'acc \<Rightarrow> budget_error dispatch_error bench_outcome" where
  "bench_approve_proposal prof now caller =
     run_benchmark (create_proposal prof now (Signed caller) 1000 (bytes ''Infrastructure upgrade''))
       (approve_proposal (bench_call_block now) (Signed caller) 0)
       (proposal_0_has (\<lambda>d. status d = Approved))
       budget_genesis"

definition bench_reject_proposal :: "build_profile \<Rightarrow> nat \<Rightarrow> 'acc \<Rightarrow> budget_error dispatch_error bench_outcome" where
  "bench_reject_proposal prof now caller =
     run_benchmark (create_proposal prof now (Signed caller) 2000 (bytes ''Marketing campaign''))
       (reject_proposal (bench_call_block now) (Signed caller) 0 (rust_repeat 100 (bytes ''X'')))
       (proposal_0_has (\<lambda>d. status d = Rejected))
       budget_genesis"

definition bench_create_proposal_with_max_sizes ::
  "build_profile \<Rightarrow> nat \<Rightarrow> 'acc \<Rightarrow> budget_error dispatch_error bench_outcome" where
  "bench_create_proposal_with_max_sizes prof now caller =
     run_benchmark Inr (create_proposal prof (bench_call_block now) (Signed caller) (- 1) (rust_repeat 200 (bytes ''A'')))
       (\<lambda>s. next_proposal_id s = 1 \<and>
            proposal_0_has (\<lambda>d. amount d = - 1 \<and> length (purpose d) = 200 \<and> status d = Pending) s)
       budget_genesis"

subsection \<open>Audit log\<close>

definition bench_log_activity :: "build_profile \<Rightarrow> nat \<Rightarrow> 'acc \<Rightarrow> audit_error dispatch_error bench_outcome" where
  "bench_log_activity prof now caller =
     run_benchmark Inr
       (log_activity prof (bench_call_block now) (Signed caller) (bytes ''LOGIN'') (bytes ''User logged into system'') None None)
       (\<lambda>s. next_entry_id s = 1 \<and> audit_log s 0 \<noteq> None)
       audit_genesis"

definition bench_get_audit_entry :: "build_profile \<Rightarrow> nat \<Rightarrow> 'acc \<Rightarrow> audit_error dispatch_error bench_outcome" where
  "bench_get_audit_entry prof now caller =
     run_benchmark
       (log_activity prof now (Signed caller) (bytes ''LOGIN'') (bytes ''User logged into system'') None None)
       (get_audit_entry (Signed caller) 0)
       (\<lambda>s. True)
       audit_genesis"

definition bench_log_activity_with_max_sizes_and_related_ids ::
  "build_profile \<Rightarrow> nat \<Rightarrow> 'acc \<Rightarrow> audit_error dispatch_error bench_outcome" where
  "bench_log_activity_with_max_sizes_and_related_ids prof now caller =
     run_benchmark Inr
       (log_activity prof (bench_call_block now) (Signed caller) (rust_repeat 50 (bytes ''A'')) (rust_repeat 500 (bytes ''X''))
          (Some 100) (Some caller))
       (\<lambda>s. next_entry_id s = 1 \<and>
            (case audit_log s 0 of
               None \<Rightarrow> False
             | Some e \<Rightarrow> length (activity_type e) = 50 \<and> length (details e) = 500 \<and>
                 related_proposal_id e = Some 100 \<and> related_wallet_id e = Some caller))
       audit_genesis"

subsection \<open>Government wallets\<close>

definition bench_create_wallet :: "nat \<Rightarrow> 'acc \<Rightarrow> wallet_error dispatch_error bench_outcome" where
  "bench_create_wallet now caller =
     run_benchmark Inr (create_wallet (bench_call_block now) (Signed caller) caller (bytes ''Ministry of Finance''))
       (\<lambda>s. government_wallets s caller \<noteq> None \<and> balance_get s caller = 0)
       wallet_genesis"

definition bench_allocate_funds :: "nat \<Rightarrow> 'acc \<Rightarrow> wallet_error dispatch_error bench_outcome" where
  "bench_allocate_funds now caller =
     run_benchmark (create_wallet now (Signed caller) caller (bytes ''Health Department''))
       (allocate_funds (Signed caller) caller 5000 (bytes ''Medical supplies''))
       (\<lambda>s. balance_get s caller = 5000)
       wallet_genesis"

definition bench_create_wallet_with_max_department :: "nat \<Rightarrow> 'acc \<Rightarrow> wallet_error dispatch_error bench_outcome" where
  "bench_create_wallet_with_max_department now caller =
     run_benchmark Inr (create_wallet (bench_call_block now) (Signed caller) caller (rust_repeat 100 (bytes ''A'')))
       (\<lambda>s. government_wallets s caller \<noteq> None \<and>
            (case government_wallets s caller of
               None \<Rightarrow> False
             | Some d \<Rightarrow> length (department d) = 100) \<and>
            balance_get s caller = 0)
       wallet_genesis"

definition bench_allocate_funds_max_amount :: "nat \<Rightarrow> 'acc \<Rightarrow> wallet_error dispatch_error bench_outcome" where
  "bench_allocate_funds_max_amount now caller =
     run_benchmark (create_wallet now (Signed caller) caller (bytes ''National Budget''))
       (allocate_funds (Signed caller) caller (- 1) (bytes ''National reserve''))
       (\<lambda>s. balance_get s caller = - 1)
       wallet_genesis"

subsection \<open>The benchmark test suites\<close>

text \<open>
  \<open>impl_benchmark_test_suite!(Pallet, crate::mock::new_test_ext(), crate::mock::Test)\<close>
  generates one test per benchmark, each run on a fresh \<open>new_test_ext()\<close>: empty pallet
  storage in block 0, in the debug build of \<open>cargo test\<close>.
\<close>

definition voting_benchmark_suite :: "'acc \<Rightarrow> voting_error dispatch_error bench_outcome list" where
  "voting_benchmark_suite caller =
     [bench_start_voting Debug 0 caller, bench_cast_vote Debug 0 caller, bench_end_voting Debug 0 caller,
      bench_cast_vote_no Debug 0 caller]"

definition budget_benchmark_suite :: "'acc \<Rightarrow> budget_error dispatch_error bench_outcome list" where
  "budget_benchmark_suite caller =
     [bench_create_proposal Debug 0 caller, bench_approve_proposal Debug 0 caller,
      bench_reject_proposal Debug 0 caller, bench_create_proposal_with_max_sizes Debug 0 caller]"

definition audit_benchmark_suite :: "'acc \<Rightarrow> audit_error dispatch_error bench_outcome list" where
  "audit_benchmark_suite caller =
     [bench_log_activity Debug 0 caller, bench_get_audit_entry Debug 0 caller,
      bench_log_activity_with_max_sizes_and_related_ids Debug 0 caller]"

definition wallet_benchmark_suite :: "'acc \<Rightarrow> wallet_error dispatch_error bench_outcome list" where
  "wallet_benchmark_suite caller =
     [bench_create_wallet 0 caller, bench_allocate_funds 0 caller,
      bench_create_wallet_with_max_department 0 caller, bench_allocate_funds_max_amount 0 caller]"

subsection \<open>Each benchmark's outcome\<close>

lemma run_benchmark_Inr [simp]:
  "run_benchmark Inr call verify s0 =
     (case call s0 of Inl e \<Rightarrow> CallFailed e | Inr s2 \<Rightarrow> if verify s2 then Passed else VerifyFailed)"
  by (simp add: run_benchmark_def)

lemma run_benchmark_setup_ok:
  "setup s0 = Inr s1 \<Longrightarrow> run_benchmark setup call verify s0 =
     (case call s1 of Inl e \<Rightarrow> CallFailed e | Inr s2 \<Rightarrow> if verify s2 then Passed else VerifyFailed)"
  by (simp add: run_benchmark_def)

text \<open>The end of a window opened at block \<open>now\<close> that does not overflow.\<close>

lemma unat_window_end:
  "now + unat d < 2 ^ 64 \<Longrightarrow> unat (word_of_nat now + d :: u64) = now + unat d"
  by (simp add: unat_add_no_overflow overflows_def)

lemmas bench_simps = bytes_def proposal_0_has_def bench_call_block_def

lemmas voting_bench = start_voting_ok cast_vote_def end_voting_def vote_counts_get_def default_tally_def
  decode_vote_def rust_add_def overflows_def block_number_compare unat_window_end tally_result_code_def
  voting_genesis_def bench_call_block_def

lemma bench_cast_vote_passes:
  "now + 10 < 2 ^ 64 \<Longrightarrow> bench_cast_vote prof now caller = Passed"
  by (simp add: bench_cast_vote_def run_benchmark_def voting_bench)
lemma bench_cast_vote_no_passes:
  "now + 10 < 2 ^ 64 \<Longrightarrow> bench_cast_vote_no prof now caller = Passed"
  by (simp add: bench_cast_vote_no_def run_benchmark_def voting_bench)
lemma bench_start_voting_passes:
  "now + 10 < 2 ^ 64 \<Longrightarrow> bench_start_voting prof now caller = Passed"
  by (simp add: bench_start_voting_def voting_bench)
lemma bench_end_voting_call:
  "0 < now \<Longrightarrow> now < 2 ^ 64 \<Longrightarrow> bench_end_voting prof now caller = CallFailed (Module VotingPeriodNotStarted)"
  by (simp add: bench_end_voting_def run_benchmark_def voting_bench)
lemma bench_end_voting_genesis: "bench_end_voting prof 0 caller = Passed"
  by (simp add: bench_end_voting_def run_benchmark_def voting_bench)

lemmas budget_bench = budget_defs ensure_signed_def bounded_vec_def rust_add_def overflows_def
  budget_genesis_def bench_simps Let_def
lemma bench_create_proposal_passes:
  "now < 2 ^ 64 \<Longrightarrow> bench_create_proposal prof now caller = Passed"
  by (simp add: bench_create_proposal_def budget_bench)
lemma bench_approve_proposal_passes:
  "now < 2 ^ 64 \<Longrightarrow> bench_approve_proposal prof now caller = Passed"
  by (simp add: bench_approve_proposal_def run_benchmark_def budget_bench)
lemma bench_reject_proposal_passes:
  "now < 2 ^ 64 \<Longrightarrow> bench_reject_proposal prof now caller = Passed"
  by (simp add: bench_reject_proposal_def run_benchmark_def budget_bench)
lemma bench_create_proposal_with_max_sizes_passes:
  "now < 2 ^ 64 \<Longrightarrow> bench_create_proposal_with_max_sizes prof now caller = Passed"
  by (simp add: bench_create_proposal_with_max_sizes_def budget_bench)

lemmas audit_bench = audit_defs ensure_signed_def bounded_vec_def rust_add_def overflows_def
  audit_genesis_def bytes_def Let_def bench_call_block_def
lemma bench_log_activity_passes:
  "now < 2 ^ 64 \<Longrightarrow> bench_log_activity prof now caller = Passed"
  by (simp add: bench_log_activity_def audit_bench)
lemma bench_get_audit_entry_passes:
  "now < 2 ^ 64 \<Longrightarrow> bench_get_audit_entry prof now caller = Passed"
  by (simp add: bench_get_audit_entry_def run_benchmark_def audit_bench)
lemma bench_log_activity_with_max_sizes_passes:
  "now < 2 ^ 64 \<Longrightarrow> bench_log_activity_with_max_sizes_and_related_ids prof now caller = Passed"
  by (simp add: bench_log_activity_with_max_sizes_and_related_ids_def audit_bench)

lemmas wallet_bench = wallet_defs ensure_signed_def bounded_vec_def balance_get_def saturating_add_def
  overflows_def wallet_genesis_def bytes_def bench_call_block_def
lemma bench_create_wallet_passes:
  "now < 2 ^ 64 \<Longrightarrow> bench_create_wallet now caller = Passed"
  by (simp add: bench_create_wallet_def wallet_bench)
lemma bench_allocate_funds_passes:
  "now < 2 ^ 64 \<Longrightarrow> bench_allocate_funds now caller = Passed"
  by (simp add: bench_allocate_funds_def run_benchmark_def wallet_bench)
lemma bench_create_wallet_with_max_department_passes:
  "now < 2 ^ 64 \<Longrightarrow> bench_create_wallet_with_max_department now caller = Passed"
  by (simp add: bench_create_wallet_with_max_department_def wallet_bench)
lemma bench_allocate_funds_max_amount_passes:
  "now < 2 ^ 64 \<Longrightarrow> bench_allocate_funds_max_amount now caller = Passed"
  by (simp add: bench_allocate_funds_max_amount_def run_benchmark_def wallet_bench)

text \<open>Every test of the four benchmark test suites passes, the end_voting benchmark included.\<close>

lemma benchmark_test_suites_pass:
  "list_all (\<lambda>r. r = Passed) (voting_benchmark_suite caller) \<and>
   list_all (\<lambda>r. r = Passed) (budget_benchmark_suite caller) \<and>
   list_all (\<lambda>r. r = Passed) (audit_benchmark_suite caller) \<and>
   list_all (\<lambda>r. r = Passed) (wallet_benchmark_suite caller)"
  by (simp add: voting_benchmark_suite_def budget_benchmark_suite_def audit_benchmark_suite_def
      wallet_benchmark_suite_def bench_end_voting_genesis bench_start_voting_passes bench_cast_vote_passes
      bench_cast_vote_no_passes bench_create_proposal_passes bench_approve_proposal_passes
      bench_reject_proposal_passes bench_create_proposal_with_max_sizes_passes bench_log_activity_passes
      bench_get_audit_entry_passes bench_log_activity_with_max_sizes_passes bench_create_wallet_passes
      bench_allocate_funds_passes bench_create_wallet_with_max_department_passes
      bench_allocate_funds_max_amount_passes)

subsection \<open>Properties\<close>

text \<open>
  C36: Every benchmark except end_voting passes, for any whitelisted caller, at any block below 2^64 - 10 and in either build: its setup calls succeed, the measured extrinsic succeeds and every assertion of its verification block holds.
\<close>

theorem benchmarks_pass:
  assumes "now + 10 < 2 ^ 64"
  shows "bench_start_voting prof now caller = Passed \<and> bench_cast_vote prof now caller = Passed \<and>
    bench_cast_vote_no prof now caller = Passed \<and>
    bench_create_proposal prof now caller = Passed \<and> bench_approve_proposal prof now caller = Passed \<and>
    bench_reject_proposal prof now caller = Passed \<and>
    bench_create_proposal_with_max_sizes prof now caller = Passed \<and>
    bench_log_activity prof now caller = Passed \<and> bench_get_audit_entry prof now caller = Passed \<and>
    bench_log_activity_with_max_sizes_and_related_ids prof now caller = Passed \<and>
    bench_create_wallet now caller = Passed \<and> bench_allocate_funds now caller = Passed \<and>
    bench_create_wallet_with_max_department now caller = Passed \<and>
    bench_allocate_funds_max_amount now caller = Passed"
proof -
  have "now < 2 ^ 64"
    using assms by simp
  then show ?thesis
    using assms by (simp add: bench_start_voting_passes bench_cast_vote_passes bench_cast_vote_no_passes
        bench_create_proposal_passes bench_approve_proposal_passes bench_reject_proposal_passes
        bench_create_proposal_with_max_sizes_passes bench_log_activity_passes bench_get_audit_entry_passes
        bench_log_activity_with_max_sizes_passes bench_create_wallet_passes bench_allocate_funds_passes
        bench_create_wallet_with_max_department_passes bench_allocate_funds_max_amount_passes)
qed

text \<open>
  C35: The end_voting benchmark passes only from block 0. It opens a window of duration 0
  at the current block and calls end_voting: started in block 0 (a fresh genesis, as in
  impl_benchmark_test_suite!), the harness moves the measured call to block 1 and it
  succeeds; started at any later block the call shares the setup's block and the code
  refuses it with VotingPeriodNotStarted (end_block < current fails); beyond u64 the
  setup already fails.
\<close>

theorem end_voting_benchmark_outcome:
  "bench_end_voting prof now caller =
     (if now = 0 then Passed
      else if now < 2 ^ 64 then CallFailed (Module VotingPeriodNotStarted)
      else SetupFailed (Module voting_error.ProposalDoesNotExist))"
proof (cases "now < 2 ^ 64")
  case True
  then show ?thesis
    by (cases "now = 0") (simp_all add: bench_end_voting_call bench_end_voting_genesis)
next
  case False
  then show ?thesis
    by (simp add: bench_end_voting_def run_benchmark_def start_voting_def block_number_u64_large)
qed

subsection \<open>Witnesses\<close>

theorem end_voting_benchmark_outcome_witness:
  "bench_end_voting Debug 0 (0::nat) = Passed \<and>
   bench_end_voting Debug 5 (0::nat) = CallFailed (Module VotingPeriodNotStarted)"
  using end_voting_benchmark_outcome [where prof = Debug and caller = "0::nat" and now = 0]
    end_voting_benchmark_outcome [where prof = Debug and caller = "0::nat" and now = 5]
  by simp

theorem benchmarks_pass_witness:
  "bench_cast_vote Debug 1 (0::nat) = Passed \<and> bench_allocate_funds_max_amount 1 (0::nat) = Passed"
  using benchmarks_pass [where now = 1 and prof = Debug and caller = "0::nat"] by simp

end
