(* ===== verification/MockRuntime.thy ===== *)
theory MockRuntime
  imports Prelude
begin

text \<open>
  The mock runtimes of the unit tests (\<open>src/pallets/*/src/mock.rs\<close>): a test chain built by
  \<open>#[frame_construct_runtime]\<close> from \<open>frame_system\<close> (pallet index 0) and the pallet
  under test (pallet index 1), with \<open>frame_system\<close>'s \<open>TestDefaultConfig\<close>: accounts and
  block numbers are \<open>u64\<close>. The state of a test chain is \<open>frame_system\<close>'s block number and
  event list beside the pallet's storage. A pallet's events reach \<open>System::events()\<close> lifted
  into the runtime's event enum (\<open>type RuntimeEvent = RuntimeEvent\<close> of the pallet's
  \<open>Config\<close>), except in block 0, where \<open>frame_system\<close> records no event.
  The theory also holds the test harness: \<open>new_test_ext\<close>, \<open>System::set_block_number\<close>,
  \<open>assert_ok!\<close>, \<open>assert_noop!\<close> and \<open>System::assert_last_event\<close>, and the Rust
  helpers the tests use to build their byte strings.
\<close>

subsection \<open>A test chain\<close>

record ('s, 'ev) mock_state =
  system_block_number :: u64
  system_events :: "'ev list"
  pallet_storage :: 's

text \<open>
  \<open>new_test_ext()\<close>: the default genesis of \<open>frame_system\<close>, block 0 and no events,
  with the pallet's storage empty.
\<close>

definition new_test_ext :: "'s \<Rightarrow> ('s, 'ev) mock_state" where
  "new_test_ext genesis = \<lparr>system_block_number = 0, system_events = [], pallet_storage = genesis\<rparr>"

definition set_block_number :: "u64 \<Rightarrow> ('s, 'ev) mock_state \<Rightarrow> ('s, 'ev) mock_state" where
  "set_block_number n st = st\<lparr>system_block_number := n\<rparr>"

text \<open>
  \<open>frame_system::Pallet::deposit_event\<close>: an event of the genesis block is dropped (\<open>Don't
  populate events on genesis\<close>); otherwise it is appended to \<open>System::events()\<close>.
\<close>

definition deposit_events :: "u64 \<Rightarrow> 'ev list \<Rightarrow> 'ev list \<Rightarrow> 'ev list" where
  "deposit_events n evs new = (if n = 0 then evs else evs @ new)"

text \<open>
  Calling a dispatchable of the pallet on the test chain: the pallet sees the block
  number as it is stored (a \<open>u64\<close>, so the conversion to \<open>u64\<close> of the pallet never
  fails), and the events the call deposited, lifted into the runtime event enum, go to
  \<open>frame_system\<close>. A failed call changes nothing (the dispatchable runs in a storage layer).
\<close>

definition mock_call ::
  "('acc, 'c, 'e, 's) dispatcher \<Rightarrow> ('s \<Rightarrow> 'pe list) \<Rightarrow> ('pe \<Rightarrow> 'ev) \<Rightarrow>
   'acc origin \<Rightarrow> 'c \<Rightarrow> ('s, 'ev) mock_state \<Rightarrow> 'e dispatch_error + ('s, 'ev) mock_state" where
  "mock_call dispatch pallet_events lift origin c st =
     (case dispatch (unat (system_block_number st)) origin c (pallet_storage st) of
        Inl e \<Rightarrow> Inl e
      | Inr s' \<Rightarrow>
          Inr (st\<lparr>pallet_storage := s',
                  system_events := deposit_events (system_block_number st) (system_events st)
                    (map lift (drop (length (pallet_events (pallet_storage st))) (pallet_events s')))\<rparr>))"

subsection \<open>The test harness\<close>

text \<open>
  The statements of a test body: \<open>System::set_block_number(n)\<close>, \<open>assert_ok!(call)\<close>,
  \<open>assert_noop!(call, error)\<close> (the call fails with that error and leaves the storage as
  it was) and \<open>System::assert_last_event(event.into())\<close>.
\<close>

datatype ('acc, 'c, 'e, 'ev) test_step =
    SetBlockNumber u64
  | AssertOk "'acc origin" 'c
  | AssertNoop "'acc origin" 'c "'e dispatch_error"
  | AssertLastEvent 'ev

type_synonym ('acc, 'c, 'e, 's, 'ev) test_chain =
  "'acc origin \<Rightarrow> 'c \<Rightarrow> ('s, 'ev) mock_state \<Rightarrow> 'e dispatch_error + ('s, 'ev) mock_state"

text \<open>A statement either lets the test go on in a new state or panics (\<open>None\<close>).\<close>

fun exec_step ::
  "('acc, 'c, 'e, 's, 'ev) test_chain \<Rightarrow> ('acc, 'c, 'e, 'ev) test_step \<Rightarrow>
   ('s, 'ev) mock_state \<Rightarrow> ('s, 'ev) mock_state option" where
  "exec_step call (SetBlockNumber n) st = Some (set_block_number n st)"
| "exec_step call (AssertOk origin c) st =
     (case call origin c st of Inl e \<Rightarrow> None | Inr st' \<Rightarrow> Some st')"
| "exec_step call (AssertNoop origin c e) st =
     (case call origin c st of
        Inl e' \<Rightarrow> if e' = e then Some st else None
      | Inr st' \<Rightarrow> None)"
| "exec_step call (AssertLastEvent ev) st =
     (if system_events st \<noteq> [] \<and> last (system_events st) = ev then Some st else None)"

fun run_test ::
  "('acc, 'c, 'e, 's, 'ev) test_chain \<Rightarrow> ('acc, 'c, 'e, 'ev) test_step list \<Rightarrow>
   ('s, 'ev) mock_state \<Rightarrow> ('s, 'ev) mock_state option" where
  "run_test call [] st = Some st"
| "run_test call (x # xs) st = Option.bind (exec_step call x st) (run_test call xs)"

text \<open>\<open>new_test_ext().execute_with(|| body)\<close> passes when no statement of the body panics.\<close>

definition test_passes ::
  "('acc, 'c, 'e, 's, 'ev) test_chain \<Rightarrow> 's \<Rightarrow> ('acc, 'c, 'e, 'ev) test_step list \<Rightarrow> bool" where
  "test_passes call genesis body \<longleftrightarrow> run_test call body (new_test_ext genesis) \<noteq> None"

subsection \<open>Byte strings of the tests\<close>

text \<open>\<open>format!("{}", n)\<close> of an unsigned integer: its decimal digits.\<close>

fun decimal :: "nat \<Rightarrow> string" where
  "decimal n = (if n < 10 then [char_of (48 + n)] else decimal (n div 10) @ [char_of (48 + n mod 10)])"

subsection \<open>Refinement of the pallet by its test chain\<close>

text \<open>
  A test body whose \<open>System::set_block_number\<close> statements never lower the block number
  (every test of the repository is of this kind).
\<close>

fun blocks_monotone :: "u64 \<Rightarrow> ('acc, 'c, 'e, 'ev) test_step list \<Rightarrow> bool" where
  "blocks_monotone n [] = True"
| "blocks_monotone n (SetBlockNumber m # xs) \<longleftrightarrow> n \<le> m \<and> blocks_monotone m xs"
| "blocks_monotone n (x # xs) = blocks_monotone n xs"

text \<open>
  A state of the test chain corresponds to a state of the pallet's state machine: the
  pallet's storage is reachable at the current block, and \<open>System::events()\<close> is the
  lifted tail of the pallet's events, empty during the genesis block.
\<close>

definition chain_refines ::
  "('acc, 'c, 'e, 's) dispatcher \<Rightarrow> 's \<Rightarrow> ('s \<Rightarrow> 'pe list) \<Rightarrow> ('pe \<Rightarrow> 'ev) \<Rightarrow>
   ('s, 'ev) mock_state \<Rightarrow> bool" where
  "chain_refines dispatch init pallet_events lift st \<longleftrightarrow>
     reachable dispatch init (unat (system_block_number st)) (pallet_storage st) \<and>
     (\<exists>k \<le> length (pallet_events (pallet_storage st)).
        system_events st = map lift (drop k (pallet_events (pallet_storage st)))) \<and>
     (system_block_number st = 0 \<longrightarrow> system_events st = [])"

subsection \<open>Evaluation rules\<close>

declare decimal.simps [simp del]

lemma decimal_digit [simp]: "n < 10 \<Longrightarrow> decimal n = [char_of (48 + n)]"
  by (simp add: decimal.simps)

lemmas mock_eval = test_passes_def new_test_ext_def mock_call_def set_block_number_def deposit_events_def


lemma chain_refines_genesis: "chain_refines dispatch init pe lift (new_test_ext init)"
  unfolding chain_refines_def new_test_ext_def
  by (auto intro: reachable.genesis exI [of _ "length (pe init)"])

lemma chain_refines_set_block:
  assumes "chain_refines dispatch init pe lift st" and "system_block_number st \<le> m"
  shows "chain_refines dispatch init pe lift (set_block_number m st)"
proof -
  have "unat (system_block_number st) \<le> unat m"
    using assms(2) by (simp add: word_le_nat_alt)
  with assms show ?thesis
    unfolding chain_refines_def set_block_number_def
    by (auto intro: reachable.advance)
qed

lemma chain_refines_call:
  assumes inv: "chain_refines dispatch init pe lift st"
    and app: "\<And>n origin c s s'. dispatch n origin c s = Inr s' \<Longrightarrow> \<exists>new. pe s' = pe s @ new"
    and call: "mock_call dispatch pe lift origin c st = Inr st'"
  shows "chain_refines dispatch init pe lift st'"
proof -
  obtain s' where d: "dispatch (unat (system_block_number st)) origin c (pallet_storage st) = Inr s'"
    and st': "st' = st\<lparr>pallet_storage := s', system_events := deposit_events (system_block_number st)
       (system_events st) (map lift (drop (length (pe (pallet_storage st))) (pe s')))\<rparr>"
    using call by (auto simp: mock_call_def split: sum.splits)
  obtain new where new: "pe s' = pe (pallet_storage st) @ new"
    using app [OF d] by blast
  obtain k where k: "k \<le> length (pe (pallet_storage st))"
    and ev: "system_events st = map lift (drop k (pe (pallet_storage st)))"
    and gen: "system_block_number st = 0 \<longrightarrow> system_events st = []"
    using inv by (auto simp: chain_refines_def)
  have r: "reachable dispatch init (unat (system_block_number st)) s'"
    using inv d by (auto simp: chain_refines_def intro: reachable.dispatch)
  show ?thesis
  proof (cases "system_block_number st = 0")
    case True
    then show ?thesis
      using r gen new unfolding chain_refines_def st' deposit_events_def
      by (auto intro: exI [of _ "length (pe s')"])
  next
    case False
    have ps: "pallet_storage st' = s'" "system_block_number st' = system_block_number st"
      by (simp_all add: st')
    have "system_events st' = map lift (drop k (pe s'))"
      using k ev new False by (simp add: st' deposit_events_def)
    moreover have "k \<le> length (pe s')"
      using k new by simp
    ultimately show ?thesis
      using r False unfolding chain_refines_def ps by blast
  qed
qed

text \<open>Every state a monotone test body reaches corresponds to a state of the pallet.\<close>

lemma run_test_refines:
  assumes "chain_refines dispatch init pe lift st"
    and "\<And>n origin c s s'. dispatch n origin c s = Inr s' \<Longrightarrow> \<exists>new. pe s' = pe s @ new"
    and "blocks_monotone (system_block_number st) body"
    and "run_test (mock_call dispatch pe lift) body st = Some st'"
  shows "chain_refines dispatch init pe lift st'"
  using assms(1,3,4)
proof (induction body arbitrary: st)
  case Nil
  then show ?case by simp
next
  case (Cons x xs)
  show ?case
  proof (cases x)
    case (SetBlockNumber m)
    with Cons.prems have m: "system_block_number st \<le> m" "blocks_monotone m xs"
      and r: "run_test (mock_call dispatch pe lift) xs (set_block_number m st) = Some st'"
      by auto
    have "chain_refines dispatch init pe lift (set_block_number m st)"
      using Cons.prems(1) m(1) by (rule chain_refines_set_block)
    then show ?thesis
      using Cons.IH m(2) r by (simp add: set_block_number_def)
  next
    case (AssertOk origin c)
    with Cons.prems obtain st1 where c: "mock_call dispatch pe lift origin c st = Inr st1"
      and r: "run_test (mock_call dispatch pe lift) xs st1 = Some st'"
      by (auto split: sum.splits)
    have "chain_refines dispatch init pe lift st1"
      using Cons.prems(1) assms(2) c by (rule chain_refines_call)
    moreover have "system_block_number st1 = system_block_number st"
      using c by (auto simp: mock_call_def split: sum.splits)
    ultimately show ?thesis
      using Cons.IH Cons.prems(2) AssertOk r by simp
  next
    case (AssertNoop origin c e)
    then show ?thesis
      using Cons by (auto split: sum.splits if_splits)
  next
    case (AssertLastEvent ev)
    then show ?thesis
      using Cons by (auto split: if_splits)
  qed
qed

subsection \<open>Properties\<close>

text \<open>
  A test chain refines the pallet it is built on. For a pallet whose calls only append to
  its events, every state that a test body with non-decreasing block numbers reaches from
  \<open>new_test_ext()\<close> holds a pallet storage reachable in the pallet's own state machine at the
  current block, and \<open>System::events()\<close> is the lifted tail of the pallet's events, empty
  while the chain is in its genesis block.
\<close>

theorem test_chain_refines_pallet:
  assumes "\<And>n origin c s s'. dispatch n origin c s = Inr s' \<Longrightarrow> \<exists>new. pe s' = pe s @ new"
    and "blocks_monotone 0 body"
    and "run_test (mock_call dispatch pe lift) body (new_test_ext init) = Some st"
  shows "chain_refines dispatch init pe lift st"
proof -
  have mono: "blocks_monotone (system_block_number (new_test_ext init)) body"
    using assms(2) by (simp add: new_test_ext_def)
  show ?thesis
  proof (rule run_test_refines [OF chain_refines_genesis _ mono assms(3)])
    fix n origin c s s'
    assume "dispatch n origin c s = Inr s'"
    then show "\<exists>new. pe s' = pe s @ new"
      by (rule assms(1))
  qed
qed

end
