(* ===== verification/AuditTests.thy ===== *)
theory AuditTests
  imports AuditLog MockRuntime
begin

text \<open>
  The unit tests of the audit-log pallet (\<open>src/pallets/audit-log/src/tests.rs\<close>) on its mock
  runtime (\<open>src/pallets/audit-log/src/mock.rs\<close>): the test chain \<open>Test\<close> of
  \<open>frame_system\<close> and \<open>AuditLogPallet\<close>, with \<open>u64\<close> accounts, run under the debug profile of
  \<open>cargo test\<close>. Each test is the list of statements of its body.
\<close>

subsection \<open>The mock runtime\<close>

text \<open>\<open>RuntimeEvent\<close> of the test chain: the pallet's events under its variant.\<close>

datatype audit_runtime_event = AuditLogPallet "u64 audit_event"

definition audit_test_call ::
  "(u64, u64 audit_call, audit_error, u64 audit_storage, audit_runtime_event) test_chain" where
  "audit_test_call = mock_call (audit_dispatch Debug) audit_events AuditLogPallet"

type_synonym audit_test = "(u64, u64 audit_call, audit_error, audit_runtime_event) test_step list"

subsection \<open>The tests\<close>

definition it_works_for_log_activity :: audit_test where
  "it_works_for_log_activity =
     [SetBlockNumber 1,
      AssertOk (Signed 1) (LogActivity (bytes ''LOGIN'') (bytes ''User logged into system'') None None),
      AssertLastEvent (AuditLogPallet
        (AuditEntryCreated 0 (bytes ''LOGIN'') 1 (bytes ''User logged into system'')))]"

definition log_activity_fails_for_empty_activity_type :: audit_test where
  "log_activity_fails_for_empty_activity_type =
     [SetBlockNumber 1,
      AssertNoop (Signed 1) (LogActivity [] (bytes ''Some details'') None None) (Module InvalidActivityType)]"

definition log_activity_fails_for_empty_details :: audit_test where
  "log_activity_fails_for_empty_details =
     [SetBlockNumber 1,
      AssertNoop (Signed 1) (LogActivity (bytes ''LOGIN'') [] None None) (Module InvalidDetails)]"

definition log_activity_fails_for_unsigned_origin :: audit_test where
  "log_activity_fails_for_unsigned_origin =
     [SetBlockNumber 1,
      AssertNoop NoneOrigin (LogActivity (bytes ''LOGIN'') (bytes ''Some details'') None None) BadOrigin]"

definition it_works_for_get_audit_entry :: audit_test where
  "it_works_for_get_audit_entry =
     [SetBlockNumber 1,
      AssertOk (Signed 1) (LogActivity (bytes ''LOGIN'') (bytes ''User logged in'') None None),
      AssertOk (Signed 2) (GetAuditEntry 0)]"

definition get_audit_entry_fails_for_non_existent_entry :: audit_test where
  "get_audit_entry_fails_for_non_existent_entry =
     [SetBlockNumber 1,
      AssertNoop (Signed 1) (GetAuditEntry 999) (Module EntryDoesNotExist)]"

definition multiple_entries_have_sequential_ids :: audit_test where
  "multiple_entries_have_sequential_ids =
     [SetBlockNumber 1,
      AssertOk (Signed 1) (LogActivity (bytes ''CREATE'') (bytes ''First entry'') None None),
      AssertOk (Signed 2) (LogActivity (bytes ''UPDATE'') (bytes ''Second entry'') None None),
      AssertOk (Signed 3) (LogActivity (bytes ''DELETE'') (bytes ''Third entry'') None None),
      AssertOk (Signed 1) (GetAuditEntry 0),
      AssertOk (Signed 1) (GetAuditEntry 1),
      AssertOk (Signed 1) (GetAuditEntry 2),
      AssertNoop (Signed 1) (GetAuditEntry 3) (Module EntryDoesNotExist)]"

definition log_activity_fails_for_too_long_activity_type :: audit_test where
  "log_activity_fails_for_too_long_activity_type =
     [SetBlockNumber 1,
      AssertNoop (Signed 1) (LogActivity (rust_repeat 51 (bytes ''A'')) (bytes ''Some details'') None None)
        (Module InvalidActivityType)]"

definition log_activity_fails_for_too_long_details :: audit_test where
  "log_activity_fails_for_too_long_details =
     [SetBlockNumber 1,
      AssertNoop (Signed 1) (LogActivity (bytes ''LOGIN'') (rust_repeat 501 (bytes ''X'')) None None)
        (Module InvalidDetails)]"

definition it_works_for_log_activity_with_related_ids :: audit_test where
  "it_works_for_log_activity_with_related_ids =
     [SetBlockNumber 5,
      AssertOk (Signed 2) (LogActivity (bytes ''VOTE'') (bytes ''User voted on proposal'') (Some 100) (Some 42)),
      AssertOk (Signed 1) (GetAuditEntry 0),
      AssertLastEvent (AuditLogPallet
        (AuditEntryCreated 0 (bytes ''VOTE'') 2 (bytes ''User voted on proposal'')))]"

definition get_audit_entry_fails_for_unsigned_origin :: audit_test where
  "get_audit_entry_fails_for_unsigned_origin =
     [SetBlockNumber 1,
      AssertNoop NoneOrigin (GetAuditEntry 0) BadOrigin]"

definition audit_tests :: "audit_test list" where
  "audit_tests =
     [it_works_for_log_activity, log_activity_fails_for_empty_activity_type,
      log_activity_fails_for_empty_details, log_activity_fails_for_unsigned_origin,
      it_works_for_get_audit_entry, get_audit_entry_fails_for_non_existent_entry,
      multiple_entries_have_sequential_ids, log_activity_fails_for_too_long_activity_type,
      log_activity_fails_for_too_long_details, it_works_for_log_activity_with_related_ids,
      get_audit_entry_fails_for_unsigned_origin]"


lemmas audit_test_defs = audit_tests_def it_works_for_log_activity_def
  log_activity_fails_for_empty_activity_type_def log_activity_fails_for_empty_details_def
  log_activity_fails_for_unsigned_origin_def it_works_for_get_audit_entry_def
  get_audit_entry_fails_for_non_existent_entry_def
  multiple_entries_have_sequential_ids_def
  log_activity_fails_for_too_long_activity_type_def
  log_activity_fails_for_too_long_details_def
  it_works_for_log_activity_with_related_ids_def
  get_audit_entry_fails_for_unsigned_origin_def

subsection \<open>The pallet's events grow by appending\<close>

lemma audit_events_appended:
  "audit_dispatch prof n origin c s = Inr s' \<Longrightarrow> \<exists>new. audit_events s' = audit_events s @ new"
  by (cases c) (auto simp: log_activity_Inr_iff get_audit_entry_result split: origin.splits if_splits)

end
