(* ===== verification/WalletTests.thy ===== *)
theory WalletTests
  imports GovernmentWallet MockRuntime
begin

text \<open>
  The unit tests of the government-wallet pallet
  (\<open>src/pallets/government-wallet/src/tests.rs\<close>) on its mock runtime
  (\<open>src/pallets/government-wallet/src/mock.rs\<close>): the test chain \<open>Test\<close> of
  \<open>frame_system\<close> and \<open>GovernmentWalletPallet\<close>, with \<open>u64\<close> accounts. The two tests with a
  \<open>for\<close> loop unfold it into one statement per iteration.
\<close>

subsection \<open>The mock runtime\<close>

datatype wallet_runtime_event = GovernmentWalletPallet "u64 wallet_event"

definition wallet_test_call ::
  "(u64, u64 wallet_call, wallet_error, u64 wallet_storage, wallet_runtime_event) test_chain" where
  "wallet_test_call = mock_call wallet_dispatch wallet_events GovernmentWalletPallet"

type_synonym wallet_test = "(u64, u64 wallet_call, wallet_error, wallet_runtime_event) test_step list"

subsection \<open>The tests\<close>

definition it_works_for_create_wallet :: wallet_test where
  "it_works_for_create_wallet =
     [SetBlockNumber 1,
      AssertOk (Signed 1) (CreateWallet 10 (bytes ''Ministry of Finance'')),
      AssertLastEvent (GovernmentWalletPallet (GovernmentWalletCreated 10 (bytes ''Ministry of Finance'')))]"

definition it_works_for_allocate_funds :: wallet_test where
  "it_works_for_allocate_funds =
     [SetBlockNumber 1,
      AssertOk (Signed 1) (CreateWallet 10 (bytes ''Health Department'')),
      AssertOk (Signed 2) (AllocateFunds 10 5000 (bytes ''Medical supplies'')),
      AssertLastEvent (GovernmentWalletPallet (FundsAllocated 10 5000 (bytes ''Medical supplies'')))]"

definition multiple_wallets_can_be_created :: wallet_test where
  "multiple_wallets_can_be_created =
     [SetBlockNumber 1,
      AssertOk (Signed 1) (CreateWallet 10 (bytes ''Education'')),
      AssertOk (Signed 2) (CreateWallet 20 (bytes ''Infrastructure'')),
      AssertOk (Signed 3) (CreateWallet 30 (bytes ''Defense''))]"

definition multiple_allocations_to_same_wallet :: wallet_test where
  "multiple_allocations_to_same_wallet =
     [SetBlockNumber 1,
      AssertOk (Signed 1) (CreateWallet 10 (bytes ''Transportation'')),
      AssertOk (Signed 2) (AllocateFunds 10 1000 (bytes ''Road maintenance'')),
      AssertOk (Signed 3) (AllocateFunds 10 2000 (bytes ''New vehicles'')),
      AssertOk (Signed 4) (AllocateFunds 10 1500 (bytes ''Fuel costs''))]"

definition create_wallet_fails_for_empty_department :: wallet_test where
  "create_wallet_fails_for_empty_department =
     [SetBlockNumber 1,
      AssertNoop (Signed 1) (CreateWallet 10 []) (Module InvalidDepartment)]"

definition create_wallet_fails_for_too_long_department :: wallet_test where
  "create_wallet_fails_for_too_long_department =
     [SetBlockNumber 1,
      AssertNoop (Signed 1) (CreateWallet 10 (rust_repeat 101 (bytes ''A''))) (Module InvalidDepartment)]"

definition create_wallet_fails_for_duplicate_wallet :: wallet_test where
  "create_wallet_fails_for_duplicate_wallet =
     [SetBlockNumber 1,
      AssertOk (Signed 1) (CreateWallet 10 (bytes ''Education'')),
      AssertNoop (Signed 2) (CreateWallet 10 (bytes ''Health'')) (Module WalletAlreadyExists)]"

definition allocate_funds_fails_for_non_existent_wallet :: wallet_test where
  "allocate_funds_fails_for_non_existent_wallet =
     [SetBlockNumber 1,
      AssertNoop (Signed 1) (AllocateFunds 999 1000 (bytes ''Some purpose'')) (Module WalletDoesNotExist)]"

definition create_wallet_fails_for_unsigned_origin :: wallet_test where
  "create_wallet_fails_for_unsigned_origin =
     [SetBlockNumber 1,
      AssertNoop NoneOrigin (CreateWallet 10 (bytes ''Some department'')) BadOrigin]"

definition allocate_funds_fails_for_unsigned_origin :: wallet_test where
  "allocate_funds_fails_for_unsigned_origin =
     [SetBlockNumber 1,
      AssertOk (Signed 1) (CreateWallet 10 (bytes ''Some department'')),
      AssertNoop NoneOrigin (AllocateFunds 10 1000 (bytes ''Some purpose'')) BadOrigin]"

definition different_users_can_create_wallets :: wallet_test where
  "different_users_can_create_wallets =
     [SetBlockNumber 1,
      AssertOk (Signed 1) (CreateWallet 10 (bytes ''User 1 department'')),
      AssertOk (Signed 2) (CreateWallet 20 (bytes ''User 2 department'')),
      AssertOk (Signed 3) (CreateWallet 30 (bytes ''User 3 department''))]"

definition same_user_can_create_multiple_wallets :: wallet_test where
  "same_user_can_create_multiple_wallets =
     [SetBlockNumber 1,
      AssertOk (Signed 1) (CreateWallet 10 (bytes ''Wallet 1'')),
      AssertOk (Signed 1) (CreateWallet 20 (bytes ''Wallet 2'')),
      AssertOk (Signed 1) (CreateWallet 30 (bytes ''Wallet 3''))]"

definition it_works_for_max_length_department :: wallet_test where
  "it_works_for_max_length_department =
     [SetBlockNumber 1,
      AssertOk (Signed 1) (CreateWallet 10 (rust_repeat 100 (bytes ''A''))),
      AssertLastEvent (GovernmentWalletPallet (GovernmentWalletCreated 10 (rust_repeat 100 (bytes ''A''))))]"

definition wallet_balance_accumulates_correctly :: wallet_test where
  "wallet_balance_accumulates_correctly =
     [SetBlockNumber 1,
      AssertOk (Signed 1) (CreateWallet 10 (bytes ''Treasury'')),
      AssertOk (Signed 2) (AllocateFunds 10 1000 (bytes ''Initial funding'')),
      AssertOk (Signed 3) (AllocateFunds 10 2500 (bytes ''Additional funds'')),
      AssertOk (Signed 4) (AllocateFunds 10 1500 (bytes ''Emergency allocation''))]"

definition it_works_for_large_amounts :: wallet_test where
  "it_works_for_large_amounts =
     [SetBlockNumber 1,
      AssertOk (Signed 1) (CreateWallet 10 (bytes ''National Budget'')),
      AssertOk (Signed 2) (AllocateFunds 10 (- 1) (bytes ''National reserve''))]"

text \<open>\<open>for i in 2..7\<close>: account \<open>i\<close> allocates \<open>i * 1000\<close> with a formatted purpose.\<close>

definition multiple_allocations_from_different_users :: wallet_test where
  "multiple_allocations_from_different_users =
     [SetBlockNumber 1,
      AssertOk (Signed 1) (CreateWallet 10 (bytes ''Public Works''))] @
     map (\<lambda>i. AssertOk (Signed (word_of_nat i))
                (AllocateFunds 10 (word_of_nat (i * 1000)) (bytes (''Allocation from user '' @ decimal i))))
       [2..<7]"

text \<open>\<open>for (i, &wallet_id) in wallet_ids.iter().enumerate()\<close>.\<close>

definition wallet_creation_with_different_account_ids :: wallet_test where
  "wallet_creation_with_different_account_ids =
     SetBlockNumber 1 #
     map (\<lambda>(i, w). AssertOk (Signed (word_of_nat (i + 1))) (CreateWallet w (bytes (''Department '' @ decimal i))))
       (enumerate 0 [10, 20, 30, 40, 50, 100, 1000, 9999])"

definition allocation_with_empty_purpose_works :: wallet_test where
  "allocation_with_empty_purpose_works =
     [SetBlockNumber 1,
      AssertOk (Signed 1) (CreateWallet 10 (bytes ''General Fund'')),
      AssertOk (Signed 2) (AllocateFunds 10 1000 []),
      AssertLastEvent (GovernmentWalletPallet (FundsAllocated 10 1000 []))]"

definition allocation_with_long_purpose_works :: wallet_test where
  "allocation_with_long_purpose_works =
     [SetBlockNumber 1,
      AssertOk (Signed 1) (CreateWallet 10 (bytes ''Research'')),
      AssertOk (Signed 2) (AllocateFunds 10 5000 (rust_repeat 500 (bytes ''X'')))]"

definition wallet_tests :: "wallet_test list" where
  "wallet_tests =
     [it_works_for_create_wallet, it_works_for_allocate_funds, multiple_wallets_can_be_created,
      multiple_allocations_to_same_wallet, create_wallet_fails_for_empty_department,
      create_wallet_fails_for_too_long_department, create_wallet_fails_for_duplicate_wallet,
      allocate_funds_fails_for_non_existent_wallet, create_wallet_fails_for_unsigned_origin,
      allocate_funds_fails_for_unsigned_origin, different_users_can_create_wallets,
      same_user_can_create_multiple_wallets, it_works_for_max_length_department,
      wallet_balance_accumulates_correctly, it_works_for_large_amounts,
      multiple_allocations_from_different_users, wallet_creation_with_different_account_ids,
      allocation_with_empty_purpose_works, allocation_with_long_purpose_works]"


lemmas wallet_test_defs = wallet_tests_def it_works_for_create_wallet_def it_works_for_allocate_funds_def
  multiple_wallets_can_be_created_def multiple_allocations_to_same_wallet_def
  create_wallet_fails_for_empty_department_def
  create_wallet_fails_for_too_long_department_def
  create_wallet_fails_for_duplicate_wallet_def
  allocate_funds_fails_for_non_existent_wallet_def
  create_wallet_fails_for_unsigned_origin_def allocate_funds_fails_for_unsigned_origin_def
  different_users_can_create_wallets_def same_user_can_create_multiple_wallets_def
  it_works_for_max_length_department_def wallet_balance_accumulates_correctly_def
  it_works_for_large_amounts_def multiple_allocations_from_different_users_def
  wallet_creation_with_different_account_ids_def allocation_with_empty_purpose_works_def
  allocation_with_long_purpose_works_def

subsection \<open>The pallet's events grow by appending\<close>

lemma wallet_events_appended:
  "wallet_dispatch n origin c s = Inr s' \<Longrightarrow> \<exists>new. wallet_events s' = wallet_events s @ new"
  by (cases c) (auto simp: create_wallet_Inr_iff allocate_funds_Inr_iff )

end
