(* ===== verification/BudgetTests.thy ===== *)
theory BudgetTests
  imports BudgetProposal MockRuntime
begin

text \<open>
  The unit tests of the budget-proposal pallet (\<open>src/pallets/budget-proposal/src/tests.rs\<close>).
  The pallet declares \<open>mod mock\<close> but the repository has no \<open>mock.rs\<close> for it; the tests
  name a test chain of \<open>frame_system\<close> and \<open>BudgetProposalPallet\<close>, which is modelled here on
  the mock runtimes of the two other pallets (\<open>u64\<close> accounts and block numbers, the
  debug profile of \<open>cargo test\<close>).
\<close>

subsection \<open>The mock runtime\<close>

datatype budget_runtime_event = BudgetProposalPallet "u64 budget_event"

definition budget_test_call ::
  "(u64, budget_call, budget_error, u64 budget_storage, budget_runtime_event) test_chain" where
  "budget_test_call = mock_call (budget_dispatch Debug) budget_events BudgetProposalPallet"

type_synonym budget_test = "(u64, budget_call, budget_error, budget_runtime_event) test_step list"

subsection \<open>The tests\<close>

definition it_works_for_create_proposal :: budget_test where
  "it_works_for_create_proposal =
     [SetBlockNumber 1,
      AssertOk (Signed 1) (CreateProposal 1000 (bytes ''Community development project'')),
      AssertLastEvent (BudgetProposalPallet
        (BudgetProposalCreated 0 1 1000 (bytes ''Community development project'')))]"

definition it_works_for_approve_proposal :: budget_test where
  "it_works_for_approve_proposal =
     [SetBlockNumber 1,
      AssertOk (Signed 1) (CreateProposal 500 (bytes ''Infrastructure upgrade'')),
      AssertOk (Signed 2) (ApproveProposal 0),
      AssertLastEvent (BudgetProposalPallet (BudgetProposalApproved 0 2))]"

definition it_works_for_reject_proposal :: budget_test where
  "it_works_for_reject_proposal =
     [SetBlockNumber 1,
      AssertOk (Signed 1) (CreateProposal 2000 (bytes ''Marketing campaign'')),
      AssertOk (Signed 3) (RejectProposal 0 (bytes ''Budget too high'')),
      AssertLastEvent (BudgetProposalPallet (BudgetProposalRejected 0 3 (bytes ''Budget too high'')))]"

definition create_proposal_fails_for_empty_purpose :: budget_test where
  "create_proposal_fails_for_empty_purpose =
     [SetBlockNumber 1,
      AssertNoop (Signed 1) (CreateProposal 1000 []) (Module InvalidPurpose)]"

definition create_proposal_fails_for_too_long_purpose :: budget_test where
  "create_proposal_fails_for_too_long_purpose =
     [SetBlockNumber 1,
      AssertNoop (Signed 1) (CreateProposal 1000 (rust_repeat 201 (bytes ''A''))) (Module InvalidPurpose)]"

definition reject_proposal_fails_for_empty_reason :: budget_test where
  "reject_proposal_fails_for_empty_reason =
     [SetBlockNumber 1,
      AssertOk (Signed 1) (CreateProposal 1000 (bytes ''Some purpose'')),
      AssertNoop (Signed 2) (RejectProposal 0 []) (Module InvalidReason)]"

definition reject_proposal_fails_for_too_long_reason :: budget_test where
  "reject_proposal_fails_for_too_long_reason =
     [SetBlockNumber 1,
      AssertOk (Signed 1) (CreateProposal 1000 (bytes ''Some purpose'')),
      AssertNoop (Signed 2) (RejectProposal 0 (rust_repeat 101 (bytes ''X''))) (Module InvalidReason)]"

definition create_proposal_fails_for_unsigned_origin :: budget_test where
  "create_proposal_fails_for_unsigned_origin =
     [SetBlockNumber 1,
      AssertNoop NoneOrigin (CreateProposal 1000 (bytes ''Some purpose'')) BadOrigin]"

definition approve_proposal_fails_for_unsigned_origin :: budget_test where
  "approve_proposal_fails_for_unsigned_origin =
     [SetBlockNumber 1,
      AssertNoop NoneOrigin (ApproveProposal 0) BadOrigin]"

definition reject_proposal_fails_for_unsigned_origin :: budget_test where
  "reject_proposal_fails_for_unsigned_origin =
     [SetBlockNumber 1,
      AssertNoop NoneOrigin (RejectProposal 0 (bytes ''Some reason'')) BadOrigin]"

definition approve_proposal_fails_for_non_existent_proposal :: budget_test where
  "approve_proposal_fails_for_non_existent_proposal =
     [SetBlockNumber 1,
      AssertNoop (Signed 1) (ApproveProposal 999) (Module ProposalDoesNotExist)]"

definition reject_proposal_fails_for_non_existent_proposal :: budget_test where
  "reject_proposal_fails_for_non_existent_proposal =
     [SetBlockNumber 1,
      AssertNoop (Signed 1) (RejectProposal 999 (bytes ''Some reason'')) (Module ProposalDoesNotExist)]"

definition approve_proposal_fails_for_already_approved :: budget_test where
  "approve_proposal_fails_for_already_approved =
     [SetBlockNumber 1,
      AssertOk (Signed 1) (CreateProposal 1000 (bytes ''Some purpose'')),
      AssertOk (Signed 2) (ApproveProposal 0),
      AssertNoop (Signed 3) (ApproveProposal 0) (Module ProposalNotPending)]"

definition reject_proposal_fails_for_already_rejected :: budget_test where
  "reject_proposal_fails_for_already_rejected =
     [SetBlockNumber 1,
      AssertOk (Signed 1) (CreateProposal 1000 (bytes ''Some purpose'')),
      AssertOk (Signed 2) (RejectProposal 0 (bytes ''Budget issue'')),
      AssertNoop (Signed 3) (RejectProposal 0 (bytes ''Another reason'')) (Module ProposalNotPending)]"

definition reject_proposal_fails_for_approved_proposal :: budget_test where
  "reject_proposal_fails_for_approved_proposal =
     [SetBlockNumber 1,
      AssertOk (Signed 1) (CreateProposal 1000 (bytes ''Some purpose'')),
      AssertOk (Signed 2) (ApproveProposal 0),
      AssertNoop (Signed 3) (RejectProposal 0 (bytes ''Too late'')) (Module ProposalNotPending)]"

definition approve_proposal_fails_for_rejected_proposal :: budget_test where
  "approve_proposal_fails_for_rejected_proposal =
     [SetBlockNumber 1,
      AssertOk (Signed 1) (CreateProposal 1000 (bytes ''Some purpose'')),
      AssertOk (Signed 2) (RejectProposal 0 (bytes ''Not feasible'')),
      AssertNoop (Signed 3) (ApproveProposal 0) (Module ProposalNotPending)]"

definition multiple_proposals_have_sequential_ids :: budget_test where
  "multiple_proposals_have_sequential_ids =
     [SetBlockNumber 1,
      AssertOk (Signed 1) (CreateProposal 1000 (bytes ''First proposal'')),
      AssertOk (Signed 2) (CreateProposal 2000 (bytes ''Second proposal'')),
      AssertOk (Signed 3) (CreateProposal 3000 (bytes ''Third proposal'')),
      AssertOk (Signed 4) (ApproveProposal 0),
      AssertOk (Signed 5) (ApproveProposal 1),
      AssertOk (Signed 6) (ApproveProposal 2),
      AssertNoop (Signed 7) (ApproveProposal 3) (Module ProposalDoesNotExist)]"

definition different_users_can_create_proposals :: budget_test where
  "different_users_can_create_proposals =
     [SetBlockNumber 1,
      AssertOk (Signed 1) (CreateProposal 500 (bytes ''User 1 project'')),
      AssertOk (Signed 2) (CreateProposal 1500 (bytes ''User 2 project'')),
      AssertOk (Signed 3) (CreateProposal 2500 (bytes ''User 3 project'')),
      AssertOk (Signed 4) (ApproveProposal 0),
      AssertOk (Signed 5) (RejectProposal 1 (bytes ''Budget high'')),
      AssertOk (Signed 6) (ApproveProposal 2)]"

definition it_works_for_max_length_purpose :: budget_test where
  "it_works_for_max_length_purpose =
     [SetBlockNumber 1,
      AssertOk (Signed 1) (CreateProposal 1000 (rust_repeat 200 (bytes ''A''))),
      AssertLastEvent (BudgetProposalPallet (BudgetProposalCreated 0 1 1000 (rust_repeat 200 (bytes ''A''))))]"

definition it_works_for_max_length_reason :: budget_test where
  "it_works_for_max_length_reason =
     [SetBlockNumber 1,
      AssertOk (Signed 1) (CreateProposal 1000 (bytes ''Some purpose'')),
      AssertOk (Signed 2) (RejectProposal 0 (rust_repeat 100 (bytes ''X''))),
      AssertLastEvent (BudgetProposalPallet (BudgetProposalRejected 0 2 (rust_repeat 100 (bytes ''X''))))]"

definition it_works_for_large_amounts_budget :: budget_test where
  "it_works_for_large_amounts_budget =
     [SetBlockNumber 1,
      AssertOk (Signed 1) (CreateProposal (- 1) (bytes ''Large budget project'')),
      AssertLastEvent (BudgetProposalPallet (BudgetProposalCreated 0 1 (- 1) (bytes ''Large budget project'')))]"

definition budget_tests :: "budget_test list" where
  "budget_tests =
     [it_works_for_create_proposal, it_works_for_approve_proposal, it_works_for_reject_proposal,
      create_proposal_fails_for_empty_purpose, create_proposal_fails_for_too_long_purpose,
      reject_proposal_fails_for_empty_reason, reject_proposal_fails_for_too_long_reason,
      create_proposal_fails_for_unsigned_origin, approve_proposal_fails_for_unsigned_origin,
      reject_proposal_fails_for_unsigned_origin, approve_proposal_fails_for_non_existent_proposal,
      reject_proposal_fails_for_non_existent_proposal, approve_proposal_fails_for_already_approved,
      reject_proposal_fails_for_already_rejected, reject_proposal_fails_for_approved_proposal,
      approve_proposal_fails_for_rejected_proposal, multiple_proposals_have_sequential_ids,
      different_users_can_create_proposals, it_works_for_max_length_purpose,
      it_works_for_max_length_reason, it_works_for_large_amounts_budget]"


lemmas budget_test_defs = budget_tests_def it_works_for_create_proposal_def it_works_for_approve_proposal_def
  it_works_for_reject_proposal_def create_proposal_fails_for_empty_purpose_def
  create_proposal_fails_for_too_long_purpose_def
  reject_proposal_fails_for_empty_reason_def reject_proposal_fails_for_too_long_reason_def
  create_proposal_fails_for_unsigned_origin_def
  approve_proposal_fails_for_unsigned_origin_def
  reject_proposal_fails_for_unsigned_origin_def
  approve_proposal_fails_for_non_existent_proposal_def
  reject_proposal_fails_for_non_existent_proposal_def
  approve_proposal_fails_for_already_approved_def
  reject_proposal_fails_for_already_rejected_def
  reject_proposal_fails_for_approved_proposal_def
  approve_proposal_fails_for_rejected_proposal_def
  multiple_proposals_have_sequential_ids_def different_users_can_create_proposals_def
  it_works_for_max_length_purpose_def it_works_for_max_length_reason_def
  it_works_for_large_amounts_budget_def

subsection \<open>The pallet's events grow by appending\<close>

lemma budget_events_appended:
  "budget_dispatch prof n origin c s = Inr s' \<Longrightarrow> \<exists>new. budget_events s' = budget_events s @ new"
  by (cases c) (auto simp: create_proposal_Inr_iff approve_proposal_Inr_iff reject_proposal_Inr_iff )

end
