(* ===== verification/VotingTests.thy ===== *)
theory VotingTests
  imports CommunityVoting MockRuntime
begin

text \<open>
  The unit tests of the community-voting pallet (\<open>src/pallets/community-voting/src/tests.rs\<close>).
  The pallet's \<open>lib.rs\<close> declares neither \<open>mod mock\<close> nor \<open>mod tests\<close>, so these tests are
  never compiled; they are replayed here on a test chain of \<open>frame_system\<close> and
  \<open>CommunityVotingPallet\<close> modelled on the mock runtimes of the audit-log and
  government-wallet pallets (\<open>u64\<close> accounts and block numbers, the debug profile).
\<close>

subsection \<open>The mock runtime\<close>

datatype voting_runtime_event = CommunityVotingPallet "u64 voting_event"

definition voting_test_call ::
  "(u64, voting_call, voting_error, u64 voting_storage, voting_runtime_event) test_chain" where
  "voting_test_call = mock_call (voting_dispatch Debug) voting_events CommunityVotingPallet"

type_synonym voting_test = "(u64, voting_call, voting_error, voting_runtime_event) test_step list"

subsection \<open>The tests\<close>

definition it_works_for_start_voting :: voting_test where
  "it_works_for_start_voting =
     [SetBlockNumber 1,
      AssertOk (Signed 1) (StartVoting 1 10)]"

definition it_works_for_cast_vote :: voting_test where
  "it_works_for_cast_vote =
     [SetBlockNumber 1,
      AssertOk (Signed 1) (StartVoting 1 10),
      AssertOk (Signed 2) (CastVote 1 0),
      AssertLastEvent (CommunityVotingPallet (VoteCast 1 2 0))]"

definition it_works_for_end_voting :: voting_test where
  "it_works_for_end_voting =
     [SetBlockNumber 1,
      AssertOk (Signed 1) (StartVoting 1 5),
      AssertOk (Signed 2) (CastVote 1 0),
      AssertOk (Signed 3) (CastVote 1 0),
      AssertOk (Signed 4) (CastVote 1 1),
      SetBlockNumber 7,
      AssertOk (Signed 5) (EndVoting 1),
      AssertLastEvent (CommunityVotingPallet (VotingPeriodEndedEvent 1 0))]"

definition it_works_for_different_vote_types :: voting_test where
  "it_works_for_different_vote_types =
     [SetBlockNumber 1,
      AssertOk (Signed 1) (StartVoting 1 10),
      AssertOk (Signed 2) (CastVote 1 0),
      AssertLastEvent (CommunityVotingPallet (VoteCast 1 2 0)),
      AssertOk (Signed 3) (CastVote 1 1),
      AssertLastEvent (CommunityVotingPallet (VoteCast 1 3 1)),
      AssertOk (Signed 4) (CastVote 1 2),
      AssertLastEvent (CommunityVotingPallet (VoteCast 1 4 2))]"

definition cast_vote_fails_for_non_existent_proposal :: voting_test where
  "cast_vote_fails_for_non_existent_proposal =
     [SetBlockNumber 1,
      AssertNoop (Signed 1) (CastVote 999 0) (Module voting_error.ProposalDoesNotExist)]"

definition cast_vote_fails_for_invalid_vote :: voting_test where
  "cast_vote_fails_for_invalid_vote =
     [SetBlockNumber 1,
      AssertOk (Signed 1) (StartVoting 1 10),
      AssertNoop (Signed 2) (CastVote 1 3) (Module voting_error.ProposalDoesNotExist)]"

definition cast_vote_fails_for_already_voted :: voting_test where
  "cast_vote_fails_for_already_voted =
     [SetBlockNumber 1,
      AssertOk (Signed 1) (StartVoting 1 10),
      AssertOk (Signed 2) (CastVote 1 0),
      AssertNoop (Signed 2) (CastVote 1 1) (Module AlreadyVoted)]"

definition end_voting_fails_for_non_existent_proposal :: voting_test where
  "end_voting_fails_for_non_existent_proposal =
     [SetBlockNumber 1,
      AssertNoop (Signed 1) (EndVoting 999) (Module voting_error.ProposalDoesNotExist)]"

definition cast_vote_fails_when_voting_not_started :: voting_test where
  "cast_vote_fails_when_voting_not_started =
     [SetBlockNumber 1,
      AssertOk (Signed 1) (StartVoting 1 10),
      AssertOk (Signed 2) (CastVote 1 0)]"

definition cast_vote_fails_when_voting_ended :: voting_test where
  "cast_vote_fails_when_voting_ended =
     [SetBlockNumber 1,
      AssertOk (Signed 1) (StartVoting 1 5),
      SetBlockNumber 10,
      AssertNoop (Signed 2) (CastVote 1 0) (Module VotingPeriodEnded)]"

definition end_voting_fails_when_voting_not_ended :: voting_test where
  "end_voting_fails_when_voting_not_ended =
     [SetBlockNumber 1,
      AssertOk (Signed 1) (StartVoting 1 10),
      AssertNoop (Signed 2) (EndVoting 1) (Module VotingPeriodNotStarted)]"

definition start_voting_fails_for_unsigned_origin :: voting_test where
  "start_voting_fails_for_unsigned_origin =
     [SetBlockNumber 1,
      AssertNoop NoneOrigin (StartVoting 1 10) BadOrigin]"

definition cast_vote_fails_for_unsigned_origin :: voting_test where
  "cast_vote_fails_for_unsigned_origin =
     [SetBlockNumber 1,
      AssertOk (Signed 1) (StartVoting 1 10),
      AssertNoop NoneOrigin (CastVote 1 0) BadOrigin]"

definition end_voting_fails_for_unsigned_origin :: voting_test where
  "end_voting_fails_for_unsigned_origin =
     [SetBlockNumber 1,
      AssertNoop NoneOrigin (EndVoting 1) BadOrigin]"

definition multiple_proposals_can_exist :: voting_test where
  "multiple_proposals_can_exist =
     [SetBlockNumber 1,
      AssertOk (Signed 1) (StartVoting 1 10),
      AssertOk (Signed 2) (StartVoting 2 15),
      AssertOk (Signed 3) (StartVoting 3 20),
      AssertOk (Signed 4) (CastVote 1 0),
      AssertOk (Signed 5) (CastVote 2 1),
      AssertOk (Signed 6) (CastVote 3 2)]"

definition voting_result_passed :: voting_test where
  "voting_result_passed =
     [SetBlockNumber 1,
      AssertOk (Signed 1) (StartVoting 1 5),
      AssertOk (Signed 2) (CastVote 1 0),
      AssertOk (Signed 3) (CastVote 1 0),
      AssertOk (Signed 4) (CastVote 1 1),
      SetBlockNumber 10,
      AssertOk (Signed 5) (EndVoting 1),
      AssertLastEvent (CommunityVotingPallet (VotingPeriodEndedEvent 1 0))]"

definition voting_result_failed :: voting_test where
  "voting_result_failed =
     [SetBlockNumber 1,
      AssertOk (Signed 1) (StartVoting 1 5),
      AssertOk (Signed 2) (CastVote 1 0),
      AssertOk (Signed 3) (CastVote 1 1),
      AssertOk (Signed 4) (CastVote 1 1),
      SetBlockNumber 10,
      AssertOk (Signed 5) (EndVoting 1),
      AssertLastEvent (CommunityVotingPallet (VotingPeriodEndedEvent 1 1))]"

definition voting_result_no_quorum :: voting_test where
  "voting_result_no_quorum =
     [SetBlockNumber 1,
      AssertOk (Signed 1) (StartVoting 1 5),
      SetBlockNumber 10,
      AssertOk (Signed 2) (EndVoting 1),
      AssertLastEvent (CommunityVotingPallet (VotingPeriodEndedEvent 1 2))]"

definition voting_result_only_abstain_no_quorum :: voting_test where
  "voting_result_only_abstain_no_quorum =
     [SetBlockNumber 1,
      AssertOk (Signed 1) (StartVoting 1 5),
      AssertOk (Signed 2) (CastVote 1 2),
      AssertOk (Signed 3) (CastVote 1 2),
      SetBlockNumber 10,
      AssertOk (Signed 4) (EndVoting 1),
      AssertLastEvent (CommunityVotingPallet (VotingPeriodEndedEvent 1 2))]"

definition same_user_can_vote_on_different_proposals :: voting_test where
  "same_user_can_vote_on_different_proposals =
     [SetBlockNumber 1,
      AssertOk (Signed 1) (StartVoting 1 10),
      AssertOk (Signed 2) (StartVoting 2 10),
      AssertOk (Signed 3) (StartVoting 3 10),
      AssertOk (Signed 4) (CastVote 1 0),
      AssertOk (Signed 4) (CastVote 2 1),
      AssertOk (Signed 4) (CastVote 3 2)]"

definition voting_result_tie_fails :: voting_test where
  "voting_result_tie_fails =
     [SetBlockNumber 1,
      AssertOk (Signed 1) (StartVoting 1 5),
      AssertOk (Signed 2) (CastVote 1 0),
      AssertOk (Signed 3) (CastVote 1 1),
      AssertOk (Signed 4) (CastVote 1 0),
      AssertOk (Signed 5) (CastVote 1 1),
      SetBlockNumber 10,
      AssertOk (Signed 6) (EndVoting 1),
      AssertLastEvent (CommunityVotingPallet (VotingPeriodEndedEvent 1 1))]"

definition voting_at_exact_start_and_end_blocks :: voting_test where
  "voting_at_exact_start_and_end_blocks =
     [SetBlockNumber 1,
      AssertOk (Signed 1) (StartVoting 1 10),
      SetBlockNumber 1,
      AssertOk (Signed 2) (CastVote 1 0),
      SetBlockNumber 11,
      AssertOk (Signed 3) (CastVote 1 1),
      SetBlockNumber 12,
      AssertNoop (Signed 4) (CastVote 1 0) (Module VotingPeriodEnded)]"

definition end_voting_immediately_after_period :: voting_test where
  "end_voting_immediately_after_period =
     [SetBlockNumber 1,
      AssertOk (Signed 1) (StartVoting 1 5),
      AssertOk (Signed 2) (CastVote 1 0),
      SetBlockNumber 7,
      AssertOk (Signed 3) (EndVoting 1)]"

text \<open>\<open>for i in 2..12\<close>: account \<open>i\<close> votes \<open>(i % 3) as u8\<close>.\<close>

definition multiple_users_voting_same_proposal :: voting_test where
  "multiple_users_voting_same_proposal =
     [SetBlockNumber 1,
      AssertOk (Signed 1) (StartVoting 1 10)] @
     map (\<lambda>i. AssertOk (Signed (word_of_nat i)) (CastVote 1 (word_of_nat (i mod 3)))) [2..<12]"

definition very_long_voting_duration :: voting_test where
  "very_long_voting_duration =
     [SetBlockNumber 1,
      AssertOk (Signed 1) (StartVoting 1 100000)]"

definition voting_tests :: "voting_test list" where
  "voting_tests =
     [it_works_for_start_voting, it_works_for_cast_vote, it_works_for_end_voting,
      it_works_for_different_vote_types, cast_vote_fails_for_non_existent_proposal,
      cast_vote_fails_for_invalid_vote, cast_vote_fails_for_already_voted,
      end_voting_fails_for_non_existent_proposal, cast_vote_fails_when_voting_not_started,
      cast_vote_fails_when_voting_ended, end_voting_fails_when_voting_not_ended,
      start_voting_fails_for_unsigned_origin, cast_vote_fails_for_unsigned_origin,
      end_voting_fails_for_unsigned_origin, multiple_proposals_can_exist, voting_result_passed,
      voting_result_failed, voting_result_no_quorum, voting_result_only_abstain_no_quorum,
      same_user_can_vote_on_different_proposals, voting_result_tie_fails,
      voting_at_exact_start_and_end_blocks, end_voting_immediately_after_period,
      multiple_users_voting_same_proposal, very_long_voting_duration]"


lemmas voting_test_defs = voting_tests_def it_works_for_start_voting_def it_works_for_cast_vote_def
  it_works_for_end_voting_def it_works_for_different_vote_types_def
  cast_vote_fails_for_non_existent_proposal_def cast_vote_fails_for_invalid_vote_def
  cast_vote_fails_for_already_voted_def end_voting_fails_for_non_existent_proposal_def
  cast_vote_fails_when_voting_not_started_def cast_vote_fails_when_voting_ended_def
  end_voting_fails_when_voting_not_ended_def start_voting_fails_for_unsigned_origin_def
  cast_vote_fails_for_unsigned_origin_def end_voting_fails_for_unsigned_origin_def
  multiple_proposals_can_exist_def voting_result_passed_def voting_result_failed_def
  voting_result_no_quorum_def voting_result_only_abstain_no_quorum_def
  same_user_can_vote_on_different_proposals_def voting_result_tie_fails_def
  voting_at_exact_start_and_end_blocks_def end_voting_immediately_after_period_def
  multiple_users_voting_same_proposal_def very_long_voting_duration_def

subsection \<open>The pallet's events grow by appending\<close>

lemma voting_events_appended:
  "voting_dispatch prof n origin c s = Inr s' \<Longrightarrow> \<exists>new. voting_events s' = voting_events s @ new"
  by (cases c) (auto simp: start_voting_Inr_iff cast_vote_Inr_iff end_voting_Inr_iff )

end
