(* ===== verification/UnitTests.thy ===== *)
theory UnitTests
  imports AuditTests WalletTests BudgetTests VotingTests
begin

text \<open>
  The unit tests of the four pallets, replayed on their test chains: every test passes on
  the model of the code, including the tests of the community-voting pallet, which its crate
  never compiles.
\<close>

lemmas test_eval = mock_eval bounded_vec_def rust_add_def overflows_def bytes_def upt_rec Let_def

subsection \<open>Properties\<close>

text \<open>
  Every unit test of the repository passes: the 11 tests of the audit-log pallet, the 19 of
  the government-wallet pallet, the 21 of the budget-proposal pallet and the 25 of the
  community-voting pallet, each run from \<open>new_test_ext()\<close>, with every \<open>assert_ok!\<close>,
  \<open>assert_noop!\<close> and \<open>System::assert_last_event\<close> of its body holding.
\<close>

theorem unit_tests_pass:
  "list_all (test_passes audit_test_call audit_genesis) audit_tests \<and>
   list_all (test_passes wallet_test_call wallet_genesis) wallet_tests \<and>
   list_all (test_passes budget_test_call budget_genesis) budget_tests \<and>
   list_all (test_passes voting_test_call voting_genesis) voting_tests"
proof (intro conjI)
  show "list_all (test_passes audit_test_call audit_genesis) audit_tests"
    by (simp add: audit_test_defs test_eval audit_test_call_def log_activity_def get_audit_entry_def
        audit_genesis_def)
  show "list_all (test_passes wallet_test_call wallet_genesis) wallet_tests"
    by (simp add: wallet_test_defs test_eval wallet_test_call_def create_wallet_def allocate_funds_def
        wallet_genesis_def balance_get_def saturating_add_def)
  show "list_all (test_passes budget_test_call budget_genesis) budget_tests"
    by (simp add: budget_test_defs test_eval budget_test_call_def create_proposal_def
        approve_proposal_def reject_proposal_def budget_genesis_def)
  show "list_all (test_passes voting_test_call voting_genesis) voting_tests"
    by (simp add: voting_test_defs test_eval voting_test_call_def start_voting_def cast_vote_def
        end_voting_def voting_genesis_def vote_counts_get_def decode_vote_def tally_result_code_def
        default_tally_def)
qed

subsection \<open>Witnesses\<close>

theorem test_chain_refines_pallet_witness:
  "chain_refines (voting_dispatch Debug) voting_genesis voting_events CommunityVotingPallet
     (the (run_test voting_test_call it_works_for_end_voting (new_test_ext voting_genesis)))"
proof -
  have "run_test voting_test_call it_works_for_end_voting (new_test_ext voting_genesis) \<noteq> None"
    by (simp add: it_works_for_end_voting_def test_eval voting_test_call_def start_voting_def
        cast_vote_def end_voting_def voting_genesis_def vote_counts_get_def decode_vote_def
        tally_result_code_def default_tally_def)
  then obtain st where st: "run_test voting_test_call it_works_for_end_voting (new_test_ext voting_genesis) = Some st"
    by blast
  have "chain_refines (voting_dispatch Debug) voting_genesis voting_events CommunityVotingPallet st"
  proof (rule test_chain_refines_pallet)
    show "blocks_monotone 0 it_works_for_end_voting"
      by (simp add: it_works_for_end_voting_def)
    show "run_test (mock_call (voting_dispatch Debug) voting_events CommunityVotingPallet)
        it_works_for_end_voting (new_test_ext voting_genesis) = Some st"
      using st by (simp add: voting_test_call_def)
  qed (rule voting_events_appended)
  then show ?thesis
    using st by simp
qed

end
