(* ===== verification/Scale.thy ===== *)
theory Scale
  imports Prelude
begin

text \<open>
  The SCALE codec of \<open>parity-scale-codec\<close>, which FRAME uses for extrinsics and storage,
  on the types the pallets' calls take: fixed-width integers in little-endian order,
  \<open>Compact<u32>\<close> (the length prefix of a \<open>Vec\<close>), \<open>Vec<u8>\<close> and \<open>Option<T>\<close>. A
  decoder returns the value and the remaining input, or \<open>None\<close> for an error. The theory
  shows that each decoder inverts its encoder and accepts only canonical encodings.
\<close>

subsection \<open>Little-endian integers\<close>

text \<open>The \<open>k\<close> low bytes of a number, least significant first.\<close>

fun le_bytes :: "nat \<Rightarrow> nat \<Rightarrow> u8 list" where
  "le_bytes 0 x = []"
| "le_bytes (Suc k) x = word_of_nat (x mod 256) # le_bytes k (x div 256)"

fun le_nat :: "u8 list \<Rightarrow> nat" where
  "le_nat [] = 0"
| "le_nat (b # bs) = unat b + 256 * le_nat bs"

text \<open>\<open>Encode\<close> and \<open>Decode\<close> of \<open>u8\<close>, \<open>u64\<close> and \<open>u128\<close>: \<open>LENGTH div 8\<close> bytes.\<close>

definition encode_word :: "'a::len word \<Rightarrow> u8 list" where
  "encode_word w = le_bytes (LENGTH('a) div 8) (unat w)"

definition decode_word :: "u8 list \<Rightarrow> ('a::len word \<times> u8 list) option" where
  "decode_word bs =
     (let k = LENGTH('a) div 8 in
      if length bs < k then None else Some (word_of_nat (le_nat (take k bs)), drop k bs))"

subsection \<open>Compact lengths, byte vectors and options\<close>

text \<open>
  \<open>Compact<u32>\<close>: the two low bits of the first byte give the mode. A value below
  \<open>2 ^ 6\<close> takes one byte, below \<open>2 ^ 14\<close> two, below \<open>2 ^ 30\<close> four (each shifted left by
  two bits, the mode in the low bits); a larger one is the byte 3 followed by the value
  in four bytes. The decoder refuses a value in a mode wider than it needs.
\<close>

definition encode_compact :: "nat \<Rightarrow> u8 list" where
  "encode_compact n =
     (if n < 2 ^ 6 then le_bytes 1 (4 * n)
      else if n < 2 ^ 14 then le_bytes 2 (4 * n + 1)
      else if n < 2 ^ 30 then le_bytes 4 (4 * n + 2)
      else 3 # le_bytes 4 n)"

definition decode_compact :: "u8 list \<Rightarrow> (nat \<times> u8 list) option" where
  "decode_compact bs =
     (if bs = [] then None
      else let prefix = hd bs in
        if unat prefix mod 4 = 0 then Some (unat prefix div 4, tl bs)
        else if unat prefix mod 4 = 1 then
          (if length bs < 2 then None
           else let n = le_nat (take 2 bs) div 4 in if n < 2 ^ 6 then None else Some (n, drop 2 bs))
        else if unat prefix mod 4 = 2 then
          (if length bs < 4 then None
           else let n = le_nat (take 4 bs) div 4 in if n < 2 ^ 14 then None else Some (n, drop 4 bs))
        else if unat prefix div 4 \<noteq> 0 \<or> length bs < 5 then None
        else let n = le_nat (take 4 (tl bs)) in if n < 2 ^ 30 then None else Some (n, drop 5 bs))"

definition encode_vec :: "u8 list \<Rightarrow> u8 list" where
  "encode_vec xs = encode_compact (length xs) @ xs"

definition decode_vec :: "u8 list \<Rightarrow> (u8 list \<times> u8 list) option" where
  "decode_vec bs =
     (case decode_compact bs of
        None \<Rightarrow> None
      | Some (n, rest) \<Rightarrow> if length rest < n then None else Some (take n rest, drop n rest))"

primrec encode_option :: "('a \<Rightarrow> u8 list) \<Rightarrow> 'a option \<Rightarrow> u8 list" where
  "encode_option enc None = [0]"
| "encode_option enc (Some x) = 1 # enc x"

definition decode_option ::
  "(u8 list \<Rightarrow> ('a \<times> u8 list) option) \<Rightarrow> u8 list \<Rightarrow> ('a option \<times> u8 list) option" where
  "decode_option dec bs =
     (case bs of
        [] \<Rightarrow> None
      | b # rest \<Rightarrow>
        if b = 0 then Some (None, rest)
        else if b = 1 then map_option (\<lambda>(x, r). (Some x, r)) (dec rest)
        else None)"

subsection \<open>Codecs\<close>

text \<open>
  A decoder inverts an encoder on the values \<open>ok\<close> admits: it decodes the encoding of such
  a value followed by any input, and whatever it decodes is such a value and the input is
  its encoding followed by the rest.
\<close>

definition codec :: "('a \<Rightarrow> bool) \<Rightarrow> ('a \<Rightarrow> u8 list) \<Rightarrow> (u8 list \<Rightarrow> ('a \<times> u8 list) option) \<Rightarrow> bool" where
  "codec ok enc dec \<longleftrightarrow>
     (\<forall>x r. ok x \<longrightarrow> dec (enc x @ r) = Some (x, r)) \<and>
     (\<forall>bs x r. dec bs = Some (x, r) \<longrightarrow> ok x \<and> bs = enc x @ r)"

text \<open>A \<open>Vec<u8>\<close> argument has a \<open>Compact<u32>\<close> length.\<close>

definition short :: "'a list \<Rightarrow> bool" where
  "short xs \<longleftrightarrow> length xs < 2 ^ 32"


subsection \<open>Little-endian integers: lemmas\<close>

lemma length_le_bytes [simp]: "length (le_bytes k x) = k"
  by (induction k arbitrary: x) simp_all

lemma le_bytes_numeral:
  "le_bytes (numeral k) x = word_of_nat (x mod 256) # le_bytes (pred_numeral k) (x div 256)"
  by (subst numeral_eq_Suc) (rule le_bytes.simps(2))

lemma le_bytes_Nil_iff [simp]: "le_bytes k x = [] \<longleftrightarrow> k = 0"
  by (metis length_0_conv length_le_bytes)

lemma unat_small_byte [simp]: "x < 256 \<Longrightarrow> unat (word_of_nat x :: u8) = x"
  by (simp add: unat_of_nat)

lemma unat_byte [simp]: "unat (word_of_nat (x mod 256) :: u8) = x mod 256"
  by (simp add: unat_of_nat)

lemma le_nat_le_bytes: "le_nat (le_bytes k x) = x mod 256 ^ k"
  by (induction k arbitrary: x) (simp_all add: mod_mult2_eq)

lemma unat_u8_less: "unat (b :: u8) < 256"
  using unsigned_less [of b] by simp

lemma le_nat_less: "le_nat bs < 256 ^ length bs"
proof (induction bs)
  case Nil
  then show ?case by simp
next
  case (Cons b bs)
  have "unat b + 256 * le_nat bs < 256 + 256 * le_nat bs"
    using unat_u8_less [of b] by simp
  also have "\<dots> \<le> 256 * 256 ^ length bs"
    using Cons.IH by simp
  finally show ?case by simp
qed

lemma le_bytes_le_nat: "le_bytes (length bs) (le_nat bs) = bs"
proof (induction bs)
  case Nil
  then show ?case by simp
next
  case (Cons b bs)
  have "(unat b + 256 * le_nat bs) mod 256 = unat b" and "(unat b + 256 * le_nat bs) div 256 = le_nat bs"
    using unat_u8_less [of b] by simp_all
  then show ?case
    using Cons.IH by simp
qed

lemma mod4_add_256 [simp]: "(a + 256 * c) mod 4 = a mod (4::nat)"
  by presburger

lemma le_nat_Cons_mod4: "le_nat (b # bs) mod 4 = unat b mod 4"
  by simp

lemma byte_pow_len:
  assumes "8 dvd LENGTH('a::len)"
  shows "(256::nat) ^ (LENGTH('a) div 8) = 2 ^ LENGTH('a)"
proof -
  have "(256::nat) ^ (LENGTH('a) div 8) = 2 ^ (8 * (LENGTH('a) div 8))"
    by (simp add: power_mult)
  also have "8 * (LENGTH('a) div 8) = LENGTH('a)"
    using assms by simp
  finally show ?thesis .
qed

lemma decode_encode_word [simp]:
  assumes "8 dvd LENGTH('a::len)"
  shows "decode_word (encode_word (w :: 'a word) @ r) = Some (w, r)"
proof -
  have "unat w < 256 ^ (LENGTH('a) div 8)"
    using unsigned_less [of w] byte_pow_len [OF assms] by simp
  then show ?thesis
    by (simp add: decode_word_def encode_word_def le_nat_le_bytes)
qed

lemma decode_word_canonical:
  assumes "decode_word bs = Some (w :: 'a::len word, r)" and "8 dvd LENGTH('a)"
  shows "bs = encode_word w @ r"
proof -
  let ?k = "LENGTH('a) div 8"
  have k: "?k \<le> length bs" and w: "w = word_of_nat (le_nat (take ?k bs))" and r: "r = drop ?k bs"
    using assms(1) by (auto simp: decode_word_def Let_def split: if_splits)
  have "le_nat (take ?k bs) < 2 ^ LENGTH('a)"
    using le_nat_less [of "take ?k bs"] k byte_pow_len [OF assms(2)] by simp
  then have "unat w = le_nat (take ?k bs)"
    by (simp add: w unat_of_nat)
  moreover have "length (take ?k bs) = ?k"
    using k by simp
  ultimately have "encode_word w = take ?k bs"
    using le_bytes_le_nat [of "take ?k bs"] by (simp add: encode_word_def)
  then show ?thesis
    by (simp add: r)
qed


subsection \<open>Compact lengths: lemmas\<close>

lemma hd_le_bytes: "0 < k \<Longrightarrow> hd (le_bytes k x) = word_of_nat (x mod 256)"
  by (cases k) simp_all

lemma mod256_mod4 [simp]: "x mod 256 mod 4 = x mod (4::nat)"
  by (simp add: mod_mod_cancel)

lemma unat_byte_mod4: "unat (word_of_nat (x mod 256) :: u8) mod 4 = x mod 4"
  by simp

lemma le_nat_take_le_bytes: "le_nat (take k (le_bytes k x @ r)) = x mod 256 ^ k"
  by (simp add: le_nat_le_bytes)

lemma decode_compact_mode0:
  assumes "x mod 4 = 0" "x < 256"
  shows "decode_compact (le_bytes 1 x @ r) = Some (x div 4, r)"
  using assms by (simp add: decode_compact_def hd_le_bytes unat_byte_mod4 Let_def)

lemma decode_compact_mode1:
  assumes "x mod 4 = 1" "x < 2 ^ 16" "2 ^ 6 \<le> x div 4"
  shows "decode_compact (le_bytes 2 x @ r) = Some (x div 4, r)"
  using assms by (simp add: decode_compact_def hd_le_bytes unat_byte_mod4 le_nat_le_bytes Let_def)

lemma decode_compact_mode2:
  assumes "x mod 4 = 2" "x < 2 ^ 32" "2 ^ 14 \<le> x div 4"
  shows "decode_compact (le_bytes 4 x @ r) = Some (x div 4, r)"
  using assms by (simp add: decode_compact_def hd_le_bytes unat_byte_mod4 le_nat_le_bytes Let_def)

lemma decode_compact_mode3:
  assumes "2 ^ 30 \<le> x" "x < 2 ^ 32"
  shows "decode_compact (3 # le_bytes 4 x @ r) = Some (x, r)"
  using assms by (simp add: decode_compact_def le_nat_le_bytes Let_def)

lemma decode_encode_compact:
  assumes "n < 2 ^ 32"
  shows "decode_compact (encode_compact n @ r) = Some (n, r)"
proof -
  consider "n < 2 ^ 6" | "2 ^ 6 \<le> n" "n < 2 ^ 14" | "2 ^ 14 \<le> n" "n < 2 ^ 30" | "2 ^ 30 \<le> n"
    by linarith
  then show ?thesis
  proof cases
    case 1
    define x where "x = 4 * n"
    have "x mod 4 = 0" "x < 256" "x div 4 = n" "encode_compact n = le_bytes 1 x"
      using 1 by (simp_all add: x_def encode_compact_def)
    then show ?thesis
      using decode_compact_mode0 [of x r] by simp
  next
    case 2
    define x where "x = 4 * n + 1"
    have "x mod 4 = 1" "x < 2 ^ 16" "x div 4 = n" "encode_compact n = le_bytes 2 x"
      using 2 by (simp_all add: x_def encode_compact_def)
    then show ?thesis
      using decode_compact_mode1 [of x r] 2 by simp
  next
    case 3
    define x where "x = 4 * n + 2"
    have "x mod 4 = 2"
      unfolding x_def by presburger
    moreover have "x < 2 ^ 32" "x div 4 = n" "encode_compact n = le_bytes 4 x"
      using 3 by (simp_all add: x_def encode_compact_def)
    ultimately show ?thesis
      using decode_compact_mode2 [of x r] 3 by simp
  next
    case 4
    then show ?thesis
      using decode_compact_mode3 [of n r] assms by (simp add: encode_compact_def)
  qed
qed


lemma le_bytes_one: "le_bytes 1 x = [word_of_nat (x mod 256)]"
  by (simp add: One_nat_def)

lemma le_nat_take_mod4: "0 < k \<Longrightarrow> bs \<noteq> [] \<Longrightarrow> le_nat (take k bs) mod 4 = unat (hd bs) mod 4"
  by (cases bs; cases k) simp_all

lemma le_bytes_take:
  assumes "k \<le> length bs"
  shows "le_bytes k (le_nat (take k bs)) = take k bs"
proof -
  have "length (take k bs) = k"
    using assms by simp
  then show ?thesis
    using le_bytes_le_nat [of "take k bs"] by simp
qed

lemma le_nat_take_less:
  assumes "k \<le> length bs"
  shows "le_nat (take k bs) < 256 ^ k"
proof -
  have "length (take k bs) = k"
    using assms by simp
  then show ?thesis
    using le_nat_less [of "take k bs"] by simp
qed

lemma decode_compact_canonical:
  assumes "decode_compact bs = Some (n, r)"
  shows "n < 2 ^ 32 \<and> bs = encode_compact n @ r"
proof -
  have ne: "bs \<noteq> []"
    using assms by (simp add: decode_compact_def split: if_splits)
  define b where "b = hd bs"
  have bs: "bs = b # tl bs"
    using ne by (simp add: b_def)
  have "unat b mod 4 < 4"
    by simp
  then consider "unat b mod 4 = 0" | "unat b mod 4 = 1" | "unat b mod 4 = 2" | "unat b mod 4 = 3"
    by linarith
  then show ?thesis
  proof cases
    case 1
    then have n: "n = unat b div 4" and r: "r = tl bs"
      using assms ne by (auto simp: decode_compact_def b_def)
    have "4 * n = unat b"
      using 1 n div_mult_mod_eq [of "unat b" 4] by simp
    moreover have "unat b < 256"
      by (rule unat_u8_less)
    ultimately have "n < 2 ^ 6" and "encode_compact n = [b]"
      by (simp_all add: encode_compact_def le_bytes_one)
    then show ?thesis
      using bs r by simp
  next
    case 2
    define x where "x = le_nat (take 2 bs)"
    have len: "2 \<le> length bs" and n: "n = x div 4" and lo: "2 ^ 6 \<le> n" and r: "r = drop 2 bs"
      using assms ne 2 by (auto simp: decode_compact_def b_def x_def Let_def split: if_splits)
    have "x < 2 ^ 16"
      using le_nat_take_less [OF len] by (simp add: x_def)
    moreover have "x mod 4 = 1"
      using le_nat_take_mod4 [of 2 bs] ne 2 by (simp add: x_def b_def)
    ultimately have "n < 2 ^ 14" and "4 * n + 1 = x"
      using n div_mult_mod_eq [of x 4] by simp_all
    then have "encode_compact n = take 2 bs"
      using lo le_bytes_take [OF len] by (simp add: encode_compact_def x_def)
    then show ?thesis
      using \<open>n < 2 ^ 14\<close> r by simp
  next
    case 3
    define x where "x = le_nat (take 4 bs)"
    have len: "4 \<le> length bs" and n: "n = x div 4" and lo: "2 ^ 14 \<le> n" and r: "r = drop 4 bs"
      using assms ne 3 by (auto simp: decode_compact_def b_def x_def Let_def split: if_splits)
    have "x < 2 ^ 32"
      using le_nat_take_less [OF len] by (simp add: x_def)
    moreover have "x mod 4 = 2"
      using le_nat_take_mod4 [of 4 bs] ne 3 by (simp add: x_def b_def)
    ultimately have "n < 2 ^ 30" and "4 * n + 2 = x"
      using n div_mult_mod_eq [of x 4] by simp_all
    then have "encode_compact n = take 4 bs"
      using lo le_bytes_take [OF len] by (simp add: encode_compact_def x_def)
    then show ?thesis
      using \<open>n < 2 ^ 30\<close> r by simp
  next
    case 4
    define x where "x = le_nat (take 4 (tl bs))"
    have b0: "unat b div 4 = 0" and len: "4 \<le> length (tl bs)" and n: "n = x" and lo: "2 ^ 30 \<le> n"
      and r: "r = drop 5 bs"
      using assms ne 4 by (auto simp: decode_compact_def b_def x_def Let_def split: if_splits)
    have "unat b = 3"
      using 4 b0 div_mult_mod_eq [of "unat b" 4] by simp
    then have "b = 3"
      by (simp add: word_unat_eq_iff)
    have "x < 2 ^ 32"
      using le_nat_take_less [OF len] by (simp add: x_def)
    then have "encode_compact n = 3 # take 4 (tl bs)"
      using lo le_bytes_take [OF len] by (simp add: encode_compact_def x_def n)
    moreover have "drop 5 bs = drop 4 (tl bs)"
      by (subst bs) simp
    ultimately show ?thesis
      using \<open>x < 2 ^ 32\<close> n r bs \<open>b = 3\<close> by simp
  qed
qed


subsection \<open>Codecs of the primitive types\<close>

lemma codecI:
  assumes "\<And>x r. ok x \<Longrightarrow> dec (enc x @ r) = Some (x, r)"
    and "\<And>bs x r. dec bs = Some (x, r) \<Longrightarrow> ok x \<and> bs = enc x @ r"
  shows "codec ok enc dec"
  using assms unfolding codec_def by blast

lemma codec_decode: "codec ok enc dec \<Longrightarrow> ok x \<Longrightarrow> dec (enc x @ r) = Some (x, r)"
  unfolding codec_def by blast

lemma codec_canonical: "dec bs = Some (x, r) \<Longrightarrow> codec ok enc dec \<Longrightarrow> ok x \<and> bs = enc x @ r"
  unfolding codec_def by blast

lemma codec_word: "8 dvd LENGTH('a::len) \<Longrightarrow> codec (\<lambda>_. True) (encode_word :: 'a word \<Rightarrow> u8 list) decode_word"
  by (rule codecI) (auto dest: decode_word_canonical)

lemma decode_encode_vec [simp]: "short xs \<Longrightarrow> decode_vec (encode_vec xs @ r) = Some (xs, r)"
  by (simp add: short_def decode_vec_def encode_vec_def decode_encode_compact)

lemma decode_vec_canonical:
  assumes "decode_vec bs = Some (xs, r)"
  shows "short xs \<and> bs = encode_vec xs @ r"
proof -
  obtain n rest where c: "decode_compact bs = Some (n, rest)" and le: "n \<le> length rest"
    and xs: "xs = take n rest" and r: "r = drop n rest"
    using assms by (auto simp: decode_vec_def split: option.splits if_splits)
  have "n < 2 ^ 32 \<and> bs = encode_compact n @ rest"
    using c by (rule decode_compact_canonical)
  moreover have "length xs = n"
    using le xs by simp
  ultimately show ?thesis
    by (simp add: short_def encode_vec_def xs r)
qed

lemma codec_vec: "codec short encode_vec decode_vec"
  by (rule codecI) (simp_all add: decode_vec_canonical)

lemma codec_option:
  assumes "codec ok enc dec"
  shows "codec (case_option True ok) (encode_option enc) (decode_option dec)"
proof (rule codecI)
  fix x r
  assume "case_option True ok x"
  then show "decode_option dec (encode_option enc x @ r) = Some (x, r)"
    using codec_decode [OF assms] by (cases x) (simp_all add: decode_option_def)
next
  fix bs x r
  assume d: "decode_option dec bs = Some (x, r)"
  then obtain b rest where bs: "bs = b # rest"
    by (cases bs) (simp_all add: decode_option_def)
  show "case_option True ok x \<and> bs = encode_option enc x @ r"
  proof (cases "b = 0")
    case True
    then show ?thesis
      using d bs by (simp add: decode_option_def)
  next
    case False
    then obtain y where b1: "b = 1" and y: "dec rest = Some (y, r)" and x: "x = Some y"
      using d bs by (auto simp: decode_option_def split: if_splits)
    then show ?thesis
      using codec_canonical [OF y assms] bs by simp
  qed
qed

lemma decode_encode_option:
  "codec (\<lambda>_. True) enc dec \<Longrightarrow> decode_option dec (encode_option enc x @ r) = Some (x, r)"
  by (cases x) (simp_all add: decode_option_def codec_decode)

lemma codec_u64: "codec (\<lambda>_. True) (encode_word :: u64 \<Rightarrow> u8 list) decode_word"
  by (rule codec_word) simp

end
