(* ===== verification/CallCodec.thy ===== *)
theory CallCodec
  imports Scale CommunityVoting BudgetProposal AuditLog GovernmentWallet "HOL-Library.Monad_Syntax"
begin

text \<open>
  The SCALE encoding of the pallets' calls, as an extrinsic carries them. The \<open>Call\<close> enum
  that \<open>#[pallet::call]\<close> derives from each pallet is encoded as the call index of the
  variant (\<open>#[pallet::call_index(i)]\<close>) followed by the arguments of the dispatchable in
  order. The theory shows that the decoder of every pallet's calls inverts the encoder.
\<close>

subsection \<open>The calls of the pallets\<close>

text \<open>
  Each \<open>Call\<close> variant is its \<open>#[pallet::call_index]\<close> byte followed by the arguments of
  the dispatchable after \<open>origin\<close>. Accounts are encoded by the runtime's account codec,
  a parameter here (the test chains use \<open>u64\<close> accounts).
\<close>

fun encode_voting_call :: "voting_call \<Rightarrow> u8 list" where
  "encode_voting_call (StartVoting p d) = 0 # encode_word p @ encode_word d"
| "encode_voting_call (CastVote p v) = 1 # encode_word p @ encode_word v"
| "encode_voting_call (EndVoting p) = 2 # encode_word p"

definition decode_voting_call :: "u8 list \<Rightarrow> (voting_call \<times> u8 list) option" where
  "decode_voting_call bs =
     (case bs of
        [] \<Rightarrow> None
      | i # r \<Rightarrow>
        if i = 0 then do { (p, r1) \<leftarrow> decode_word r; (d, r2) \<leftarrow> decode_word r1; Some (StartVoting p d, r2) }
        else if i = 1 then do { (p, r1) \<leftarrow> decode_word r; (v, r2) \<leftarrow> decode_word r1; Some (CastVote p v, r2) }
        else if i = 2 then do { (p, r1) \<leftarrow> decode_word r; Some (EndVoting p, r1) }
        else None)"

fun encode_budget_call :: "budget_call \<Rightarrow> u8 list" where
  "encode_budget_call (CreateProposal a purp) = 0 # encode_word a @ encode_vec purp"
| "encode_budget_call (ApproveProposal p) = 1 # encode_word p"
| "encode_budget_call (RejectProposal p reason) = 2 # encode_word p @ encode_vec reason"

definition decode_budget_call :: "u8 list \<Rightarrow> (budget_call \<times> u8 list) option" where
  "decode_budget_call bs =
     (case bs of
        [] \<Rightarrow> None
      | i # r \<Rightarrow>
        if i = 0 then do { (a, r1) \<leftarrow> decode_word r; (purp, r2) \<leftarrow> decode_vec r1; Some (CreateProposal a purp, r2) }
        else if i = 1 then do { (p, r1) \<leftarrow> decode_word r; Some (ApproveProposal p, r1) }
        else if i = 2 then do { (p, r1) \<leftarrow> decode_word r; (reason, r2) \<leftarrow> decode_vec r1; Some (RejectProposal p reason, r2) }
        else None)"

fun encode_audit_call :: "('acc \<Rightarrow> u8 list) \<Rightarrow> 'acc audit_call \<Rightarrow> u8 list" where
  "encode_audit_call enc (LogActivity act det rp rw) =
     0 # encode_vec act @ encode_vec det @ encode_option encode_word rp @ encode_option enc rw"
| "encode_audit_call enc (GetAuditEntry i) = 1 # encode_word i"

definition decode_audit_call ::
  "(u8 list \<Rightarrow> ('acc \<times> u8 list) option) \<Rightarrow> u8 list \<Rightarrow> ('acc audit_call \<times> u8 list) option" where
  "decode_audit_call dec bs =
     (case bs of
        [] \<Rightarrow> None
      | i # r \<Rightarrow>
        if i = 0 then
          do { (act, r1) \<leftarrow> decode_vec r; (det, r2) \<leftarrow> decode_vec r1; (rp, r3) \<leftarrow> decode_option decode_word r2;
               (rw, r4) \<leftarrow> decode_option dec r3; Some (LogActivity act det rp rw, r4) }
        else if i = 1 then do { (e, r1) \<leftarrow> decode_word r; Some (GetAuditEntry e, r1) }
        else None)"

fun encode_wallet_call :: "('acc \<Rightarrow> u8 list) \<Rightarrow> 'acc wallet_call \<Rightarrow> u8 list" where
  "encode_wallet_call enc (CreateWallet w dept) = 0 # enc w @ encode_vec dept"
| "encode_wallet_call enc (AllocateFunds w a purp) = 1 # enc w @ encode_word a @ encode_vec purp"

definition decode_wallet_call ::
  "(u8 list \<Rightarrow> ('acc \<times> u8 list) option) \<Rightarrow> u8 list \<Rightarrow> ('acc wallet_call \<times> u8 list) option" where
  "decode_wallet_call dec bs =
     (case bs of
        [] \<Rightarrow> None
      | i # r \<Rightarrow>
        if i = 0 then do { (w, r1) \<leftarrow> dec r; (dept, r2) \<leftarrow> decode_vec r1; Some (CreateWallet w dept, r2) }
        else if i = 1 then
          do { (w, r1) \<leftarrow> dec r; (a, r2) \<leftarrow> decode_word r1; (purp, r3) \<leftarrow> decode_vec r2;
               Some (AllocateFunds w a purp, r3) }
        else None)"

fun budget_call_ok :: "budget_call \<Rightarrow> bool" where
  "budget_call_ok (CreateProposal a purp) = short purp"
| "budget_call_ok (ApproveProposal p) = True"
| "budget_call_ok (RejectProposal p reason) = short reason"

fun audit_call_ok :: "'acc audit_call \<Rightarrow> bool" where
  "audit_call_ok (LogActivity act det rp rw) = (short act \<and> short det)"
| "audit_call_ok (GetAuditEntry i) = True"

fun wallet_call_ok :: "'acc wallet_call \<Rightarrow> bool" where
  "wallet_call_ok (CreateWallet w dept) = short dept"
| "wallet_call_ok (AllocateFunds w a purp) = short purp"


subsection \<open>Properties\<close>

text \<open>
  SCALE decoding inverts the encoding of every pallet call. For any account codec that
  round-trips, decoding the encoding of a call (whose byte-string arguments are shorter
  than \<open>2 ^ 32\<close>, the range of their \<open>Compact<u32>\<close> length) followed by any input gives
  back the call and that input; and every call the decoder accepts is such a call, the
  input starting with exactly its encoding, so no call has two encodings.
\<close>

theorem calls_scale_roundtrip:
  assumes acc: "codec (\<lambda>_. True) enc dec"
  shows "codec (\<lambda>_. True) encode_voting_call decode_voting_call \<and>
    codec budget_call_ok encode_budget_call decode_budget_call \<and>
    codec audit_call_ok (encode_audit_call enc) (decode_audit_call dec) \<and>
    codec wallet_call_ok (encode_wallet_call enc) (decode_wallet_call dec)"
proof (intro conjI)
  show "codec (\<lambda>_. True) encode_voting_call decode_voting_call"
  proof (rule codecI)
    show "decode_voting_call (encode_voting_call c @ r) = Some (c, r)" for c r
      by (cases c) (simp_all add: decode_voting_call_def)
    show "True \<and> bs = encode_voting_call c @ r" if "decode_voting_call bs = Some (c, r)" for bs c r
      using that by (auto simp: decode_voting_call_def bind_eq_Some_conv split: list.splits if_splits
          dest!: decode_word_canonical)
  qed
  show "codec budget_call_ok encode_budget_call decode_budget_call"
  proof (rule codecI)
    show "decode_budget_call (encode_budget_call c @ r) = Some (c, r)" if "budget_call_ok c" for c r
      using that by (cases c) (simp_all add: decode_budget_call_def)
    show "budget_call_ok c \<and> bs = encode_budget_call c @ r" if "decode_budget_call bs = Some (c, r)" for bs c r
      using that by (auto simp: decode_budget_call_def bind_eq_Some_conv split: list.splits if_splits
          dest!: decode_word_canonical decode_vec_canonical)
  qed
  show "codec audit_call_ok (encode_audit_call enc) (decode_audit_call dec)"
  proof (rule codecI)
    show "decode_audit_call dec (encode_audit_call enc c @ r) = Some (c, r)" if "audit_call_ok c" for c r
      using that decode_encode_option [OF acc] decode_encode_option [OF codec_u64]
      by (cases c) (simp_all add: decode_audit_call_def)
    show "audit_call_ok c \<and> bs = encode_audit_call enc c @ r" if "decode_audit_call dec bs = Some (c, r)" for bs c r
      using that by (auto simp: decode_audit_call_def bind_eq_Some_conv split: list.splits if_splits
          dest!: decode_word_canonical decode_vec_canonical codec_canonical [OF _ codec_option [OF acc]]
            codec_canonical [OF _ codec_option [OF codec_u64]])
  qed
  show "codec wallet_call_ok (encode_wallet_call enc) (decode_wallet_call dec)"
  proof (rule codecI)
    show "decode_wallet_call dec (encode_wallet_call enc c @ r) = Some (c, r)" if "wallet_call_ok c" for c r
      using that codec_decode [OF acc] by (cases c) (simp_all add: decode_wallet_call_def)
    show "wallet_call_ok c \<and> bs = encode_wallet_call enc c @ r" if "decode_wallet_call dec bs = Some (c, r)" for bs c r
      using that by (auto simp: decode_wallet_call_def bind_eq_Some_conv split: list.splits if_splits
          dest!: decode_word_canonical decode_vec_canonical codec_canonical [OF _ acc])
  qed
qed


subsection \<open>Witnesses\<close>

theorem calls_scale_roundtrip_witness:
  "encode_voting_call (CastVote 1 2) = [1, 1, 0, 0, 0, 0, 0, 0, 0, 2] \<and>
   decode_voting_call (encode_voting_call (CastVote 1 2) @ [7]) = Some (CastVote 1 2, [7]) \<and>
   decode_audit_call decode_word
     (encode_audit_call encode_word
        (LogActivity (bytes ''LOGIN'') (bytes ''User logged in'') (Some 100) (Some (42 :: u64))) @ [7]) =
   Some (LogActivity (bytes ''LOGIN'') (bytes ''User logged in'') (Some 100) (Some (42 :: u64)), [7])"
proof -
  have v: "codec (\<lambda>_. True) encode_voting_call decode_voting_call"
    and a: "codec audit_call_ok (encode_audit_call (encode_word :: u64 \<Rightarrow> u8 list)) (decode_audit_call decode_word)"
    using calls_scale_roundtrip [OF codec_u64] by blast+
  have e: "encode_voting_call (CastVote 1 2) = [1, 1, 0, 0, 0, 0, 0, 0, 0, 2]"
    by (simp add: encode_word_def le_bytes_numeral le_bytes_one)
  have d1: "decode_voting_call (encode_voting_call (CastVote 1 2) @ [7]) = Some (CastVote 1 2, [7])"
    by (rule codec_decode [OF v]) (rule TrueI)
  have d2: "decode_audit_call decode_word
     (encode_audit_call encode_word
        (LogActivity (bytes ''LOGIN'') (bytes ''User logged in'') (Some 100) (Some (42 :: u64))) @ [7]) =
     Some (LogActivity (bytes ''LOGIN'') (bytes ''User logged in'') (Some 100) (Some (42 :: u64)), [7])"
  proof (rule codec_decode [OF a])
    show "audit_call_ok (LogActivity (bytes ''LOGIN'') (bytes ''User logged in'') (Some 100) (Some (42 :: u64)))"
      by (simp add: short_def bytes_def)
  qed
  from e d1 d2 show ?thesis
    by (intro conjI)
qed

end
