(* ===== verification/StorageCodec.thy ===== *)
theory StorageCodec
  imports Scale Runtime "HOL-Library.Monad_Syntax"
begin

text \<open>
  The SCALE encoding of the values the pallets store: the structs and enums that derive
  \<open>Encode\<close>, \<open>Decode\<close> and \<open>MaxEncodedLen\<close> (\<open>AuditEntry\<close>, \<open>ProposalDetails\<close> with
  \<open>ProposalStatus\<close>, \<open>WalletDetails\<close>, \<open>VoteChoice\<close>, \<open>VoteTally\<close>, \<open>VotingPeriod\<close>).
  A derived struct encoding is the concatenation of its fields' encodings in declaration
  order, a derived enum encoding is the variant index as one byte, and the derived
  \<open>MaxEncodedLen\<close> is the sum of the fields' bounds. A \<open>BoundedVec<u8, ConstU32<N>>\<close> is
  encoded as a \<open>Vec<u8>\<close>; its decoder refuses more than \<open>N\<close> bytes and its bound is the
  length of \<open>Compact(N)\<close> plus \<open>N\<close>. The theory shows that every stored value decodes back
  from its encoding and that in every reachable state of the runtime each stored value
  encodes within its \<open>MaxEncodedLen\<close>, the bound FRAME uses to size storage proofs.
\<close>

subsection \<open>Bounded byte vectors\<close>

definition decode_bounded :: "nat \<Rightarrow> u8 list \<Rightarrow> (u8 list \<times> u8 list) option" where
  "decode_bounded bound bs =
     (case decode_vec bs of
        None \<Rightarrow> None
      | Some (xs, r) \<Rightarrow> if bound < length xs then None else Some (xs, r))"

text \<open>\<open>Compact::<u32>::compact_len\<close>: the length of the encoding of a compact value.\<close>

definition compact_len :: "nat \<Rightarrow> nat" where
  "compact_len n = (if n < 2 ^ 6 then 1 else if n < 2 ^ 14 then 2 else if n < 2 ^ 30 then 4 else 5)"

definition bounded_max_len :: "nat \<Rightarrow> nat" where
  "bounded_max_len bound = compact_len bound + bound"

subsection \<open>The stored structs and enums\<close>

primrec encode_proposal_status :: "proposal_status \<Rightarrow> u8 list" where
  "encode_proposal_status Pending = [0]"
| "encode_proposal_status Approved = [1]"
| "encode_proposal_status Rejected = [2]"

definition decode_proposal_status :: "u8 list \<Rightarrow> (proposal_status \<times> u8 list) option" where
  "decode_proposal_status bs =
     (case bs of
        [] \<Rightarrow> None
      | i # r \<Rightarrow> if i = 0 then Some (Pending, r) else if i = 1 then Some (Approved, r)
                 else if i = 2 then Some (Rejected, r) else None)"

primrec encode_vote_choice :: "vote_choice \<Rightarrow> u8 list" where
  "encode_vote_choice Yes = [0]"
| "encode_vote_choice No = [1]"
| "encode_vote_choice Abstain = [2]"

definition decode_vote_choice :: "u8 list \<Rightarrow> (vote_choice \<times> u8 list) option" where
  "decode_vote_choice bs =
     (case bs of
        [] \<Rightarrow> None
      | i # r \<Rightarrow> if i = 0 then Some (Yes, r) else if i = 1 then Some (No, r)
                 else if i = 2 then Some (Abstain, r) else None)"

definition encode_vote_tally :: "vote_tally \<Rightarrow> u8 list" where
  "encode_vote_tally t = encode_word (yes_votes t) @ encode_word (no_votes t) @ encode_word (abstain_votes t)"

definition decode_vote_tally :: "u8 list \<Rightarrow> (vote_tally \<times> u8 list) option" where
  "decode_vote_tally bs =
     do { (y, r1) \<leftarrow> decode_word bs; (n, r2) \<leftarrow> decode_word r1; (a, r3) \<leftarrow> decode_word r2;
          Some (\<lparr>yes_votes = y, no_votes = n, abstain_votes = a\<rparr>, r3) }"

definition encode_voting_period :: "voting_period \<Rightarrow> u8 list" where
  "encode_voting_period p = encode_word (start_block p) @ encode_word (end_block p)"

definition decode_voting_period :: "u8 list \<Rightarrow> (voting_period \<times> u8 list) option" where
  "decode_voting_period bs =
     do { (s, r1) \<leftarrow> decode_word bs; (e, r2) \<leftarrow> decode_word r1;
          Some (\<lparr>start_block = s, end_block = e\<rparr>, r2) }"

definition encode_audit_entry :: "('acc \<Rightarrow> u8 list) \<Rightarrow> 'acc audit_entry \<Rightarrow> u8 list" where
  "encode_audit_entry enc e =
     encode_vec (activity_type e) @ enc (actor e) @ encode_vec (details e) @ encode_word (timestamp e) @
     encode_option encode_word (related_proposal_id e) @ encode_option enc (related_wallet_id e)"

definition decode_audit_entry ::
  "(u8 list \<Rightarrow> ('acc \<times> u8 list) option) \<Rightarrow> u8 list \<Rightarrow> ('acc audit_entry \<times> u8 list) option" where
  "decode_audit_entry dec bs =
     do { (act, r1) \<leftarrow> decode_bounded 50 bs; (a, r2) \<leftarrow> dec r1; (det, r3) \<leftarrow> decode_bounded 500 r2;
          (ts, r4) \<leftarrow> decode_word r3; (rp, r5) \<leftarrow> decode_option decode_word r4;
          (rw, r6) \<leftarrow> decode_option dec r5;
          Some (\<lparr>activity_type = act, actor = a, details = det, timestamp = ts,
                 related_proposal_id = rp, related_wallet_id = rw\<rparr>, r6) }"

definition audit_entry_max_len :: "nat \<Rightarrow> nat" where
  "audit_entry_max_len acc_len =
     bounded_max_len 50 + acc_len + bounded_max_len 500 + 8 + (1 + 8) + (1 + acc_len)"

definition encode_proposal_details :: "('acc \<Rightarrow> u8 list) \<Rightarrow> 'acc proposal_details \<Rightarrow> u8 list" where
  "encode_proposal_details enc d =
     enc (proposal_details.creator d) @ encode_word (amount d) @ encode_vec (purpose d) @
     encode_proposal_status (status d) @ encode_word (proposal_details.created_at d) @ encode_word (updated_at d)"

definition decode_proposal_details ::
  "(u8 list \<Rightarrow> ('acc \<times> u8 list) option) \<Rightarrow> u8 list \<Rightarrow> ('acc proposal_details \<times> u8 list) option" where
  "decode_proposal_details dec bs =
     do { (c, r1) \<leftarrow> dec bs; (a, r2) \<leftarrow> decode_word r1; (p, r3) \<leftarrow> decode_bounded 200 r2;
          (st, r4) \<leftarrow> decode_proposal_status r3; (ca, r5) \<leftarrow> decode_word r4; (ua, r6) \<leftarrow> decode_word r5;
          Some (\<lparr>proposal_details.creator = c, amount = a, purpose = p, status = st,
                 proposal_details.created_at = ca, updated_at = ua\<rparr>, r6) }"

definition proposal_details_max_len :: "nat \<Rightarrow> nat" where
  "proposal_details_max_len acc_len = acc_len + 16 + bounded_max_len 200 + 1 + 8 + 8"

definition encode_wallet_details :: "('acc \<Rightarrow> u8 list) \<Rightarrow> 'acc wallet_details \<Rightarrow> u8 list" where
  "encode_wallet_details enc w =
     enc (wallet_details.creator w) @ encode_vec (department w) @ encode_word (wallet_details.created_at w)"

definition decode_wallet_details ::
  "(u8 list \<Rightarrow> ('acc \<times> u8 list) option) \<Rightarrow> u8 list \<Rightarrow> ('acc wallet_details \<times> u8 list) option" where
  "decode_wallet_details dec bs =
     do { (c, r1) \<leftarrow> dec bs; (d, r2) \<leftarrow> decode_bounded 100 r1; (ca, r3) \<leftarrow> decode_word r2;
          Some (\<lparr>wallet_details.creator = c, department = d, wallet_details.created_at = ca\<rparr>, r3) }"

definition wallet_details_max_len :: "nat \<Rightarrow> nat" where
  "wallet_details_max_len acc_len = acc_len + bounded_max_len 100 + 8"

text \<open>The values a struct's \<open>BoundedVec\<close> fields admit.\<close>

definition audit_entry_ok :: "'acc audit_entry \<Rightarrow> bool" where
  "audit_entry_ok e \<longleftrightarrow> length (activity_type e) \<le> 50 \<and> length (details e) \<le> 500"

definition proposal_details_ok :: "'acc proposal_details \<Rightarrow> bool" where
  "proposal_details_ok d \<longleftrightarrow> length (purpose d) \<le> 200"

definition wallet_details_ok :: "'acc wallet_details \<Rightarrow> bool" where
  "wallet_details_ok w \<longleftrightarrow> length (department w) \<le> 100"

subsection \<open>Lemmas\<close>

lemma length_encode_compact: "n < 2 ^ 32 \<Longrightarrow> length (encode_compact n) = compact_len n"
  by (simp add: encode_compact_def compact_len_def)

lemma length_encode_vec_bounded:
  assumes "length xs \<le> bound" and "bound < 2 ^ 32"
  shows "length (encode_vec xs) \<le> bounded_max_len bound"
proof -
  have "compact_len (length xs) \<le> compact_len bound"
    using assms(1) by (simp add: compact_len_def)
  then show ?thesis
    using assms by (simp add: encode_vec_def bounded_max_len_def length_encode_compact)
qed

lemma codec_bounded:
  assumes "bound < 2 ^ 32"
  shows "codec (\<lambda>xs. length xs \<le> bound) encode_vec (decode_bounded bound)"
proof (rule codecI)
  show "decode_bounded bound (encode_vec xs @ r) = Some (xs, r)" if "length xs \<le> bound" for xs r
    using that assms by (simp add: decode_bounded_def short_def)
  show "length xs \<le> bound \<and> bs = encode_vec xs @ r" if "decode_bounded bound bs = Some (xs, r)" for bs xs r
    using that by (auto simp: decode_bounded_def split: option.splits if_splits dest: decode_vec_canonical)
qed

lemma codec_proposal_status: "codec (\<lambda>_. True) encode_proposal_status decode_proposal_status"
proof (rule codecI)
  show "decode_proposal_status (encode_proposal_status x @ r) = Some (x, r)" for x r
    by (cases x) (simp_all add: decode_proposal_status_def)
  show "True \<and> bs = encode_proposal_status x @ r" if "decode_proposal_status bs = Some (x, r)" for bs x r
    using that by (auto simp: decode_proposal_status_def split: list.splits if_splits)
qed

lemma codec_u32: "codec (\<lambda>_. True) (encode_word :: u32 \<Rightarrow> u8 list) decode_word"
  by (rule codec_word) simp

lemma codec_u128: "codec (\<lambda>_. True) (encode_word :: u128 \<Rightarrow> u8 list) decode_word"
  by (rule codec_word) simp

lemma length_encode_word [simp]: "length (encode_word (w :: 'a::len word)) = LENGTH('a) div 8"
  by (simp add: encode_word_def)

lemmas storage_codecs = codec_bounded codec_proposal_status codec_u64 codec_u32 codec_u128


lemma decode_encode_bounded [simp]:
  "length xs \<le> bound \<Longrightarrow> bound < 2 ^ 32 \<Longrightarrow> decode_bounded bound (encode_vec xs @ r) = Some (xs, r)"
  using codec_decode [OF codec_bounded] by blast

lemma decode_bounded_canonical:
  "decode_bounded bound bs = Some (xs, r) \<Longrightarrow> length xs \<le> bound \<and> bs = encode_vec xs @ r"
  by (auto simp: decode_bounded_def split: option.splits if_splits dest: decode_vec_canonical)

lemma length_encode_option_le:
  "(\<And>x. length (enc x) \<le> k) \<Longrightarrow> length (encode_option enc v) \<le> 1 + k"
  by (cases v) auto

text \<open>A struct encodes within its bound when its byte strings fit their \<open>BoundedVec\<close>s.\<close>

lemma audit_entry_len:
  assumes "audit_entry_ok e" and "\<And>a. length (enc a) \<le> acc_len"
  shows "length (encode_audit_entry enc e) \<le> audit_entry_max_len acc_len"
proof -
  have "length (encode_vec (activity_type e)) \<le> bounded_max_len 50"
    and "length (encode_vec (details e)) \<le> bounded_max_len 500"
    using assms(1) by (simp_all add: audit_entry_ok_def length_encode_vec_bounded)
  moreover have "length (encode_option encode_word (related_proposal_id e)) \<le> 1 + 8"
    by (rule length_encode_option_le) simp
  moreover have "length (encode_option enc (related_wallet_id e)) \<le> 1 + acc_len"
    by (rule length_encode_option_le) (rule assms(2))
  ultimately show ?thesis
    using assms(2) [of "actor e"] by (simp add: encode_audit_entry_def audit_entry_max_len_def)
qed

lemma proposal_details_len:
  assumes "proposal_details_ok d" and "\<And>a. length (enc a) \<le> acc_len"
  shows "length (encode_proposal_details enc d) \<le> proposal_details_max_len acc_len"
proof -
  have "length (encode_vec (purpose d)) \<le> bounded_max_len 200"
    using assms(1) by (simp add: proposal_details_ok_def length_encode_vec_bounded)
  moreover have "length (encode_proposal_status (status d)) = 1"
    by (cases "status d") simp_all
  ultimately show ?thesis
    using assms(2) [of "proposal_details.creator d"]
    by (simp add: encode_proposal_details_def proposal_details_max_len_def)
qed

lemma wallet_details_len:
  assumes "wallet_details_ok w" and "\<And>a. length (enc a) \<le> acc_len"
  shows "length (encode_wallet_details enc w) \<le> wallet_details_max_len acc_len"
proof -
  have "length (encode_vec (department w)) \<le> bounded_max_len 100"
    using assms(1) by (simp add: wallet_details_ok_def length_encode_vec_bounded)
  then show ?thesis
    using assms(2) [of "wallet_details.creator w"]
    by (simp add: encode_wallet_details_def wallet_details_max_len_def)
qed

text \<open>The reachable states of the runtime store only values their \<open>BoundedVec\<close>s admit.\<close>

lemma runtime_reachable_stored_ok:
  assumes "runtime_reachable prof n s"
  shows "(\<forall>e \<in> ran (audit_log (audit s)). audit_entry_ok e) \<and>
    (\<forall>d \<in> ran (budget_proposals (budget s)). proposal_details_ok d) \<and>
    (\<forall>w \<in> ran (government_wallets (wallet s)). wallet_details_ok w)"
proof -
  have v: "budget_reachable prof n (budget s)" "audit_reachable prof n (audit s)" "wallet_reachable n (wallet s)"
    using runtime_reachable_components [OF assms] by simp_all
  show ?thesis
    using budget_reachable_budget_inv [OF v(1)] audit_reachable_audit_inv [OF v(2)]
      wallet_reachable_wallet_inv [OF v(3)]
    by (auto simp: audit_inv_def budget_inv_def wallet_inv_def audit_entry_ok_def
        proposal_details_ok_def wallet_details_ok_def)
qed

subsection \<open>Properties\<close>

text \<open>
  Stored values round-trip through their derived SCALE codecs. For any account codec
  that round-trips, the decoder of each stored struct and enum decodes the encoding of a
  value followed by any input back to the value and that input, for the values whose
  byte strings fit their BoundedVec bounds; the decoder accepts nothing else, refusing an
  over-long BoundedVec, and whatever it accepts starts with exactly the encoding of the
  decoded value.
\<close>

theorem stored_values_roundtrip:
  assumes acc: "codec (\<lambda>_. True) enc dec"
  shows "codec audit_entry_ok (encode_audit_entry enc) (decode_audit_entry dec) \<and>
    codec proposal_details_ok (encode_proposal_details enc) (decode_proposal_details dec) \<and>
    codec wallet_details_ok (encode_wallet_details enc) (decode_wallet_details dec) \<and>
    codec (\<lambda>_. True) encode_vote_choice decode_vote_choice \<and>
    codec (\<lambda>_. True) encode_vote_tally decode_vote_tally \<and>
    codec (\<lambda>_. True) encode_voting_period decode_voting_period"
proof (intro conjI)
  show "codec audit_entry_ok (encode_audit_entry enc) (decode_audit_entry dec)"
  proof (rule codecI)
    show "decode_audit_entry dec (encode_audit_entry enc e @ r) = Some (e, r)" if "audit_entry_ok e" for e r
      using that codec_decode [OF acc] decode_encode_option [OF acc] decode_encode_option [OF codec_u64]
      by (cases e) (simp add: decode_audit_entry_def encode_audit_entry_def audit_entry_ok_def)
    show "audit_entry_ok e \<and> bs = encode_audit_entry enc e @ r" if "decode_audit_entry dec bs = Some (e, r)" for bs e r
      using that by (auto simp: decode_audit_entry_def encode_audit_entry_def audit_entry_ok_def
          bind_eq_Some_conv dest!: decode_bounded_canonical decode_word_canonical codec_canonical [OF _ acc]
          codec_canonical [OF _ codec_option [OF acc]] codec_canonical [OF _ codec_option [OF codec_u64]])
  qed
  show "codec proposal_details_ok (encode_proposal_details enc) (decode_proposal_details dec)"
  proof (rule codecI)
    show "decode_proposal_details dec (encode_proposal_details enc d @ r) = Some (d, r)"
      if "proposal_details_ok d" for d r
      using that codec_decode [OF acc] codec_decode [OF codec_proposal_status]
      by (cases d) (simp add: decode_proposal_details_def encode_proposal_details_def proposal_details_ok_def)
    show "proposal_details_ok d \<and> bs = encode_proposal_details enc d @ r"
      if "decode_proposal_details dec bs = Some (d, r)" for bs d r
      using that by (auto simp: decode_proposal_details_def encode_proposal_details_def proposal_details_ok_def
          bind_eq_Some_conv dest!: decode_bounded_canonical decode_word_canonical codec_canonical [OF _ acc]
          codec_canonical [OF _ codec_proposal_status])
  qed
  show "codec wallet_details_ok (encode_wallet_details enc) (decode_wallet_details dec)"
  proof (rule codecI)
    show "decode_wallet_details dec (encode_wallet_details enc w @ r) = Some (w, r)"
      if "wallet_details_ok w" for w r
      using that codec_decode [OF acc]
      by (cases w) (simp add: decode_wallet_details_def encode_wallet_details_def wallet_details_ok_def)
    show "wallet_details_ok w \<and> bs = encode_wallet_details enc w @ r"
      if "decode_wallet_details dec bs = Some (w, r)" for bs w r
      using that by (auto simp: decode_wallet_details_def encode_wallet_details_def wallet_details_ok_def
          bind_eq_Some_conv dest!: decode_bounded_canonical decode_word_canonical codec_canonical [OF _ acc])
  qed
  show "codec (\<lambda>_. True) encode_vote_choice decode_vote_choice"
  proof (rule codecI)
    show "decode_vote_choice (encode_vote_choice c @ r) = Some (c, r)" for c r
      by (cases c) (simp_all add: decode_vote_choice_def)
    show "True \<and> bs = encode_vote_choice c @ r" if "decode_vote_choice bs = Some (c, r)" for bs c r
      using that by (auto simp: decode_vote_choice_def split: list.splits if_splits)
  qed
  show "codec (\<lambda>_. True) encode_vote_tally decode_vote_tally"
  proof (rule codecI)
    show "decode_vote_tally (encode_vote_tally t @ r) = Some (t, r)" for t r
      by (cases t) (simp add: decode_vote_tally_def encode_vote_tally_def)
    show "True \<and> bs = encode_vote_tally t @ r" if "decode_vote_tally bs = Some (t, r)" for bs t r
      using that by (auto simp: decode_vote_tally_def encode_vote_tally_def bind_eq_Some_conv
          dest!: decode_word_canonical)
  qed
  show "codec (\<lambda>_. True) encode_voting_period decode_voting_period"
  proof (rule codecI)
    show "decode_voting_period (encode_voting_period p @ r) = Some (p, r)" for p r
      by (cases p) (simp add: decode_voting_period_def encode_voting_period_def)
    show "True \<and> bs = encode_voting_period p @ r" if "decode_voting_period bs = Some (p, r)" for bs p r
      using that by (auto simp: decode_voting_period_def encode_voting_period_def bind_eq_Some_conv
          dest!: decode_word_canonical)
  qed
qed

text \<open>
  Stored values fit their MaxEncodedLen. For an account codec whose encodings take at
  most acc_len bytes, in every reachable state of the runtime every stored AuditEntry,
  ProposalDetails and WalletDetails encodes within the derived MaxEncodedLen of its type.
\<close>

theorem stored_values_within_max_encoded_len:
  assumes acc: "\<forall>a. length (enc a) \<le> acc_len" and reach: "runtime_reachable prof n s"
  shows "(\<forall>e \<in> ran (audit_log (audit s)). length (encode_audit_entry enc e) \<le> audit_entry_max_len acc_len) \<and>
    (\<forall>d \<in> ran (budget_proposals (budget s)).
       length (encode_proposal_details enc d) \<le> proposal_details_max_len acc_len) \<and>
    (\<forall>w \<in> ran (government_wallets (wallet s)).
       length (encode_wallet_details enc w) \<le> wallet_details_max_len acc_len)"
proof -
  have a: "length (enc a) \<le> acc_len" for a
    using acc by blast
  have ok: "(\<forall>e \<in> ran (audit_log (audit s)). audit_entry_ok e) \<and>
    (\<forall>d \<in> ran (budget_proposals (budget s)). proposal_details_ok d) \<and>
    (\<forall>w \<in> ran (government_wallets (wallet s)). wallet_details_ok w)"
    by (rule runtime_reachable_stored_ok [OF reach])
  show ?thesis
  proof (intro conjI ballI)
    show "length (encode_audit_entry enc e) \<le> audit_entry_max_len acc_len"
      if "e \<in> ran (audit_log (audit s))" for e
      using ok that by (blast intro: audit_entry_len a)
    show "length (encode_proposal_details enc d) \<le> proposal_details_max_len acc_len"
      if "d \<in> ran (budget_proposals (budget s))" for d
      using ok that by (blast intro: proposal_details_len a)
    show "length (encode_wallet_details enc w) \<le> wallet_details_max_len acc_len"
      if "w \<in> ran (government_wallets (wallet s))" for w
      using ok that by (blast intro: wallet_details_len a)
  qed
qed

subsection \<open>Witnesses\<close>

theorem stored_values_roundtrip_witness:
  "decode_wallet_details decode_word
     (encode_wallet_details encode_word
        \<lparr>wallet_details.creator = 10 :: u64, department = bytes ''Health'', wallet_details.created_at = 1\<rparr> @ [7]) =
   Some (\<lparr>wallet_details.creator = 10 :: u64, department = bytes ''Health'', wallet_details.created_at = 1\<rparr>, [7])"
proof -
  have w: "codec wallet_details_ok (encode_wallet_details (encode_word :: u64 \<Rightarrow> u8 list))
      (decode_wallet_details decode_word)"
    using stored_values_roundtrip [OF codec_u64] by blast
  show ?thesis
  proof (rule codec_decode [OF w])
    show "wallet_details_ok
        \<lparr>wallet_details.creator = 10 :: u64, department = bytes ''Health'', wallet_details.created_at = 1\<rparr>"
      by (simp add: wallet_details_ok_def bytes_def)
  qed
qed

theorem stored_values_within_max_encoded_len_witness:
  "audit_entry_max_len 8 = 587 \<and> wallet_details_max_len 8 = 118 \<and>
   length (encode_audit_entry (\<lambda>a. encode_word (word_of_nat a :: u64))
     \<lparr>activity_type = [67], actor = 1, details = [80], timestamp = 1,
      related_proposal_id = Some 0, related_wallet_id = None\<rparr>) \<le> audit_entry_max_len 8 \<and>
   length (encode_wallet_details (\<lambda>a. encode_word (word_of_nat a :: u64))
     \<lparr>wallet_details.creator = 1, department = [84], wallet_details.created_at = 1\<rparr>) \<le> wallet_details_max_len 8"
proof -
  let ?s = "run_calls (runtime_dispatch Debug) runtime_genesis
    [(1, Signed (1::nat), AuditCall (LogActivity [67] [80] (Some 0) None)),
     (1, Signed 1, WalletCall (CreateWallet 10 [84]))]"
  have "runtime_reachable Debug 1 (runtime_genesis :: nat runtime_state)"
    by (rule reachable.advance [OF reachable.genesis]) simp
  then have reach: "runtime_reachable Debug 1 ?s"
    by (rule reachable_run_calls) simp
  have acc: "\<forall>a. length (encode_word (word_of_nat a :: u64)) \<le> 8"
    by simp
  have "audit_log (audit ?s) 0 = Some \<lparr>activity_type = [67], actor = 1, details = [80], timestamp = 1,
      related_proposal_id = Some 0, related_wallet_id = None\<rparr>"
    and "government_wallets (wallet ?s) 10 =
      Some \<lparr>wallet_details.creator = 1, department = [84], wallet_details.created_at = 1\<rparr>"
    by (simp_all add: dispatch_defs apply_call_def runtime_genesis_def audit_genesis_def wallet_genesis_def
        ensure_signed_def bounded_vec_def rust_add_def overflows_def Let_def)
  then have "\<lparr>activity_type = [67], actor = 1, details = [80], timestamp = 1,
      related_proposal_id = Some 0, related_wallet_id = None\<rparr> \<in> ran (audit_log (audit ?s))"
    and "\<lparr>wallet_details.creator = 1, department = [84], wallet_details.created_at = 1\<rparr>
      \<in> ran (government_wallets (wallet ?s))"
    by (auto intro: ranI)
  with stored_values_within_max_encoded_len [OF acc reach] show ?thesis
    by (simp add: audit_entry_max_len_def wallet_details_max_len_def bounded_max_len_def compact_len_def)
qed

end
