(* ===== verification/StorageKeys.thy ===== *)
theory StorageKeys
  imports Scale
begin

text \<open>
  Where FRAME puts the pallets' storage in the runtime's key-value store. A storage item
  of pallet \<open>P\<close> named \<open>I\<close> lives under the prefix \<open>twox128(P) ++ twox128(I)\<close>; a
  \<open>StorageValue\<close> is the prefix itself, a \<open>StorageMap\<close> with hasher \<open>Twox64Concat\<close>
  appends \<open>twox64(encode(k)) ++ encode(k)\<close> for the key \<open>k\<close>, and a \<open>StorageDoubleMap\<close>
  appends that for each of its two keys. The hashes are parameters: the theorems hold
  for any functions with the output lengths of xxHash. Every map of the four pallets is
  declared with \<open>Twox64Concat\<close>, a reversible hasher: its key can be read back from the
  storage key (\<open>Twox64Concat::reverse\<close> drops the eight hash bytes), as FRAME's
  key iterators do, so two keys never share a storage slot although twox64 is not
  collision-resistant.
\<close>

subsection \<open>Storage keys\<close>

type_synonym hasher = "u8 list \<Rightarrow> u8 list"

definition storage_prefix :: "hasher \<Rightarrow> string \<Rightarrow> string \<Rightarrow> u8 list" where
  "storage_prefix twox128 pallet item = twox128 (bytes pallet) @ twox128 (bytes item)"

definition twox64_concat :: "hasher \<Rightarrow> u8 list \<Rightarrow> u8 list" where
  "twox64_concat twox64 x = twox64 x @ x"

definition twox64_concat_reverse :: "u8 list \<Rightarrow> u8 list" where
  "twox64_concat_reverse x = drop 8 x"

definition map_key ::
  "hasher \<Rightarrow> hasher \<Rightarrow> string \<Rightarrow> string \<Rightarrow> ('k \<Rightarrow> u8 list) \<Rightarrow> 'k \<Rightarrow> u8 list" where
  "map_key twox128 twox64 pallet item enc k =
     storage_prefix twox128 pallet item @ twox64_concat twox64 (enc k)"

definition double_map_key ::
  "hasher \<Rightarrow> hasher \<Rightarrow> string \<Rightarrow> string \<Rightarrow> ('k1 \<Rightarrow> u8 list) \<Rightarrow> ('k2 \<Rightarrow> u8 list) \<Rightarrow>
   'k1 \<Rightarrow> 'k2 \<Rightarrow> u8 list" where
  "double_map_key twox128 twox64 pallet item enc1 enc2 k1 k2 =
     storage_prefix twox128 pallet item @ twox64_concat twox64 (enc1 k1) @ twox64_concat twox64 (enc2 k2)"

text \<open>
  Reading a key back, as \<open>StorageMap::iter_keys\<close> and \<open>StorageDoubleMap::iter_keys\<close> do:
  the storage key must start with the item's prefix, then each hasher is reversed and the
  key decoded from what follows.
\<close>

definition decode_map_key ::
  "hasher \<Rightarrow> string \<Rightarrow> string \<Rightarrow> (u8 list \<Rightarrow> ('k \<times> u8 list) option) \<Rightarrow> u8 list \<Rightarrow> 'k option" where
  "decode_map_key twox128 pallet item dec key =
     (let p = storage_prefix twox128 pallet item in
      if take (length p) key \<noteq> p then None
      else map_option fst (dec (twox64_concat_reverse (drop (length p) key))))"

definition decode_double_map_key ::
  "hasher \<Rightarrow> string \<Rightarrow> string \<Rightarrow> (u8 list \<Rightarrow> ('k1 \<times> u8 list) option) \<Rightarrow>
   (u8 list \<Rightarrow> ('k2 \<times> u8 list) option) \<Rightarrow> u8 list \<Rightarrow> ('k1 \<times> 'k2) option" where
  "decode_double_map_key twox128 pallet item dec1 dec2 key =
     (let p = storage_prefix twox128 pallet item in
      if take (length p) key \<noteq> p then None
      else case dec1 (twox64_concat_reverse (drop (length p) key)) of
             None \<Rightarrow> None
           | Some (k1, r) \<Rightarrow> map_option (\<lambda>(k2, _). (k1, k2)) (dec2 (twox64_concat_reverse r)))"

subsection \<open>The storage items of the pallets\<close>

text \<open>Each \<open>#[pallet::storage]\<close> declaration: its name, its hasher and its key type.\<close>

definition proposal_votes_key ::
  "hasher \<Rightarrow> hasher \<Rightarrow> string \<Rightarrow> ('acc \<Rightarrow> u8 list) \<Rightarrow> u64 \<Rightarrow> 'acc \<Rightarrow> u8 list" where
  "proposal_votes_key twox128 twox64 pallet enc p a =
     double_map_key twox128 twox64 pallet ''ProposalVotes'' encode_word enc p a"

definition vote_counts_key :: "hasher \<Rightarrow> hasher \<Rightarrow> string \<Rightarrow> u64 \<Rightarrow> u8 list" where
  "vote_counts_key twox128 twox64 pallet p = map_key twox128 twox64 pallet ''VoteCounts'' encode_word p"

definition voting_periods_key :: "hasher \<Rightarrow> hasher \<Rightarrow> string \<Rightarrow> u64 \<Rightarrow> u8 list" where
  "voting_periods_key twox128 twox64 pallet p = map_key twox128 twox64 pallet ''VotingPeriods'' encode_word p"

definition budget_proposals_key :: "hasher \<Rightarrow> hasher \<Rightarrow> string \<Rightarrow> u64 \<Rightarrow> u8 list" where
  "budget_proposals_key twox128 twox64 pallet p =
     map_key twox128 twox64 pallet ''BudgetProposals'' encode_word p"

definition next_proposal_id_key :: "hasher \<Rightarrow> string \<Rightarrow> u8 list" where
  "next_proposal_id_key twox128 pallet = storage_prefix twox128 pallet ''NextProposalId''"

definition audit_log_key :: "hasher \<Rightarrow> hasher \<Rightarrow> string \<Rightarrow> u64 \<Rightarrow> u8 list" where
  "audit_log_key twox128 twox64 pallet i = map_key twox128 twox64 pallet ''AuditLog'' encode_word i"

definition next_entry_id_key :: "hasher \<Rightarrow> string \<Rightarrow> u8 list" where
  "next_entry_id_key twox128 pallet = storage_prefix twox128 pallet ''NextEntryId''"

definition government_wallets_key :: "hasher \<Rightarrow> hasher \<Rightarrow> string \<Rightarrow> ('acc \<Rightarrow> u8 list) \<Rightarrow> 'acc \<Rightarrow> u8 list" where
  "government_wallets_key twox128 twox64 pallet enc a =
     map_key twox128 twox64 pallet ''GovernmentWallets'' enc a"

definition wallet_balances_key :: "hasher \<Rightarrow> hasher \<Rightarrow> string \<Rightarrow> ('acc \<Rightarrow> u8 list) \<Rightarrow> 'acc \<Rightarrow> u8 list" where
  "wallet_balances_key twox128 twox64 pallet enc a =
     map_key twox128 twox64 pallet ''WalletBalances'' enc a"

subsection \<open>Lemmas\<close>

lemma twox64_concat_reverse_append:
  "length (twox64 x) = 8 \<Longrightarrow> twox64_concat_reverse (twox64_concat twox64 x @ r) = x @ r"
  by (simp add: twox64_concat_def twox64_concat_reverse_def)

lemma codec_decode_all: "codec ok enc dec \<Longrightarrow> ok x \<Longrightarrow> dec (enc x) = Some (x, [])"
  using codec_decode [where r = "[]"] by simp

lemma decode_map_key_map_key:
  assumes "\<forall>x. length (twox64 x) = 8" and "codec ok enc dec" and "ok k"
  shows "decode_map_key twox128 pallet item dec (map_key twox128 twox64 pallet item enc k) = Some k"
  using twox64_concat_reverse_append [where r = "[]"] assms codec_decode_all [OF assms(2,3)]
  by (simp add: decode_map_key_def map_key_def)

lemma decode_double_map_key_double_map_key:
  assumes "\<forall>x. length (twox64 x) = 8" and "codec ok1 enc1 dec1" and "ok1 k1"
    and "codec ok2 enc2 dec2" and "ok2 k2"
  shows "decode_double_map_key twox128 pallet item dec1 dec2
      (double_map_key twox128 twox64 pallet item enc1 enc2 k1 k2) = Some (k1, k2)"
proof -
  have "dec1 (twox64_concat_reverse (twox64_concat twox64 (enc1 k1) @ twox64_concat twox64 (enc2 k2))) =
      Some (k1, twox64_concat twox64 (enc2 k2))"
    using assms(1) codec_decode [OF assms(2,3)] by (simp add: twox64_concat_reverse_append)
  moreover have "dec2 (twox64_concat_reverse (twox64_concat twox64 (enc2 k2))) = Some (k2, [])"
    using assms(1) twox64_concat_reverse_append [where r = "[]"] codec_decode_all [OF assms(4,5)] by simp
  ultimately show ?thesis
    by (simp add: decode_double_map_key_def double_map_key_def)
qed

lemma double_map_key_inj:
  assumes "\<forall>x. length (twox64 x) = 8" and "codec ok1 enc1 dec1" and "codec ok2 enc2 dec2"
    and "ok1 k1" and "ok2 k2" and "ok1 k1'" and "ok2 k2'"
  shows "double_map_key twox128 twox64 pallet item enc1 enc2 k1 k2 =
      double_map_key twox128 twox64 pallet item enc1 enc2 k1' k2' \<longleftrightarrow> k1 = k1' \<and> k2 = k2'"
proof
  assume eq: "double_map_key twox128 twox64 pallet item enc1 enc2 k1 k2 =
      double_map_key twox128 twox64 pallet item enc1 enc2 k1' k2'"
  have "Some (k1, k2) = decode_double_map_key twox128 pallet item dec1 dec2
      (double_map_key twox128 twox64 pallet item enc1 enc2 k1 k2)"
    by (rule decode_double_map_key_double_map_key [OF assms(1,2,4,3,5), symmetric])
  also have "\<dots> = decode_double_map_key twox128 pallet item dec1 dec2
      (double_map_key twox128 twox64 pallet item enc1 enc2 k1' k2')"
    by (simp only: eq)
  also have "\<dots> = Some (k1', k2')"
    by (rule decode_double_map_key_double_map_key [OF assms(1,2,6,3,7)])
  finally show "k1 = k1' \<and> k2 = k2'"
    by simp
next
  assume "k1 = k1' \<and> k2 = k2'"
  then show "double_map_key twox128 twox64 pallet item enc1 enc2 k1 k2 =
      double_map_key twox128 twox64 pallet item enc1 enc2 k1' k2'"
    by simp
qed

subsection \<open>Properties\<close>

text \<open>
  Every storage map of the four pallets is keyed reversibly. Whatever twox64 returns
  (eight bytes), the key of each entry of ProposalVotes, VoteCounts, VotingPeriods,
  BudgetProposals, AuditLog, GovernmentWallets and WalletBalances is read back from its
  storage key, for any round-tripping account codec; hence two different keys of a map
  never share a storage slot: in particular two (proposal, voter) pairs of ProposalVotes
  have the same storage key only when they are equal.
\<close>

theorem storage_keys_reversible:
  assumes h: "\<forall>x. length (twox64 x) = 8" and acc: "codec (\<lambda>_. True) enc dec"
  shows "decode_double_map_key twox128 pallet ''ProposalVotes'' decode_word dec
      (proposal_votes_key twox128 twox64 pallet enc p a) = Some (p, a) \<and>
    decode_map_key twox128 pallet ''VoteCounts'' decode_word (vote_counts_key twox128 twox64 pallet p) = Some p \<and>
    decode_map_key twox128 pallet ''VotingPeriods'' decode_word (voting_periods_key twox128 twox64 pallet p) = Some p \<and>
    decode_map_key twox128 pallet ''BudgetProposals'' decode_word
      (budget_proposals_key twox128 twox64 pallet p) = Some p \<and>
    decode_map_key twox128 pallet ''AuditLog'' decode_word (audit_log_key twox128 twox64 pallet p) = Some p \<and>
    decode_map_key twox128 pallet ''GovernmentWallets'' dec (government_wallets_key twox128 twox64 pallet enc a) = Some a \<and>
    decode_map_key twox128 pallet ''WalletBalances'' dec (wallet_balances_key twox128 twox64 pallet enc a) = Some a \<and>
    (proposal_votes_key twox128 twox64 pallet enc p a = proposal_votes_key twox128 twox64 pallet enc p' a' \<longleftrightarrow>
       p = p' \<and> a = a')"
proof (intro conjI)
  show "decode_double_map_key twox128 pallet ''ProposalVotes'' decode_word dec
      (proposal_votes_key twox128 twox64 pallet enc p a) = Some (p, a)"
    unfolding proposal_votes_key_def
    by (rule decode_double_map_key_double_map_key [OF h codec_u64 _ acc]) simp_all
  show "decode_map_key twox128 pallet ''VoteCounts'' decode_word (vote_counts_key twox128 twox64 pallet p) = Some p"
    unfolding vote_counts_key_def by (rule decode_map_key_map_key [OF h codec_u64]) simp
  show "decode_map_key twox128 pallet ''VotingPeriods'' decode_word (voting_periods_key twox128 twox64 pallet p) = Some p"
    unfolding voting_periods_key_def by (rule decode_map_key_map_key [OF h codec_u64]) simp
  show "decode_map_key twox128 pallet ''BudgetProposals'' decode_word
      (budget_proposals_key twox128 twox64 pallet p) = Some p"
    unfolding budget_proposals_key_def by (rule decode_map_key_map_key [OF h codec_u64]) simp
  show "decode_map_key twox128 pallet ''AuditLog'' decode_word (audit_log_key twox128 twox64 pallet p) = Some p"
    unfolding audit_log_key_def by (rule decode_map_key_map_key [OF h codec_u64]) simp
  show "decode_map_key twox128 pallet ''GovernmentWallets'' dec
      (government_wallets_key twox128 twox64 pallet enc a) = Some a"
    unfolding government_wallets_key_def by (rule decode_map_key_map_key [OF h acc]) simp
  show "decode_map_key twox128 pallet ''WalletBalances'' dec (wallet_balances_key twox128 twox64 pallet enc a) = Some a"
    unfolding wallet_balances_key_def by (rule decode_map_key_map_key [OF h acc]) simp
  show "proposal_votes_key twox128 twox64 pallet enc p a = proposal_votes_key twox128 twox64 pallet enc p' a' \<longleftrightarrow>
      p = p' \<and> a = a'"
    unfolding proposal_votes_key_def by (rule double_map_key_inj [OF h codec_u64 acc]) simp_all
qed


subsection \<open>Witnesses\<close>

theorem storage_keys_reversible_witness:
  "decode_double_map_key (\<lambda>x. take 16 (x @ replicate 16 0)) ''CommunityVoting'' ''ProposalVotes''
     decode_word decode_word
     (proposal_votes_key (\<lambda>x. take 16 (x @ replicate 16 0)) (\<lambda>x. take 8 (x @ replicate 8 0))
        ''CommunityVoting'' encode_word 1 (2 :: u64)) = Some (1 :: u64, 2 :: u64)"
proof -
  have h: "\<forall>x. length (take 8 (x @ replicate 8 (0 :: u8))) = 8"
    by (simp add: min_def)
  show ?thesis
    using storage_keys_reversible [OF h codec_u64] by (rule conjunct1)
qed

end
