(* ===== verification/Spec2Isabelle.thy ===== *)
theory Spec2Isabelle
  imports Runtime Benchmarks UnitTests CallCodec StorageCodec StorageKeys
begin

text \<open>
  \<^bold>\<open>Verification development of the govchain governance pallets.\<close>

  \<^emph>\<open>The program.\<close> Four FRAME pallets under \<open>src/pallets/\<close>, each a set of storage
  items and dispatchable calls executed one at a time by the runtime, which also supplies
  the caller's origin and the current block number (the shared logical clock):
  \<^item> \<open>community-voting/src/lib.rs\<close>: time-boxed voting rounds on proposal ids
    (\<open>start_voting\<close>, \<open>cast_vote\<close>, \<open>end_voting\<close>); the core of the system;
  \<^item> \<open>budget-proposal/src/lib.rs\<close>: proposals with a Pending/Approved/Rejected status;
  \<^item> \<open>audit-log/src/lib.rs\<close>: an append-only activity journal;
  \<^item> \<open>government-wallet/src/lib.rs\<close>: wallets and saturating balance allocation.
  The pallets share only the account type and the block number; none calls another.

  \<^emph>\<open>Theories.\<close> Each pallet is one theory: a record of its storage with its events, a
  datatype of its errors, one definition per call translating the code line by line (every
  \<open>?\<close>, \<open>ensure!\<close> and early return an \<open>Inl\<close> branch, the block number and the build
  profile as parameters), a datatype of its calls with a dispatcher, and the invariant of
  its reachable states proved by rule induction.
  \<^item> \<open>Prelude\<close>: the Rust integer types as words; Rust's \<open>+\<close> under a release
    build (wraps) and a debug build (panics), as \<open>rust_add\<close>; \<open>saturating_add\<close>;
    the FRAME origin check \<open>ensure_signed\<close>, the \<open>DispatchError\<close> of a call
    (\<open>dispatch_error\<close>), the \<open>u64\<close> conversion of the block number
    (\<open>block_number_u64\<close>) and \<open>BoundedVec::try_from\<close> (\<open>bounded_vec\<close>). These are
    framework and language semantics, modelled from their documentation. It also holds the
    interface every pallet instantiates: a \<open>dispatcher\<close> type, transactional application
    of a call (\<open>apply_call\<close>: a failed call changes nothing), runs of calls
    (\<open>run_calls\<close>), the reachable states (\<open>reachable\<close>: genesis, the clock advancing,
    one call at a time), the invariant rule \<open>reachable_inv\<close>, and \<open>reachable_iterate\<close>,
    which drives an id counter through all its values to exhibit its wrap-around.
  \<^item> \<open>CommunityVoting\<close> (\<open>community-voting/src/lib.rs\<close>): \<open>start_voting\<close>,
    \<open>cast_vote\<close>, \<open>end_voting\<close>. Lemmas: the acceptance rule, error order, effects,
    idempotent resolution, window boundaries, re-opening, the outcome rule against the
    specification's, the overflow behaviour of both builds, the vote-code round trip, and
    the independence of proposals: a call changes nothing stored about any other proposal,
    and its outcome depends only on what is stored about its own (\<open>proposal_slice\<close>).
  \<^item> \<open>VotingRounds\<close>: the voting pallet as a state machine. \<open>voting_inv\<close> holds in every
    reachable state, from which one vote per account follows. An abstract machine of rounds
    written from the specification is refined by the pallet: after any run the stored tally
    is the count of the current round's ballots modulo \<open>2 ^ 32\<close>.
  \<^item> \<open>BudgetProposal\<close> (\<open>budget-proposal/src/lib.rs\<close>): \<open>create_proposal\<close>,
    \<open>approve_proposal\<close>, \<open>reject_proposal\<close>; the status machine \<open>status_step\<close>
    (Pending to Approved or Rejected, once); the invariant \<open>budget_inv\<close> (ids below the
    counter, ordered timestamps, purpose lengths); error order; final decisions; the
    absence of any authorization (any signed account approves or rejects); and a reachable release-build state in which the wrapped counter makes
    \<open>create_proposal\<close> overwrite an approved proposal.
  \<^item> \<open>AuditLog\<close> (\<open>audit-log/src/lib.rs\<close>): \<open>log_activity\<close>, \<open>get_audit_entry\<close>; the
    journal invariant \<open>audit_inv\<close> (ids 0 .. counter - 1, events in id order describing
    their entries, field bounds), the append-only property, the effect of a valid
    \<open>log_activity\<close>, the read-only lookup, error order, and the release-build wrap that overwrites entry 0.
  \<^item> \<open>GovernmentWallet\<close> (\<open>government-wallet/src/lib.rs\<close>): \<open>create_wallet\<close>,
    \<open>allocate_funds\<close>, the \<open>ValueQuery\<close> read \<open>balance_get\<close>; the invariant
    \<open>wallet_inv\<close> (a balance exactly for each wallet), monotone balances, the saturation
    bound, error order, the effect of a valid \<open>create_wallet\<close>.
  \<^item> \<open>Runtime\<close>: the four pallets over one clock, as the specification describes them (no
    runtime crate is in the repository): a call datatype routed to the pallets, the product
    of their storages, errors lifted to \<open>DispatchError::Module\<close>. Its reachable states
    project onto every pallet's, so all invariants hold together, and a call touches only
    the pallet it names.
    A conformance predicate (\<open>runtime_conforms\<close>, after Jinja's \<open>Conform\<close>) states that
    every stored byte string and every byte string of a deposited event fits its declared
    \<open>BoundedVec<u8, ConstU32<N>>\<close> type; it holds in every reachable runtime state.
  \<^item> \<open>Benchmarks\<close> (\<open>*/src/benchmarking.rs\<close>): each of the fifteen v2 benchmarks as one
    definition over \<open>run_benchmark\<close> (setup calls under \<open>assert_ok!\<close>, the measured
    \<open>#[extrinsic_call]\<close>, the verification assertions) from empty storage, with the one
    account \<open>whitelisted_caller()\<close> returns and byte-string literals as \<open>bytes\<close>. The
    harness runs the setup at the starting block and the measured call at a block of at
    least 1 (\<open>bench_call_block\<close>). Fourteen benchmarks pass at every block in either
    build; the \<open>end_voting\<close> benchmark passes only when started in block 0 and measures
    a failing call from any later block. The four \<open>impl_benchmark_test_suite!\<close> suites
    (\<open>*_benchmark_suite\<close>, each benchmark on \<open>new_test_ext()\<close>) all pass.
  \<^item> \<open>MockRuntime\<close> (\<open>*/src/mock.rs\<close>) with \<open>AuditTests\<close>, \<open>WalletTests\<close>,
    \<open>BudgetTests\<close>, \<open>VotingTests\<close> (\<open>*/src/tests.rs\<close>): the test chain of a pallet,
    System's block number and event list beside the pallet storage (\<open>mock_state\<close>,
    \<open>new_test_ext\<close>, \<open>set_block_number\<close>, \<open>mock_call\<close>, which lifts the new pallet
    events into \<open>RuntimeEvent\<close> and drops them in block 0), and the statements of a test
    (\<open>test_step\<close>: \<open>set_block_number\<close>, \<open>assert_ok!\<close>, \<open>assert_noop!\<close>,
    \<open>assert_last_event\<close>) executed by \<open>run_test\<close>, \<open>None\<close> for a panic. Every one of
    the 76 tests is a definition, \<open>for\<close> loops unfolded and \<open>format!\<close> as \<open>decimal\<close>.
    A test chain refines its pallet: every state a test reaches holds a reachable pallet
    storage, and System's events are the lifted tail of the pallet's.
  \<^item> \<open>UnitTests\<close>: all 76 tests pass on the model of the code.
  \<^item> \<open>Scale\<close>, \<open>CallCodec\<close>, \<open>StorageCodec\<close>: the SCALE codec (\<open>parity-scale-codec\<close>,
    modelled from its documentation) on the types the pallets use: little-endian words,
    \<open>Compact<u32>\<close> with its canonical modes, \<open>Vec<u8>\<close>, \<open>Option\<close>, and the predicate
    \<open>codec ok enc dec\<close> (the decoder inverts the encoder on the values \<open>ok\<close> admits and
    accepts nothing else). The derived codec of each pallet's \<open>Call\<close> enum (call index,
    then the arguments in order) and of each stored struct and enum round-trip;
    \<open>BoundedVec\<close> decoding refuses over-long input; every value stored in a reachable
    runtime state encodes within the derived \<open>MaxEncodedLen\<close> of its type.
  \<^item> \<open>StorageKeys\<close>: where each \<open>#[pallet::storage]\<close> item lives in the key-value store
    (twox128 prefixes, \<open>Twox64Concat\<close> map keys, the xxHash functions as parameters of
    their output length); the key of every map entry is read back from its storage key, so
    distinct keys never share a slot.
  The results of \<open>Runtime\<close> on conformance and call isolation, of the codec theories, of
  \<open>StorageKeys\<close> and of the mock chains are kept as library lemmas, not as properties of
  the pallets: they hold by the declared Rust types, by the framework's construction or
  for any pallet code, and they serve to check the model (all 76 unit tests run on it).
  \<^emph>\<open>Liveness and termination.\<close> \<open>VotingRounds.voting_round_resolvable\<close> shows that an
  opened round can always be resolved later by advancing the clock, exactly when its window
  does not end at \<open>u64::MAX\<close>. The pallets' code has no loops and no recursion: every call
  is a straight-line function, so each definition is total by construction, and runs are
  structural recursion over a list of timed calls or test statements, needing no fuel.
  The only loops of the repository are the \<open>for\<close> loops of two tests over fixed ranges,
  unfolded into their statements; the only recursion the model adds, \<open>decimal\<close>
  (\<open>format!\<close> of a number), terminates because its argument shrinks under \<open>div 10\<close>.
  No termination theorem is stated, as none would say anything about the code.

  \<^emph>\<open>Bounds.\<close> Block numbers are \<open>nat\<close> converted to \<open>u64\<close> as the code does; the
  conversion fails at \<open>2 ^ 64\<close> and every theorem states the range it needs. Tallies
  are \<open>u32\<close>; theorems about outcomes assume \<open>yes + no < 2 ^ 32\<close> and the overflow
  cases are theorems of their own (a release build reports NoQuorum for \<open>2 ^ 31\<close> yes
  and \<open>2 ^ 31\<close> no votes; an overflowing \<open>start + duration\<close> opens a window that
  never accepts a vote). The proposal and entry counters are \<open>u64\<close>: a debug build panics
  at \<open>u64::MAX\<close>, so its ids stay below the counter; a release build wraps, and the
  invariants allow that case explicitly. Balances are \<open>u128\<close> with saturation.

  \<^emph>\<open>Witnesses.\<close> The examples of the specification, the scenarios of the pallets'
  tests replayed with \<open>run_calls\<close> at block 1, and concrete encodings instantiate the
  theorems.

  \<^emph>\<open>Not modelled.\<close> The weight values (\<open>weights.rs\<close>, not in the repository) and the
  weight measurement itself have no behaviour to verify. The \<open>Config\<close> traits, the
  \<open>mod\<close> declarations and the imports are declarations without behaviour; the
  \<open>RuntimeEvent\<close> binding of each \<open>Config\<close> is the event lifting of \<open>mock_call\<close>.
  The xxHash functions behind the storage keys are parameters, not their definitions, and
  of the FRAME machinery around the pallets only what the code's behaviour depends on is
  modelled (origins, the block number, dispatch errors and transactional calls, event
  deposit, the codec and the storage layout); fees, the transaction pool and block
  authoring are outside the repository's code.
\<close>

end
